theory Spec2Isabelle
  imports Complex_Main
begin

section \<open>Common ground: JavaScript values, errors, random draws\<close>

text \<open>
  Optional string arguments (\<^verbatim>\<open>salt?: string\<close>, \<^verbatim>\<open>keyId?: string\<close>) are
  \<open>string option\<close>; \<open>None\<close> is \<^verbatim>\<open>undefined\<close>. JavaScript's truthiness
  test (\<^verbatim>\<open>if (x)\<close>, \<^verbatim>\<open>x || y\<close>, \<^verbatim>\<open>!x\<close>) treats both
  \<^verbatim>\<open>undefined\<close> and the empty string as false.
\<close>

definition truthy :: "string option \<Rightarrow> bool" where
  "truthy v = (case v of None \<Rightarrow> False | Some s \<Rightarrow> s \<noteq> [])"

text \<open>\<^verbatim>\<open>a || b\<close> on an optional string with a string default.\<close>

definition orElse :: "string option \<Rightarrow> string \<Rightarrow> string" where
  "orElse v d = (case v of None \<Rightarrow> d | Some s \<Rightarrow> if s = [] then d else s)"

text \<open>Every \<^verbatim>\<open>throw new Error(...)\<close> of the modelled code, and the failures of the
  collaborators (remote RPC client, library calls), as values.\<close>

datatype error =
    MasterKeyNotInitialized
  | EncryptionKeyNotFound
  | DecryptionKeyNotFound
  | DecryptionFailed
  | MalformedUtf8
  | InvalidPrivateKey
  | StorageNotInitialized
  | OwnerNotInitialized
  | TypeError
  | RangeError
  | SyntaxError
  | TimelockNotExpired
  | RemoteError string

text \<open>
  The code reads the clock and random sources. One value of \<open>entropy\<close> holds what a
  single operation draws: \<^verbatim>\<open>Date.now()\<close>, the text of
  \<^verbatim>\<open>Math.random().toString(36)\<close> and the bytes that
  \<^verbatim>\<open>crypto.getRandomValues\<close> writes (by index).
\<close>

record entropy =
  Date_now :: nat
  Math_random36 :: string
  getRandomValues :: "nat \<Rightarrow> nat"

fun decimal :: "nat \<Rightarrow> string" where
  "decimal n = (if n < 10 then [''0123456789'' ! n]
                else decimal (n div 10) @ [''0123456789'' ! (n mod 10)])"

declare decimal.simps [simp del]

text \<open>\<^verbatim>\<open>`key_${Date.now()}_${Math.random().toString(36).substr(2, 9)}`\<close>
  (the private \<^verbatim>\<open>generateKeyId\<close> of both services).\<close>

definition generateKeyId :: "entropy \<Rightarrow> string" where
  "generateKeyId e = ''key_'' @ decimal (Date_now e) @ ''_'' @ take 9 (drop 2 (Math_random36 e))"

text \<open>\<^verbatim>\<open>byte.toString(16).padStart(2, '0')\<close> on an element of a Uint8Array.\<close>

definition hexDigit :: "nat \<Rightarrow> char" where
  "hexDigit d = ''0123456789abcdef'' ! (d mod 16)"

definition toHex2 :: "nat \<Rightarrow> string" where
  "toHex2 byte = [hexDigit ((byte mod 256) div 16), hexDigit (byte mod 16)]"

section \<open>Key Management (KeyManagementService)\<close>

text \<open>
  The declaration of the type \<^verbatim>\<open>EncryptionKey\<close> is not among the sources; the record
  has the fields that the places constructing a key set (\<^verbatim>\<open>salt\<close> only by some).
  \<^verbatim>\<open>createdAt\<close> is the clock reading. The session cache is a JavaScript Map; the
  operations modelled here only look keys up in it and store keys into it.
\<close>

record EncryptionKey =
  publicKey :: string
  privateKey :: string
  keyId :: string
  algorithm :: string
  createdAt :: nat
  salt :: "string option"

record KeyManagementService =
  sessionKeys :: "string \<rightharpoonup> EncryptionKey"
  masterKey :: "string option"

text \<open>The state after the constructor: no session keys, no master key.\<close>

definition newKeyManagementService :: KeyManagementService where
  "newKeyManagementService = \<lparr>sessionKeys = Map.empty, masterKey = None\<rparr>"

definition initializeWithPassword :: "string \<Rightarrow> KeyManagementService \<Rightarrow> KeyManagementService" where
  "initializeWithPassword password kms = kms\<lparr>masterKey := Some password\<rparr>"

text \<open>\<^verbatim>\<open>generateRandomKey\<close> and \<^verbatim>\<open>generateRandomSalt\<close>: 32 random bytes
  rendered as 64 hex digits.\<close>

definition generateRandomKey :: "entropy \<Rightarrow> string" where
  "generateRandomKey e = concat (map (\<lambda>i. toHex2 (getRandomValues e i)) [0..<32])"

definition generateRandomSalt :: "entropy \<Rightarrow> string" where
  "generateRandomSalt e = concat (map (\<lambda>i. toHex2 (getRandomValues e i)) [0..<32])"

definition generateSessionKey ::
  "string option \<Rightarrow> entropy \<Rightarrow> KeyManagementService \<Rightarrow> EncryptionKey \<times> KeyManagementService" where
  "generateSessionKey keyId0 e kms =
     (let kid' = orElse keyId0 (generateKeyId e);
          k = generateRandomKey e;
          encryptionKey = \<lparr>publicKey = k, privateKey = k, keyId = kid',
                           algorithm = ''AES-256-GCM'', createdAt = Date_now e, salt = None\<rparr>
      in (encryptionKey, kms\<lparr>sessionKeys := (sessionKeys kms)(kid' \<mapsto> encryptionKey)\<rparr>))"

definition generateMemoryKey ::
  "string \<Rightarrow> string option \<Rightarrow> entropy \<Rightarrow> KeyManagementService
     \<Rightarrow> error + EncryptionKey \<times> KeyManagementService" where
  "generateMemoryKey memoryId salt0 e kms =
     (if \<not> truthy (masterKey kms) then Inl MasterKeyNotInitialized
      else
        let kid' = ''memory_'' @ memoryId;
            memorySalt = orElse salt0 (generateRandomSalt e);
            keyMaterial = the (masterKey kms) @ ''_'' @ memoryId @ ''_'' @ memorySalt;
            encryptionKey = \<lparr>publicKey = keyMaterial, privateKey = keyMaterial, keyId = kid',
                             algorithm = ''AES-256-GCM'', createdAt = Date_now e,
                             salt = Some memorySalt\<rparr>
        in Inr (encryptionKey, kms\<lparr>sessionKeys := (sessionKeys kms)(kid' \<mapsto> encryptionKey)\<rparr>))"

definition getKey :: "KeyManagementService \<Rightarrow> string \<Rightarrow> EncryptionKey option" where
  "getKey kms kid = sessionKeys kms kid"

definition clearSession :: "KeyManagementService \<Rightarrow> KeyManagementService" where
  "clearSession kms = kms\<lparr>sessionKeys := Map.empty, masterKey := None\<rparr>"

definition isInitialized_kms :: "KeyManagementService \<Rightarrow> bool" where
  "isInitialized_kms kms = truthy (masterKey kms)"

section \<open>Envelope Encryption (EncryptionService)\<close>

text \<open>
  The CryptoJS library is a collaborator outside the repository; its functions are
  parameters of the model, gathered in one record:
  \<^item> \<open>PBKDF2 password salt iterations\<close>: \<^verbatim>\<open>CryptoJS.PBKDF2\<close> with key size 256/32
    and SHA-256;
  \<^item> \<open>AES_encrypt content key iv\<close>: \<^verbatim>\<open>CryptoJS.AES.encrypt(...).toString()\<close> in CBC
    mode with PKCS7 padding;
  \<^item> \<open>AES_decrypt ciphertext key iv\<close>: \<^verbatim>\<open>CryptoJS.AES.decrypt\<close>, a WordArray;
  \<^item> \<open>Utf8_stringify\<close>: \<^verbatim>\<open>wordArray.toString(CryptoJS.enc.Utf8)\<close>, which throws on
    malformed UTF-8 (\<open>None\<close>);
  \<^item> \<open>Hex_stringify\<close>, \<open>Hex_parse\<close>: \<^verbatim>\<open>CryptoJS.enc.Hex\<close>.
\<close>

record 'w CryptoJS =
  PBKDF2 :: "string \<Rightarrow> 'w \<Rightarrow> nat \<Rightarrow> 'w"
  AES_encrypt :: "string \<Rightarrow> 'w \<Rightarrow> 'w \<Rightarrow> string"
  AES_decrypt :: "string \<Rightarrow> 'w \<Rightarrow> 'w \<Rightarrow> 'w"
  Utf8_stringify :: "'w \<Rightarrow> string option"
  Hex_stringify :: "'w \<Rightarrow> string"
  Hex_parse :: "string \<Rightarrow> 'w"

record EncryptionConfig =
  algorithm_c :: string
  keyDerivation_c :: string
  iterations_c :: nat
  saltLength :: nat
  ivLength :: nat
  tagLength :: nat

definition defaultEncryptionConfig :: EncryptionConfig where
  "defaultEncryptionConfig =
     \<lparr>algorithm_c = ''AES-256-GCM'', keyDerivation_c = ''PBKDF2'', iterations_c = 100000,
      saltLength = 32, ivLength = 16, tagLength = 16\<rparr>"

record EncryptedData =
  encryptedContent :: string
  iv :: string
  salt_d :: string
  tag :: string
  algorithm_d :: string
  keyDerivation_d :: string
  iterations_d :: nat

record EncryptionService =
  config :: EncryptionConfig
  keys :: "string \<rightharpoonup> EncryptionKey"

definition newEncryptionService :: "EncryptionConfig \<Rightarrow> EncryptionService" where
  "newEncryptionService cfg = \<lparr>config = cfg, keys = Map.empty\<rparr>"

record DecryptionResult =
  content_r :: string
  decryptedAt :: nat
  keyUsed :: string
  algorithm_r :: string

definition generateKeyPair ::
  "'w CryptoJS \<Rightarrow> string option \<Rightarrow> entropy \<Rightarrow> (nat \<Rightarrow> nat \<Rightarrow> 'w) \<Rightarrow> EncryptionService
     \<Rightarrow> EncryptionKey \<times> EncryptionService" where
  "generateKeyPair lib keyId0 e rnd svc =
     (let k = rnd 0 32;
          kid' = orElse keyId0 (generateKeyId e);
          encryptionKey = \<lparr>publicKey = Hex_stringify lib k, privateKey = Hex_stringify lib k,
                           keyId = kid', algorithm = algorithm_c (config svc),
                           createdAt = Date_now e, salt = None\<rparr>
      in (encryptionKey, svc\<lparr>keys := (keys svc)(kid' \<mapsto> encryptionKey)\<rparr>))"

definition generateKeyFromPassword ::
  "'w CryptoJS \<Rightarrow> string \<Rightarrow> string option \<Rightarrow> entropy \<Rightarrow> (nat \<Rightarrow> nat \<Rightarrow> 'w)
     \<Rightarrow> EncryptionService
     \<Rightarrow> EncryptionKey \<times> EncryptionService" where
  "generateKeyFromPassword lib password salt0 e rnd svc =
     (let kid' = generateKeyId e;
          saltBytes = (if truthy salt0 then Hex_parse lib (the salt0) else rnd 0 32);
          derivedKey = PBKDF2 lib password saltBytes (iterations_c (config svc));
          encryptionKey = \<lparr>publicKey = Hex_stringify lib derivedKey,
                           privateKey = Hex_stringify lib derivedKey,
                           keyId = kid', algorithm = algorithm_c (config svc),
                           createdAt = Date_now e, salt = Some (Hex_stringify lib saltBytes)\<rparr>
      in (encryptionKey, svc\<lparr>keys := (keys svc)(kid' \<mapsto> encryptionKey)\<rparr>))"

text \<open>
  \<^verbatim>\<open>encrypt(content, keyId?, keyManagementService?)\<close>. The three lookups follow the
  source's order. \<open>rnd c n\<close> is what the call number \<open>c\<close> of
  \<^verbatim>\<open>CryptoJS.lib.WordArray.random(n)\<close> returns in this operation: the generated key
  is call 0, the salt call 1 and the iv call 2.
\<close>

definition encrypt ::
  "'w CryptoJS \<Rightarrow> string \<Rightarrow> string option \<Rightarrow> KeyManagementService option
     \<Rightarrow> entropy \<Rightarrow> (nat \<Rightarrow> nat \<Rightarrow> 'w) \<Rightarrow> EncryptionService
     \<Rightarrow> error + EncryptedData \<times> EncryptionService" where
  "encrypt lib content keyId0 kms e rnd svc =
     (let key1 = (case kms of
                    None \<Rightarrow> None
                  | Some m \<Rightarrow> if truthy keyId0 then getKey m (the keyId0) else None);
          key2 = (case key1 of
                    None \<Rightarrow> if truthy keyId0 then keys svc (the keyId0) else None
                  | Some k \<Rightarrow> Some k);
          (key3, svc') = (case key2 of
                            None \<Rightarrow> (let (k, s) = generateKeyPair lib None e rnd svc in (Some k, s))
                          | Some k \<Rightarrow> (Some k, svc))
      in case key3 of
           None \<Rightarrow> Inl EncryptionKeyNotFound
         | Some k \<Rightarrow>
             let saltW = rnd 1 (saltLength (config svc'));
                 ivW = rnd 2 (ivLength (config svc'));
                 derivedKey = PBKDF2 lib (privateKey k) saltW (iterations_c (config svc'));
                 encrypted = AES_encrypt lib content derivedKey ivW
             in Inr (\<lparr>encryptedContent = encrypted, iv = Hex_stringify lib ivW,
                      salt_d = Hex_stringify lib saltW, tag = [],
                      algorithm_d = algorithm_c (config svc'),
                      keyDerivation_d = keyDerivation_c (config svc'),
                      iterations_d = iterations_c (config svc')\<rparr>, svc'))"

definition decrypt ::
  "'w CryptoJS \<Rightarrow> EncryptedData \<Rightarrow> string \<Rightarrow> KeyManagementService option
     \<Rightarrow> entropy \<Rightarrow> EncryptionService \<Rightarrow> error + DecryptionResult" where
  "decrypt lib encryptedData kid kms e svc =
     (let key1 = (case kms of None \<Rightarrow> None | Some m \<Rightarrow> getKey m kid);
          key2 = (case key1 of None \<Rightarrow> keys svc kid | Some k \<Rightarrow> Some k)
      in case key2 of
           None \<Rightarrow> Inl DecryptionKeyNotFound
         | Some k \<Rightarrow>
             let saltW = Hex_parse lib (salt_d encryptedData);
                 ivW = Hex_parse lib (iv encryptedData);
                 derivedKey = PBKDF2 lib (privateKey k) saltW (iterations_d encryptedData);
                 decrypted = AES_decrypt lib (encryptedContent encryptedData) derivedKey ivW
             in (case Utf8_stringify lib decrypted of
                   None \<Rightarrow> Inl MalformedUtf8
                 | Some content \<Rightarrow>
                     if content = [] then Inl DecryptionFailed
                     else Inr \<lparr>content_r = content, decryptedAt = Date_now e, keyUsed = kid,
                               algorithm_r = algorithm_d encryptedData\<rparr>))"

text \<open>A key id is absent when it is not given, or names no key in the key management
  service (if one is passed) and none in the service's own key table.\<close>

definition keyAbsent ::
  "string option \<Rightarrow> KeyManagementService option \<Rightarrow> EncryptionService \<Rightarrow> bool" where
  "keyAbsent keyId0 kms svc =
     (case keyId0 of
        None \<Rightarrow> True
      | Some i \<Rightarrow> (case kms of None \<Rightarrow> True | Some m \<Rightarrow> getKey m i = None) \<and> keys svc i = None)"

text \<open>
  What the model asks of the library: decrypting what was encrypted, with the same
  derived key and iv, gives back the text, and parsing a hex rendering gives back the
  WordArray.
\<close>

definition cryptojs_roundtrip :: "'w CryptoJS \<Rightarrow> bool" where
  "cryptojs_roundtrip lib =
     ((\<forall>p k v. Utf8_stringify lib (AES_decrypt lib (AES_encrypt lib p k v) k v) = Some p) \<and>
      (\<forall>w. Hex_parse lib (Hex_stringify lib w) = w))"

text \<open>
  A small stand-in for the library, used to run the model on concrete inputs: a
  WordArray is a string, the derived key is the password joined with the salt, and a
  ciphertext carries the key and iv it was made with; decrypting with another key or iv
  yields the empty WordArray.
\<close>

definition toyCryptoJS :: "string CryptoJS" where
  "toyCryptoJS =
     \<lparr>PBKDF2 = (\<lambda>password s n. password @ ''#'' @ s),
      AES_encrypt = (\<lambda>p k v. decimal (length k) @ '':'' @ k @ decimal (length v) @ '':'' @ v @ p),
      AES_decrypt = (\<lambda>c k v.
         let hdr = decimal (length k) @ '':'' @ k @ decimal (length v) @ '':'' @ v
         in if take (length hdr) c = hdr then drop (length hdr) c else []),
      Utf8_stringify = Some,
      Hex_stringify = (\<lambda>w. w),
      Hex_parse = (\<lambda>s. s)\<rparr>"

definition toyEntropy :: "nat \<Rightarrow> entropy" where
  "toyEntropy n =
     \<lparr>Date_now = 1700 + n, Math_random36 = ''0.k3x9q2m1zp7'',
      getRandomValues = (\<lambda>i. (i * 7 + n) mod 256)\<rparr>"

definition toyRandom :: "nat \<Rightarrow> nat \<Rightarrow> string" where
  "toyRandom c len = replicate len (''abcdefgh'' ! (c mod 8))"

subsection \<open>The other operations that write the key table\<close>

text \<open>
  The declarations of \<^verbatim>\<open>TimelockEncryption\<close> and \<^verbatim>\<open>ThresholdEncryptionConfig\<close> are
  not among the sources; the record has the fields that
  \<^verbatim>\<open>createTimelockEncryption\<close> sets, \<open>unlockTime\<close> being the millisecond count of
  \<^verbatim>\<open>unlockTime.getTime()\<close>, and of the threshold configuration only
  \<^verbatim>\<open>totalShares\<close> is read.
\<close>

record TimelockEncryption =
  encryptedKey :: string
  unlockTime :: nat
  timelockAlgorithm :: string
  publicKey_t :: string

text \<open>
  \<^verbatim>\<open>createSecretShares\<close>: one random share per participant, the last one then
  replaced by the secret XORed with the others. \<open>xorWords a b\<close> is the WordArray that
  \<^verbatim>\<open>CryptoJS.lib.WordArray.create\<close> builds from the word-wise XOR of \<open>a\<close> and
  \<open>b\<close>, up to the shorter of the two. The shares are the random draws number 3 and
  later of the operation. With no share at all the assignment to index \<open>-1\<close> leaves
  the array empty.
\<close>

definition createSecretShares ::
  "'w CryptoJS \<Rightarrow> ('w \<Rightarrow> 'w \<Rightarrow> 'w) \<Rightarrow> string \<Rightarrow> nat \<Rightarrow> (nat \<Rightarrow> nat \<Rightarrow> 'w) \<Rightarrow> string list" where
  "createSecretShares lib xorWords secret totalShares rnd =
     (let shares = map (\<lambda>i. Hex_stringify lib (rnd (3 + i) 32)) [0..<totalShares];
          xorResult = fold (\<lambda>i acc. xorWords acc (Hex_parse lib (shares ! i)))
                        [0..<length shares - 1] (Hex_parse lib secret)
      in if shares = [] then [] else shares[length shares - 1 := Hex_stringify lib xorResult])"

text \<open>\<^verbatim>\<open>createThresholdEncryption\<close> stores a temporary key, encrypts under it and
  deletes it again; when \<^verbatim>\<open>encrypt\<close> throws, the temporary key stays.\<close>

definition createThresholdEncryption ::
  "'w CryptoJS \<Rightarrow> ('w \<Rightarrow> 'w \<Rightarrow> 'w) \<Rightarrow> string \<Rightarrow> nat \<Rightarrow> entropy \<Rightarrow> (nat \<Rightarrow> nat \<Rightarrow> 'w)
     \<Rightarrow> EncryptionService
     \<Rightarrow> (error + string list \<times> EncryptedData) \<times> EncryptionService" where
  "createThresholdEncryption lib xorWords content totalShares e rnd svc =
     (let secretKey = rnd 0 32;
          kid' = generateKeyId e;
          tempKey = \<lparr>publicKey = Hex_stringify lib secretKey,
                     privateKey = Hex_stringify lib secretKey,
                     keyId = kid', algorithm = algorithm_c (config svc),
                     createdAt = Date_now e, salt = None\<rparr>;
          svc1 = svc\<lparr>keys := (keys svc)(kid' \<mapsto> tempKey)\<rparr>
      in case encrypt lib content (Some kid') None e rnd svc1 of
           Inl err \<Rightarrow> (Inl err, svc1)
         | Inr (encrypted, svc2) \<Rightarrow>
             (Inr (createSecretShares lib xorWords (Hex_stringify lib secretKey) totalShares rnd,
                   encrypted),
              svc2\<lparr>keys := (keys svc2)(kid' := None)\<rparr>))"

definition createTimelockEncryption ::
  "'w CryptoJS \<Rightarrow> string \<Rightarrow> nat \<Rightarrow> entropy \<Rightarrow> (nat \<Rightarrow> nat \<Rightarrow> 'w) \<Rightarrow> EncryptionService
     \<Rightarrow> (error + TimelockEncryption) \<times> EncryptionService" where
  "createTimelockEncryption lib content unlockAt e rnd svc =
     (let (k, svc1) = generateKeyPair lib None e rnd svc
      in case encrypt lib content (Some (keyId k)) None e rnd svc1 of
           Inl err \<Rightarrow> (Inl err, svc1)
         | Inr (encrypted, svc2) \<Rightarrow>
             (Inr \<lparr>encryptedKey = privateKey k, unlockTime = unlockAt,
                    timelockAlgorithm = ''RSA'', publicKey_t = publicKey k\<rparr>, svc2))"

definition isTimelockExpired :: "entropy \<Rightarrow> TimelockEncryption \<Rightarrow> bool" where
  "isTimelockExpired e timelock = (Date_now e \<ge> unlockTime timelock)"

text \<open>\<^verbatim>\<open>decryptTimelock\<close> stores the key it rebuilds from the timelock, whatever the
  two fields of the timelock hold, before it decrypts.\<close>

definition decryptTimelock ::
  "'w CryptoJS \<Rightarrow> TimelockEncryption \<Rightarrow> EncryptedData \<Rightarrow> entropy \<Rightarrow> EncryptionService
     \<Rightarrow> (error + DecryptionResult) \<times> EncryptionService" where
  "decryptTimelock lib timelock encryptedData e svc =
     (if \<not> isTimelockExpired e timelock then (Inl TimelockNotExpired, svc)
      else
        let k = \<lparr>publicKey = publicKey_t timelock, privateKey = encryptedKey timelock,
                 keyId = generateKeyId e, algorithm = algorithm_c (config svc),
                 createdAt = Date_now e, salt = None\<rparr>;
            svc1 = svc\<lparr>keys := (keys svc)(keyId k \<mapsto> k)\<rparr>
        in (decrypt lib encryptedData (keyId k) None e svc1, svc1))"

definition removeKey :: "string \<Rightarrow> EncryptionService \<Rightarrow> bool \<times> EncryptionService" where
  "removeKey kid svc =
     ((case keys svc kid of None \<Rightarrow> False | Some k \<Rightarrow> True), svc\<lparr>keys := (keys svc)(kid := None)\<rparr>)"

text \<open>
  \<^verbatim>\<open>importKey(keyData)\<close> stores what \<^verbatim>\<open>JSON.parse(keyData)\<close> returns, unchecked.
  \<open>parse\<close> is \<^verbatim>\<open>JSON.parse\<close> read as an \<^verbatim>\<open>EncryptionKey\<close>; \<open>None\<close>: it
  throws, or returns \<^verbatim>\<open>null\<close>, whose \<^verbatim>\<open>keyId\<close> cannot be read.
\<close>

definition importKey ::
  "(string \<Rightarrow> EncryptionKey option) \<Rightarrow> string \<Rightarrow> EncryptionService
     \<Rightarrow> (error + EncryptionKey) \<times> EncryptionService" where
  "importKey parse keyData svc =
     (case parse keyData of
        None \<Rightarrow> (Inl SyntaxError, svc)
      | Some k \<Rightarrow> (Inr k, svc\<lparr>keys := (keys svc)(keyId k \<mapsto> k)\<rparr>))"

text \<open>
  \<^verbatim>\<open>loadKeysFromStorage\<close>: \<open>stored\<close> is the parsed item
  \<^verbatim>\<open>'encryption-keys'\<close> of localStorage (\<open>None\<close>: no item, or one that does not
  parse). The keys are stored one by one; an element whose \<^verbatim>\<open>keyId\<close> cannot be read
  (\<open>None\<close>) ends the loop with an exception, which is caught.
\<close>

fun storeEach :: "EncryptionKey option list \<Rightarrow> (string \<rightharpoonup> EncryptionKey) \<Rightarrow> (string \<rightharpoonup> EncryptionKey)" where
  "storeEach [] m = m"
| "storeEach (None # rest) m = m"
| "storeEach (Some k # rest) m = storeEach rest (m(keyId k \<mapsto> k))"

definition loadKeysFromStorage ::
  "bool \<Rightarrow> EncryptionKey option list option \<Rightarrow> EncryptionService \<Rightarrow> EncryptionService" where
  "loadKeysFromStorage window stored svc =
     (if \<not> window then svc
      else case stored of
             None \<Rightarrow> svc
           | Some keysArray \<Rightarrow> svc\<lparr>keys := storeEach keysArray (keys svc)\<rparr>)"

text \<open>Two backups: one parses to a key whose two fields differ, one to a key whose
  fields are equal.\<close>

definition toyParse :: "string \<Rightarrow> EncryptionKey option" where
  "toyParse keyData =
     (if keyData = ''{k7}'' then
        Some \<lparr>publicKey = ''pub7'', privateKey = ''priv7'', keyId = ''k7'',
              algorithm = ''AES-256-GCM'', createdAt = 1700, salt = None\<rparr>
      else if keyData = ''{k8}'' then
        Some \<lparr>publicKey = ''c0ffee'', privateKey = ''c0ffee'', keyId = ''k8'',
              algorithm = ''AES-256-GCM'', createdAt = 1700, salt = None\<rparr>
      else None)"

subsection \<open>Symmetric key material\<close>

text \<open>
  The two legacy fields \<^verbatim>\<open>publicKey\<close> and \<^verbatim>\<open>privateKey\<close> hold one piece of
  symmetric material when they are equal. \<open>kms_reachable\<close> are the states of a
  KeyManagementService that its public operations produce from the constructor's state.
\<close>

definition symmetricMaterial :: "EncryptionKey \<Rightarrow> bool" where
  "symmetricMaterial k = (publicKey k = privateKey k)"

definition allSymmetric :: "(string \<rightharpoonup> EncryptionKey) \<Rightarrow> bool" where
  "allSymmetric m = (\<forall>i k. m i = Some k \<longrightarrow> symmetricMaterial k)"

inductive kms_reachable :: "KeyManagementService \<Rightarrow> bool" where
  constructed: "kms_reachable newKeyManagementService"
| initialized: "kms_reachable kms \<Longrightarrow> kms_reachable (initializeWithPassword password kms)"
| sessionKey: "kms_reachable kms \<Longrightarrow> kms_reachable (snd (generateSessionKey keyId0 e kms))"
| memoryKey: "kms_reachable kms \<Longrightarrow> generateMemoryKey memoryId salt0 e kms = Inr (k, kms')
     \<Longrightarrow> kms_reachable kms'"
| cleared: "kms_reachable kms \<Longrightarrow> kms_reachable (clearSession kms)"

text \<open>
  \<open>es_reachable lib\<close> are the states of an EncryptionService that its operations
  produce from the constructor's state, as long as every key that enters from outside
  (through \<^verbatim>\<open>importKey\<close>, \<^verbatim>\<open>loadKeysFromStorage\<close> or \<^verbatim>\<open>decryptTimelock\<close>) has
  equal fields. The operations left out (\<^verbatim>\<open>decrypt\<close>, \<^verbatim>\<open>getKeys\<close>,
  \<^verbatim>\<open>exportKey\<close>, \<^verbatim>\<open>saveKeysToStorage\<close>, \<^verbatim>\<open>reconstructFromShares\<close>) do not
  write the key table.
\<close>

definition symmetricImports :: "EncryptionKey option list \<Rightarrow> bool" where
  "symmetricImports keysArray =
     list_all (\<lambda>x. case x of None \<Rightarrow> True | Some k \<Rightarrow> symmetricMaterial k) keysArray"

inductive es_reachable :: "'w CryptoJS \<Rightarrow> EncryptionService \<Rightarrow> bool" for lib :: "'w CryptoJS" where
  es_constructed: "es_reachable lib (newEncryptionService cfg)"
| es_keyPair: "es_reachable lib svc \<Longrightarrow> es_reachable lib (snd (generateKeyPair lib keyId0 e rnd svc))"
| es_password: "es_reachable lib svc
     \<Longrightarrow> es_reachable lib (snd (generateKeyFromPassword lib password salt0 e rnd svc))"
| es_encrypt: "es_reachable lib svc \<Longrightarrow> encrypt lib plaintext keyId0 kms e rnd svc = Inr (env, svc')
     \<Longrightarrow> es_reachable lib svc'"
| es_threshold: "es_reachable lib svc
     \<Longrightarrow> es_reachable lib (snd (createThresholdEncryption lib xorWords plaintext n e rnd svc))"
| es_timelock: "es_reachable lib svc
     \<Longrightarrow> es_reachable lib (snd (createTimelockEncryption lib plaintext unlockAt e rnd svc))"
| es_removed: "es_reachable lib svc \<Longrightarrow> es_reachable lib (snd (removeKey kid svc))"
| es_unlocked: "es_reachable lib svc \<Longrightarrow> publicKey_t timelock = encryptedKey timelock
     \<Longrightarrow> es_reachable lib (snd (decryptTimelock lib timelock data e svc))"
| es_imported: "es_reachable lib svc \<Longrightarrow> importKey parse keyData svc = (r, svc')
     \<Longrightarrow> (\<And>k. r = Inr k \<Longrightarrow> symmetricMaterial k) \<Longrightarrow> es_reachable lib svc'"
| es_loaded: "es_reachable lib svc \<Longrightarrow> symmetricImports keysArray
     \<Longrightarrow> es_reachable lib (loadKeysFromStorage window (Some keysArray) svc)"

section \<open>Entity Store Adapter (ArkivStorageService)\<close>

subsection \<open>Entities, records and the collaborators\<close>

text \<open>
  A raw entity of the remote store, as far as the adapter reads it: its key, its inline
  payload \<^verbatim>\<open>value\<close> (a hex string, possibly missing) and its \<^verbatim>\<open>toText\<close> method,
  which may be absent, return a text or throw.
\<close>

datatype toTextMethod = NoToText | ToTextReturns string | ToTextThrows

record Entity =
  key :: string
  value_e :: "string option"
  toText :: toTextMethod

text \<open>
  A JavaScript Date by what \<^verbatim>\<open>toISOString()\<close> does with it: a valid date renders
  as a text, an invalid one (\<^verbatim>\<open>new Date\<close> of something that is no date) throws a
  RangeError.
\<close>

datatype Date = ISO string | Invalid_Date

definition toISOString :: "Date \<Rightarrow> error + string" where
  "toISOString d = (case d of ISO t \<Rightarrow> Inr t | Invalid_Date \<Rightarrow> Inl RangeError)"

text \<open>
  The parts of a memory record that the adapter reads. \<open>owner = None\<close> stands for an
  access policy without a usable owner string, on which
  \<^verbatim>\<open>owner.toLowerCase()\<close> throws a TypeError; \<open>accessPolicy = None\<close> for a
  record without access policy, on which reading \<^verbatim>\<open>accessPolicy.owner\<close> throws.
  Sizes are byte counts: integers, which JavaScript holds as doubles.
\<close>

record AccessPolicy =
  owner :: "string option"

record Metadata =
  size_m :: "int option"

text \<open>The object that \<^verbatim>\<open>JSON.parse\<close> returns, by the properties
  \<^verbatim>\<open>entityToMemory\<close> reads from it; \<open>createdAt_j\<close> and \<open>updatedAt_j\<close>
  are the Dates that \<^verbatim>\<open>new Date(data.createdAt)\<close> and
  \<^verbatim>\<open>new Date(data.updatedAt)\<close> construct.\<close>

record JsonData =
  id_j :: "string option"
  content_j :: string
  type_j :: "string option"
  category_j :: "string option"
  tags_j :: "string list option"
  createdAt_j :: Date
  updatedAt_j :: Date
  encrypted_j :: bool
  accessPolicy_j :: "AccessPolicy option"
  metadata_j :: "Metadata option"
  transactionUrl_j :: "string option"
  transactionHash_j :: "string option"

record MemoryEntry =
  id_m :: "string option"
  content :: string
  type_m :: string
  category :: string
  tags :: "string list"
  createdAt_m :: Date
  updatedAt_m :: Date
  encrypted :: bool
  accessPolicy :: "AccessPolicy option"
  metadata :: Metadata
  ipfsHash :: string
  entityUrl :: string
  transactionUrl :: string

text \<open>An attribute of a stored entity: its key and its value, which is missing when
  the record has none.\<close>

type_synonym Attribute = "string \<times> string option"

record Query =
  ownedBy :: string
  withAttributes :: bool
  withPayload :: bool
  limit_q :: nat

text \<open>
  The result of \<^verbatim>\<open>query.fetch()\<close>: the first page, and what each further call of
  \<^verbatim>\<open>result.next()\<close> does (throw, or load the next page).
  \<^verbatim>\<open>hasNextPage()\<close> holds while further pages are left.
\<close>

record QueryResult =
  entities :: "Entity list"
  morePages :: "(error + Entity list) list"

text \<open>
  Everything outside the class that the adapter calls: the remote store's RPC client
  (\<open>getEntity\<close>, \<open>queryFetch\<close>, \<open>createEntity\<close>, \<open>deleteEntity\<close>,
  \<open>updateEntity\<close>, \<open>rawQuery\<close> for \<^verbatim>\<open>publicClient.query\<close>;
  \<open>getEntity\<close> throws, or resolves to an entity or to \<^verbatim>\<open>null\<close> or
  \<^verbatim>\<open>undefined\<close> (\<open>None\<close>), which the code guards against with
  \<^verbatim>\<open>fullEntity?.value\<close>, while the entities of a listing are entities;
  \<open>createEntity\<close> and \<open>updateEntity\<close> get the record that the payload is made
  from and the attributes), \<^verbatim>\<open>localStorage.setItem\<close> by whether it accepts the
  list of keys (\<open>False\<close>: it throws, as when the quota is exceeded), the account
  derivation of the SDK, \<^verbatim>\<open>JSON.parse\<close> (\<open>None\<close>: it throws, or yields a value
  whose properties cannot be read), \<^verbatim>\<open>Buffer.from(hex, 'hex').toString('utf-8')\<close>, the
  length of \<^verbatim>\<open>jsonToPayload(...)\<close>, whether \<^verbatim>\<open>window\<close> is defined, the clock, the
  chain's default id, and the order in which the fetches that one
  \<^verbatim>\<open>Promise.all\<close> has in flight settle (positions among the pending fetches, first
  settled first; positions it leaves out settle last, in listing order).
\<close>

record Collaborators =
  getEntity :: "string \<Rightarrow> error + Entity option"
  queryFetch :: "Query \<Rightarrow> error + QueryResult"
  createEntity :: "MemoryEntry \<Rightarrow> Attribute list \<Rightarrow> error + string \<times> string option"
  deleteEntity :: "string \<Rightarrow> error option"
  updateEntity :: "string \<Rightarrow> MemoryEntry \<Rightarrow> Attribute list \<Rightarrow> error + string option"
  setItem :: "string list \<Rightarrow> bool"
  rawQuery :: "string \<Rightarrow> error + Entity list"
  privateKeyToAccount :: "string \<Rightarrow> error + string"
  JSON_parse :: "string \<Rightarrow> JsonData option"
  hexToUtf8 :: "string \<Rightarrow> string"
  payloadLength :: "MemoryEntry \<Rightarrow> nat"
  windowDefined :: bool
  clock :: nat
  mendoza_id :: nat
  completion :: "nat list"

record ArkivConfig =
  privateKey_a :: string
  explorerUrl_a :: "string option"
  chainId_a :: "nat option"

text \<open>
  The fields of the class, followed by two pieces of state outside it: the item
  \<^verbatim>\<open>'arkiv-entity-keys'\<close> of the browser's localStorage (the persisted Local Key
  Index; \<open>None\<close>: no item, or one that does not parse as a list of keys), and a log
  of the keys passed to \<^verbatim>\<open>publicClient.getEntity\<close>, kept only to count fetches. \<^verbatim>\<open>entityKeys\<close> is a JavaScript Set: a list without duplicates in
  insertion order.
\<close>

record ArkivStorageService =
  config_a :: ArkivConfig
  isInitialized :: bool
  walletClient :: bool
  publicClient :: bool
  ownerAddress :: "string option"
  explorerUrl :: string
  entityKeys :: "string list"
  individualFetchFailures :: nat
  skipIndividualFetch :: bool
  localStorage_keys :: "string list option"
  getEntityCalls :: "string list"

definition newArkivStorageService :: "ArkivConfig \<Rightarrow> string list option \<Rightarrow> ArkivStorageService" where
  "newArkivStorageService cfg stored =
     \<lparr>config_a = cfg, isInitialized = False, walletClient = False, publicClient = False,
      ownerAddress = None,
      explorerUrl = orElse (explorerUrl_a cfg) ''https://explorer.mendoza.hoodi.arkiv.network'',
      entityKeys = [], individualFetchFailures = 0, skipIndividualFetch = False,
      localStorage_keys = stored, getEntityCalls = []\<rparr>"

definition chainId :: "Collaborators \<Rightarrow> ArkivStorageService \<Rightarrow> nat" where
  "chainId env st =
     (case chainId_a (config_a st) of
        None \<Rightarrow> mendoza_id env
      | Some c \<Rightarrow> if c = 0 then mendoza_id env else c)"

subsection \<open>The Local Key Index\<close>

definition Set_add :: "string \<Rightarrow> string list \<Rightarrow> string list" where
  "Set_add k ks = (if k \<in> set ks then ks else ks @ [k])"

definition Set_delete :: "string \<Rightarrow> string list \<Rightarrow> string list" where
  "Set_delete k ks = removeAll k ks"

definition new_Set :: "string list \<Rightarrow> string list" where
  "new_Set ks = fold Set_add ks []"

definition loadEntityKeysFromStorage :: "Collaborators \<Rightarrow> ArkivStorageService \<Rightarrow> ArkivStorageService" where
  "loadEntityKeysFromStorage env st =
     (if windowDefined env then
        (case localStorage_keys st of
           None \<Rightarrow> st
         | Some raw \<Rightarrow> st\<lparr>entityKeys := new_Set raw\<rparr>)
      else st)"

text \<open>\<^verbatim>\<open>saveEntityKeysToStorage\<close> catches a throwing \<^verbatim>\<open>setItem\<close>; the stored
  item then stays as it was.\<close>

definition saveEntityKeysToStorage :: "Collaborators \<Rightarrow> ArkivStorageService \<Rightarrow> ArkivStorageService" where
  "saveEntityKeysToStorage env st =
     (if windowDefined env \<and> setItem env (entityKeys st)
      then st\<lparr>localStorage_keys := Some (entityKeys st)\<rparr> else st)"

subsection \<open>Initialization\<close>

text \<open>
  Strings are sequences of 8-bit characters, read as the code points U+0000 to U+00FF.
  Of these \<^verbatim>\<open>String.prototype.trim\<close> strips the six ASCII blanks and the
  no-break space.
\<close>

definition isSpace :: "char \<Rightarrow> bool" where
  "isSpace c = (c \<in> set [CHR '' '', CHR 0x09, CHR 0x0A, CHR 0x0B, CHR 0x0C, CHR 0x0D, CHR 0xA0])"

definition trim :: "string \<Rightarrow> string" where
  "trim s = rev (dropWhile isSpace (rev (dropWhile isSpace s)))"

text \<open>\<^verbatim>\<open>initialize\<close> throws before it changes any field, or succeeds.\<close>

definition initialize :: "Collaborators \<Rightarrow> ArkivStorageService \<Rightarrow> error + ArkivStorageService" where
  "initialize env st =
     (if isInitialized st then Inr st
      else
        let pk = trim (privateKey_a (config_a st))
        in if pk = [] \<or> pk = ''0x'' \<or> length pk \<noteq> 66 then Inl InvalidPrivateKey
           else (case privateKeyToAccount env pk of
                   Inl err \<Rightarrow> Inl err
                 | Inr address \<Rightarrow>
                     Inr (loadEntityKeysFromStorage env
                            (st\<lparr>publicClient := True, walletClient := True,
                                ownerAddress := Some address, isInitialized := True\<rparr>))))"

definition ensureClients :: "ArkivStorageService \<Rightarrow> error option" where
  "ensureClients st =
     (if \<not> walletClient st \<or> \<not> publicClient st \<or> \<not> truthy (ownerAddress st)
      then Some StorageNotInitialized else None)"

text \<open>The error, if one is thrown, with the state at that point.\<close>

definition ensureInitialized :: "Collaborators \<Rightarrow> ArkivStorageService \<Rightarrow> error option \<times> ArkivStorageService" where
  "ensureInitialized env st =
     (if \<not> isInitialized st then
        (case initialize env st of
           Inl err \<Rightarrow> (Some err, st)
         | Inr st' \<Rightarrow> (ensureClients st', st'))
      else (ensureClients st, st))"

definition cleanup :: "ArkivStorageService \<Rightarrow> ArkivStorageService" where
  "cleanup st = st\<lparr>isInitialized := False, walletClient := False, publicClient := False\<rparr>"

subsection \<open>Decoding an entity (entityToMemory)\<close>

definition memoryOfData :: "string \<Rightarrow> string \<Rightarrow> JsonData \<Rightarrow> MemoryEntry" where
  "memoryOfData explorer ekey data =
     \<lparr>id_m = id_j data,
      content = content_j data,
      type_m = orElse (type_j data) ''conversation'',
      category = orElse (category_j data) ''general'',
      tags = (case tags_j data of None \<Rightarrow> [] | Some ts \<Rightarrow> ts),
      createdAt_m = createdAt_j data,
      updatedAt_m = updatedAt_j data,
      encrypted = encrypted_j data,
      accessPolicy = accessPolicy_j data,
      metadata = (case metadata_j data of None \<Rightarrow> \<lparr>size_m = None\<rparr> | Some md \<Rightarrow> md),
      ipfsHash = ekey,
      entityUrl = explorer @ ''/entity/'' @ ekey,
      transactionUrl = orElse (transactionUrl_j data)
                         (explorer @ ''/tx/'' @ orElse (transactionHash_j data) [])\<rparr>"

text \<open>The second \<^verbatim>\<open>try\<close> block of \<^verbatim>\<open>entityToMemory\<close>: the payload text, then the
  record. Every failure inside is caught and gives \<^verbatim>\<open>null\<close>.\<close>

definition payloadText :: "Collaborators \<Rightarrow> Entity \<Rightarrow> string option" where
  "payloadText env entity =
     (case toText entity of
        ToTextReturns t \<Rightarrow> Some t
      | ToTextThrows \<Rightarrow> None
      | NoToText \<Rightarrow>
          (case value_e entity of
             None \<Rightarrow> None
           | Some v \<Rightarrow>
               if v = [] then None
               else
                 let hexValue = (if take 2 v = ''0x'' then drop 2 v else v)
                 in if hexValue = [] then None else Some (hexToUtf8 env hexValue)))"

definition decodeEntity :: "Collaborators \<Rightarrow> string \<Rightarrow> Entity \<Rightarrow> MemoryEntry option" where
  "decodeEntity env explorer entity =
     (case payloadText env entity of
        None \<Rightarrow> None
      | Some text \<Rightarrow>
          if text = [] then None
          else (case JSON_parse env text of
                  None \<Rightarrow> None
                | Some data \<Rightarrow>
                    if \<not> truthy (id_j data) then None
                    else Some (memoryOfData explorer (key entity) data)))"

text \<open>\<^verbatim>\<open>this.individualFetchFailures++\<close> followed by the threshold test.\<close>

definition countFailure :: "ArkivStorageService \<Rightarrow> ArkivStorageService" where
  "countFailure st =
     (let st1 = st\<lparr>individualFetchFailures := individualFetchFailures st + 1\<rparr>
      in if individualFetchFailures st1 \<ge> 5 then st1\<lparr>skipIndividualFetch := True\<rparr> else st1)"

text \<open>
  \<^verbatim>\<open>entityToMemory\<close> is an async function with one \<^verbatim>\<open>await\<close>, on the recovery
  fetch. \<open>entityToMemory_begin\<close> is its synchronous part up to that point: it either
  resolves at once (inline payload, or breaker tripped) or issues the fetch.
  \<open>entityToMemory_resume\<close> is the rest, run when the fetch has settled with
  \<open>outcome\<close>. When the fetch resolves to \<^verbatim>\<open>null\<close>, the code counts a failure,
  then reads \<^verbatim>\<open>toText\<close> of \<^verbatim>\<open>null\<close>, which throws a TypeError, and the
  outer \<^verbatim>\<open>catch\<close> counts a second failure.
\<close>

datatype started = Resolved "MemoryEntry option" | Awaiting Entity

definition entityToMemory_begin :: "Collaborators \<Rightarrow> ArkivStorageService \<Rightarrow> Entity \<Rightarrow> started" where
  "entityToMemory_begin env st entity =
     (if \<not> truthy (value_e entity) then
        (if skipIndividualFetch st then Resolved None else Awaiting entity)
      else Resolved (decodeEntity env (explorerUrl st) entity))"

definition entityToMemory_resume ::
  "Collaborators \<Rightarrow> ArkivStorageService \<Rightarrow> error + Entity option
     \<Rightarrow> MemoryEntry option \<times> ArkivStorageService" where
  "entityToMemory_resume env st outcome =
     (case outcome of
        Inl err \<Rightarrow> (None, countFailure st)
      | Inr None \<Rightarrow> (None, countFailure (countFailure st))
      | Inr (Some fullEntity) \<Rightarrow>
          if \<not> truthy (value_e fullEntity) then
            (let st1 = countFailure st
             in case toText fullEntity of
                  ToTextReturns text \<Rightarrow>
                    if text \<noteq> [] then
                      (let st2 = st1\<lparr>individualFetchFailures := 0\<rparr>
                       in case JSON_parse env text of
                            None \<Rightarrow> (None, st2)
                          | Some data \<Rightarrow>
                              (Some (memoryOfData (explorerUrl st) (key fullEntity) data), st2))
                    else (None, st1)
                | ToTextThrows \<Rightarrow> (None, st1)
                | NoToText \<Rightarrow> (None, st1))
          else (decodeEntity env (explorerUrl st) fullEntity,
                st\<lparr>individualFetchFailures := 0\<rparr>))"

definition logFetch :: "string \<Rightarrow> ArkivStorageService \<Rightarrow> ArkivStorageService" where
  "logFetch k st = st\<lparr>getEntityCalls := getEntityCalls st @ [k]\<rparr>"

text \<open>One call of \<^verbatim>\<open>entityToMemory\<close> on an entity, run to completion before
  anything else happens (as when its caller awaits it in a loop).\<close>

definition entityToMemory ::
  "Collaborators \<Rightarrow> Entity \<Rightarrow> ArkivStorageService \<Rightarrow> MemoryEntry option \<times> ArkivStorageService" where
  "entityToMemory env entity st =
     (case entityToMemory_begin env st entity of
        Resolved r \<Rightarrow> (r, st)
      | Awaiting e \<Rightarrow> entityToMemory_resume env (logFetch (key e) st) (getEntity env (key e)))"

text \<open>
  \<^verbatim>\<open>entityToMemory(null)\<close>, as \<^verbatim>\<open>retrieveMemory\<close> calls it when its own fetch
  resolved to \<^verbatim>\<open>null\<close>: with the breaker tripped it returns \<^verbatim>\<open>null\<close>;
  otherwise reading \<^verbatim>\<open>entity.key\<close> throws a TypeError, in the logging branch
  (fewer than 3 failures counted) outside every \<^verbatim>\<open>try\<close> block, so that the
  exception leaves the function, and else inside the \<^verbatim>\<open>try\<close> block, whose
  \<^verbatim>\<open>catch\<close> counts a failure. No fetch is issued.
\<close>

definition entityToMemory_null ::
  "ArkivStorageService \<Rightarrow> (error + MemoryEntry option) \<times> ArkivStorageService" where
  "entityToMemory_null st =
     (if skipIndividualFetch st then (Inr None, st)
      else if individualFetchFailures st < 3 then (Inl TypeError, st)
      else (Inr None, countFailure st))"

text \<open>
  \<^verbatim>\<open>Promise.all(entities.map(async e => entityToMemory(e)))\<close>: the synchronous parts
  of all calls run first, in listing order, so every call sees the breaker as it was
  before the batch and all recovery fetches are issued; the continuations then run one
  by one in the order the fetches settle. The results keep the listing order.
\<close>

definition completionOrder :: "nat \<Rightarrow> nat list \<Rightarrow> nat list" where
  "completionOrder n sched =
     (let s = remdups (filter (\<lambda>i. i < n) sched)
      in s @ filter (\<lambda>i. i \<notin> set s) [0..<n])"

fun resumeAll ::
  "Collaborators \<Rightarrow> (nat \<times> Entity) list \<Rightarrow> ArkivStorageService
     \<Rightarrow> (nat \<times> MemoryEntry option) list \<times> ArkivStorageService" where
  "resumeAll env [] st = ([], st)"
| "resumeAll env ((i, e) # rest) st =
     (let (r, st1) = entityToMemory_resume env st (getEntity env (key e));
          (rs, st2) = resumeAll env rest st1
      in ((i, r) # rs, st2))"

definition pendingFetches :: "started list \<Rightarrow> (nat \<times> Entity) list" where
  "pendingFetches promises =
     concat (map (\<lambda>(i, p). case p of Resolved r \<Rightarrow> [] | Awaiting e \<Rightarrow> [(i, e)])
               (enumerate 0 promises))"

definition entityToMemory_all ::
  "Collaborators \<Rightarrow> Entity list \<Rightarrow> ArkivStorageService
     \<Rightarrow> MemoryEntry option list \<times> ArkivStorageService" where
  "entityToMemory_all env es st =
     (let promises = map (entityToMemory_begin env st) es;
          pending = pendingFetches promises;
          st1 = st\<lparr>getEntityCalls := getEntityCalls st @ map (\<lambda>(i, e). key e) pending\<rparr>;
          order = completionOrder (length pending) (completion env);
          (settled, st2) = resumeAll env (map (\<lambda>j. pending ! j) order) st1
      in (map (\<lambda>(i, p). case p of
                          Resolved r \<Rightarrow> r
                        | Awaiting e \<Rightarrow> (case map_of settled i of None \<Rightarrow> None | Some r \<Rightarrow> r))
            (enumerate 0 promises),
          st2))"

subsection \<open>Create, point fetch, delete\<close>

record ArkivUploadResult =
  entityKey_u :: string
  size_u :: nat
  timestamp_u :: nat
  chainId_u :: nat
  transactionUrl_u :: "string option"
  transactionHash_u :: "string option"

text \<open>
  The two \<^verbatim>\<open>toISOString()\<close> calls in the argument of \<^verbatim>\<open>jsonToPayload\<close>, and
  \<^verbatim>\<open>buildAttributes\<close>, which reads \<^verbatim>\<open>memory.accessPolicy.owner\<close> and renders
  the dates again. Both run before the remote call and may throw.
\<close>

definition isoDates :: "MemoryEntry \<Rightarrow> error + string \<times> string" where
  "isoDates memory =
     (case toISOString (createdAt_m memory) of
        Inl err \<Rightarrow> Inl err
      | Inr c \<Rightarrow>
          (case toISOString (updatedAt_m memory) of
             Inl err \<Rightarrow> Inl err
           | Inr u \<Rightarrow> Inr (c, u)))"

definition buildAttributes :: "MemoryEntry \<Rightarrow> error + Attribute list" where
  "buildAttributes memory =
     (case accessPolicy memory of
        None \<Rightarrow> Inl TypeError
      | Some ap \<Rightarrow>
          (case isoDates memory of
             Inl err \<Rightarrow> Inl err
           | Inr (c, u) \<Rightarrow>
               Inr [(''memoryId'', id_m memory), (''type'', Some (type_m memory)),
                    (''category'', Some (category memory)), (''owner'', owner ap),
                    (''createdAt'', Some c), (''updatedAt'', Some u)]))"

text \<open>\<^verbatim>\<open>uploadMemory\<close> has no \<^verbatim>\<open>try\<close> block: whatever throws leaves the
  operation before the key index is touched.\<close>

definition uploadMemory ::
  "Collaborators \<Rightarrow> MemoryEntry \<Rightarrow> ArkivStorageService
     \<Rightarrow> (error + ArkivUploadResult) \<times> ArkivStorageService" where
  "uploadMemory env memory st =
     (case ensureInitialized env st of
        (Some err, st0) \<Rightarrow> (Inl err, st0)
      | (None, st0) \<Rightarrow>
          (case isoDates memory of
             Inl err \<Rightarrow> (Inl err, st0)
           | Inr dates \<Rightarrow>
               (case buildAttributes memory of
                  Inl err \<Rightarrow> (Inl err, st0)
                | Inr attributes \<Rightarrow>
                    (case createEntity env memory attributes of
                       Inl err \<Rightarrow> (Inl err, st0)
                     | Inr (entityKey, txHash) \<Rightarrow>
                         let st1 = saveEntityKeysToStorage env
                                     (st0\<lparr>entityKeys := Set_add entityKey (entityKeys st0)\<rparr>)
                         in (Inr \<lparr>entityKey_u = entityKey, size_u = payloadLength env memory,
                                  timestamp_u = clock env, chainId_u = chainId env st0,
                                  transactionUrl_u =
                                    (if truthy txHash
                                     then Some (explorerUrl st0 @ ''/tx/'' @ the txHash)
                                     else None),
                                  transactionHash_u = txHash\<rparr>, st1)))))"

text \<open>\<^verbatim>\<open>retrieveMemory\<close> catches whatever its fetch or \<^verbatim>\<open>entityToMemory\<close>
  throws and returns \<^verbatim>\<open>null\<close>.\<close>

definition retrieveMemory ::
  "Collaborators \<Rightarrow> string \<Rightarrow> ArkivStorageService
     \<Rightarrow> (error + MemoryEntry option) \<times> ArkivStorageService" where
  "retrieveMemory env entityKey st =
     (case ensureInitialized env st of
        (Some err, st0) \<Rightarrow> (Inl err, st0)
      | (None, st0) \<Rightarrow>
          (case getEntity env entityKey of
             Inl err \<Rightarrow> (Inr None, logFetch entityKey st0)
           | Inr None \<Rightarrow> (Inr None, snd (entityToMemory_null (logFetch entityKey st0)))
           | Inr (Some entity) \<Rightarrow>
               let (r, st1) = entityToMemory env entity (logFetch entityKey st0)
               in (Inr r, st1)))"

definition updateMemory ::
  "Collaborators \<Rightarrow> string \<Rightarrow> MemoryEntry \<Rightarrow> ArkivStorageService
     \<Rightarrow> (error + ArkivUploadResult) \<times> ArkivStorageService" where
  "updateMemory env entityKey updatedMemory st =
     (case ensureInitialized env st of
        (Some err, st0) \<Rightarrow> (Inl err, st0)
      | (None, st0) \<Rightarrow>
          (case isoDates updatedMemory of
             Inl err \<Rightarrow> (Inl err, st0)
           | Inr dates \<Rightarrow>
               (case buildAttributes updatedMemory of
                  Inl err \<Rightarrow> (Inl err, st0)
                | Inr attributes \<Rightarrow>
                    (case updateEntity env entityKey updatedMemory attributes of
                       Inl err \<Rightarrow> (Inl err, st0)
                     | Inr txHash \<Rightarrow>
                         (Inr \<lparr>entityKey_u = entityKey,
                                size_u = payloadLength env updatedMemory,
                                timestamp_u = clock env, chainId_u = chainId env st0,
                                transactionUrl_u =
                                  (if truthy txHash
                                   then Some (explorerUrl st0 @ ''/tx/'' @ the txHash)
                                   else None),
                                transactionHash_u = txHash\<rparr>, st0)))))"

definition getOwnerAddress ::
  "Collaborators \<Rightarrow> ArkivStorageService \<Rightarrow> (error + string option) \<times> ArkivStorageService" where
  "getOwnerAddress env st =
     (case ensureInitialized env st of
        (Some err, st0) \<Rightarrow> (Inl err, st0)
      | (None, st0) \<Rightarrow> (Inr (ownerAddress st0), st0))"

definition deleteMemory ::
  "Collaborators \<Rightarrow> string \<Rightarrow> ArkivStorageService \<Rightarrow> (error + bool) \<times> ArkivStorageService" where
  "deleteMemory env entityKey st =
     (case ensureInitialized env st of
        (Some err, st0) \<Rightarrow> (Inl err, st0)
      | (None, st0) \<Rightarrow>
          (case deleteEntity env entityKey of
             Some err \<Rightarrow> (Inr False, st0)
           | None \<Rightarrow>
               (Inr True,
                saveEntityKeysToStorage env
                  (st0\<lparr>entityKeys := Set_delete entityKey (entityKeys st0)\<rparr>))))"

subsection \<open>Enumeration and search\<close>

fun allPages :: "Entity list \<Rightarrow> (error + Entity list) list \<Rightarrow> error + Entity list" where
  "allPages acc [] = Inr acc"
| "allPages acc (Inl err # ps) = Inl err"
| "allPages acc (Inr es # ps) = allPages (acc @ es) ps"

text \<open>\<^verbatim>\<open>fetchOwnedEntities({includePayload, limit, fetchAll})\<close>; a missing or zero
  limit becomes 50.\<close>

definition fetchOwnedEntities ::
  "Collaborators \<Rightarrow> bool \<Rightarrow> nat option \<Rightarrow> bool \<Rightarrow> ArkivStorageService
     \<Rightarrow> (error + Entity list) \<times> ArkivStorageService" where
  "fetchOwnedEntities env includePayload limit0 fetchAll st =
     (case ensureInitialized env st of
        (Some err, st0) \<Rightarrow> (Inl err, st0)
      | (None, st0) \<Rightarrow>
          if \<not> truthy (ownerAddress st0) then (Inl OwnerNotInitialized, st0)
          else
            let lim = (case limit0 of None \<Rightarrow> 50 | Some l \<Rightarrow> if l = 0 then 50 else l)
            in (case queryFetch env \<lparr>ownedBy = the (ownerAddress st0), withAttributes = True,
                                      withPayload = includePayload, limit_q = lim\<rparr> of
                  Inl err \<Rightarrow> (Inl err, st0)
                | Inr result \<Rightarrow>
                    if fetchAll then (allPages (entities result) (morePages result), st0)
                    else (Inr (entities result), st0)))"

text \<open>\<^verbatim>\<open>queryEntities(rawQuery = '')\<close>: the initialization check stands before the
  \<^verbatim>\<open>try\<close> block, every later failure gives the empty list.\<close>

definition queryEntities ::
  "Collaborators \<Rightarrow> string \<Rightarrow> ArkivStorageService \<Rightarrow> (error + Entity list) \<times> ArkivStorageService" where
  "queryEntities env q st =
     (case ensureInitialized env st of
        (Some err, st0) \<Rightarrow> (Inl err, st0)
      | (None, st0) \<Rightarrow>
          if q = [] then
            (case fetchOwnedEntities env True None True st0 of
               (Inl err, st1) \<Rightarrow> (Inr [], st1)
             | (Inr es, st1) \<Rightarrow> (Inr es, st1))
          else (case rawQuery env q of
                  Inl err \<Rightarrow> (Inr [], st0)
                | Inr es \<Rightarrow> (Inr es, st0)))"

definition getAllEntityKeys ::
  "Collaborators \<Rightarrow> ArkivStorageService \<Rightarrow> string list \<times> ArkivStorageService" where
  "getAllEntityKeys env st =
     (case fetchOwnedEntities env False None True st of
        (Inr es, st0) \<Rightarrow>
          (map key es, saveEntityKeysToStorage env (st0\<lparr>entityKeys := new_Set (map key es)\<rparr>))
      | (Inl err, st0) \<Rightarrow>
          if entityKeys st0 \<noteq> [] then (entityKeys st0, st0) else ([], st0))"

text \<open>The loop of \<^verbatim>\<open>getAllMemoriesDirectly\<close>: a key whose retrieval throws or gives
  \<^verbatim>\<open>null\<close> is skipped.\<close>

fun retrieveEach ::
  "Collaborators \<Rightarrow> string list \<Rightarrow> ArkivStorageService \<Rightarrow> MemoryEntry list \<times> ArkivStorageService" where
  "retrieveEach env [] st = ([], st)"
| "retrieveEach env (k # ks) st =
     (let (r, st1) = retrieveMemory env k st;
          (ms, st2) = retrieveEach env ks st1
      in (case r of Inr (Some m) \<Rightarrow> (m # ms, st2) | _ \<Rightarrow> (ms, st2)))"

definition getAllMemoriesDirectly ::
  "Collaborators \<Rightarrow> ArkivStorageService \<Rightarrow> MemoryEntry list \<times> ArkivStorageService" where
  "getAllMemoriesDirectly env st =
     (let (ks, st1) = getAllEntityKeys env st in retrieveEach env ks st1)"

text \<open>\<open>pointFetch env st k\<close>: the record that a point fetch of the key \<open>k\<close> by itself
  yields from the state \<open>st\<close>; none when \<^verbatim>\<open>retrieveMemory\<close> returns
  \<^verbatim>\<open>null\<close> or throws.\<close>

definition pointFetch :: "Collaborators \<Rightarrow> ArkivStorageService \<Rightarrow> string \<Rightarrow> MemoryEntry option" where
  "pointFetch env st k = (case fst (retrieveMemory env k st) of Inl err \<Rightarrow> None | Inr r \<Rightarrow> r)"

text \<open>\<^verbatim>\<open>String.prototype.toLowerCase\<close> on the code points U+0000 to U+00FF: the
  letters A to Z and the accented capitals U+00C0 to U+00DE (the multiplication sign
  U+00D7 apart) move up by 32.\<close>

definition capitals :: string where
  "capitals = ''ABCDEFGHIJKLMNOPQRSTUVWXYZ'' @
     [CHR 0xC0, CHR 0xC1, CHR 0xC2, CHR 0xC3, CHR 0xC4, CHR 0xC5, CHR 0xC6, CHR 0xC7,
      CHR 0xC8, CHR 0xC9, CHR 0xCA, CHR 0xCB, CHR 0xCC, CHR 0xCD, CHR 0xCE, CHR 0xCF,
      CHR 0xD0, CHR 0xD1, CHR 0xD2, CHR 0xD3, CHR 0xD4, CHR 0xD5, CHR 0xD6, CHR 0xD8,
      CHR 0xD9, CHR 0xDA, CHR 0xDB, CHR 0xDC, CHR 0xDD, CHR 0xDE]"

definition smalls :: string where
  "smalls = ''abcdefghijklmnopqrstuvwxyz'' @
     [CHR 0xE0, CHR 0xE1, CHR 0xE2, CHR 0xE3, CHR 0xE4, CHR 0xE5, CHR 0xE6, CHR 0xE7,
      CHR 0xE8, CHR 0xE9, CHR 0xEA, CHR 0xEB, CHR 0xEC, CHR 0xED, CHR 0xEE, CHR 0xEF,
      CHR 0xF0, CHR 0xF1, CHR 0xF2, CHR 0xF3, CHR 0xF4, CHR 0xF5, CHR 0xF6, CHR 0xF8,
      CHR 0xF9, CHR 0xFA, CHR 0xFB, CHR 0xFC, CHR 0xFD, CHR 0xFE]"

definition lowerChar :: "char \<Rightarrow> char" where
  "lowerChar c = (case map_of (zip capitals smalls) c of None \<Rightarrow> c | Some l \<Rightarrow> l)"

definition toLowerCase :: "string \<Rightarrow> string" where
  "toLowerCase s = map lowerChar s"

fun includes_str :: "string \<Rightarrow> string \<Rightarrow> bool" where
  "includes_str [] needle = (needle = [])"
| "includes_str (c # cs) needle =
     (take (length needle) (c # cs) = needle \<or> includes_str cs needle)"

fun joinSpace :: "string list \<Rightarrow> string" where
  "joinSpace [] = []"
| "joinSpace [x] = x"
| "joinSpace (x # y # ys) = x @ '' '' @ joinSpace (y # ys)"

definition matchesSearch :: "string \<Rightarrow> MemoryEntry \<Rightarrow> bool" where
  "matchesSearch searchText memory =
     (if searchText = [] then True
      else includes_str (toLowerCase (joinSpace ([content memory, category memory, type_m memory]
                                                  @ tags memory)))
             (toLowerCase searchText))"

text \<open>The owner filter; reading the owner of a record without one throws.\<close>

fun ownerFilter :: "string \<Rightarrow> MemoryEntry list \<Rightarrow> error + MemoryEntry list" where
  "ownerFilter own [] = Inr []"
| "ownerFilter own (m # ms) =
     (case accessPolicy m of
        None \<Rightarrow> Inl TypeError
      | Some ap \<Rightarrow>
          (case owner ap of
             None \<Rightarrow> Inl TypeError
           | Some ow \<Rightarrow>
               (case ownerFilter own ms of
                  Inl err \<Rightarrow> Inl err
                | Inr rest \<Rightarrow>
                    Inr (if toLowerCase ow = toLowerCase own then m # rest else rest))))"

definition searchMemoriesFallback ::
  "Collaborators \<Rightarrow> string \<Rightarrow> nat \<Rightarrow> ArkivStorageService
     \<Rightarrow> MemoryEntry list \<times> ArkivStorageService" where
  "searchMemoriesFallback env searchText limit st =
     (let (allMemories, st1) = getAllMemoriesDirectly env st
      in (take limit (filter (matchesSearch searchText) allMemories), st1))"

text \<open>The \<^verbatim>\<open>try\<close> block of \<^verbatim>\<open>searchMemories\<close>; \<open>Inl\<close> is an exception that
  reaches its \<^verbatim>\<open>catch\<close>.\<close>

definition searchMemories_try ::
  "Collaborators \<Rightarrow> string \<Rightarrow> string option \<Rightarrow> nat \<Rightarrow> ArkivStorageService
     \<Rightarrow> (error + MemoryEntry list) \<times> ArkivStorageService" where
  "searchMemories_try env searchText owner0 limit st =
     (case fetchOwnedEntities env True (Some (max limit 50)) False st of
        (Inl err, st1) \<Rightarrow> (Inl err, st1)
      | (Inr es, st1) \<Rightarrow>
          let (memoryResults, st2) = entityToMemory_all env es st1;
              memories = List.map_filter (\<lambda>r. r) memoryResults;
              filtered = filter (matchesSearch searchText) memories
          in if truthy owner0 then
               (case ownerFilter (the owner0) filtered of
                  Inl err \<Rightarrow> (Inl err, st2)
                | Inr ownerFiltered \<Rightarrow> (Inr (take limit ownerFiltered), st2))
             else
               let result = take limit filtered
               in if result = [] \<and> \<not> skipIndividualFetch st2 then
                    (let (fallbackMemories, st3) = searchMemoriesFallback env searchText limit st2
                     in if fallbackMemories \<noteq> [] then (Inr fallbackMemories, st3)
                        else (Inr result, st3))
                  else (Inr result, st2))"

definition searchMemories ::
  "Collaborators \<Rightarrow> string \<Rightarrow> string option \<Rightarrow> nat \<Rightarrow> ArkivStorageService
     \<Rightarrow> (error + MemoryEntry list) \<times> ArkivStorageService" where
  "searchMemories env searchText owner0 limit st =
     (case ensureInitialized env st of
        (Some err, st0) \<Rightarrow> (Inl err, st0)
      | (None, st0) \<Rightarrow>
          (case searchMemories_try env searchText owner0 limit st0 of
             (Inr ms, st1) \<Rightarrow> (Inr ms, st1)
           | (Inl err, st1) \<Rightarrow>
               (let (fallbackMemories, st2) = searchMemoriesFallback env searchText limit st1
                in if fallbackMemories \<noteq> [] then (Inr fallbackMemories, st2)
                   else (Inr [], st2))))"

subsection \<open>Statistics\<close>

record StorageStats =
  totalMemories :: nat
  totalSize :: int
  pinnedMemories :: nat
  chainId_s :: nat

text \<open>\<^verbatim>\<open>Math.round(size / n)\<close> for an integer \<open>size\<close> and \<open>n > 0\<close>, computed
  exactly: the nearest integer, a half rounded up.\<close>

definition Math_round_div :: "int \<Rightarrow> nat \<Rightarrow> int" where
  "Math_round_div s n = (2 * s + int n) div (2 * int n)"

definition sizeOf :: "MemoryEntry option \<Rightarrow> int" where
  "sizeOf r =
     (case r of
        None \<Rightarrow> 0
      | Some m \<Rightarrow> (case size_m (metadata m) of None \<Rightarrow> 0 | Some n \<Rightarrow> n))"

text \<open>The sampling loop of \<^verbatim>\<open>getStorageStats\<close>; here a retrieval that throws ends
  the operation.\<close>

fun sampleSizes ::
  "Collaborators \<Rightarrow> string list \<Rightarrow> int \<Rightarrow> ArkivStorageService \<Rightarrow> (error + int) \<times> ArkivStorageService" where
  "sampleSizes env [] s st = (Inr s, st)"
| "sampleSizes env (k # ks) s st =
     (case retrieveMemory env k st of
        (Inl err, st1) \<Rightarrow> (Inl err, st1)
      | (Inr r, st1) \<Rightarrow> sampleSizes env ks (s + sizeOf r) st1)"

definition getStorageStats ::
  "Collaborators \<Rightarrow> ArkivStorageService \<Rightarrow> (error + StorageStats) \<times> ArkivStorageService" where
  "getStorageStats env st =
     (let (ks, st1) = getAllEntityKeys env st;
          sampleKeys = take 20 ks
      in case sampleSizes env sampleKeys 0 st1 of
           (Inl err, st2) \<Rightarrow> (Inl err, st2)
         | (Inr s, st2) \<Rightarrow>
             let averageSize = (if sampleKeys \<noteq> [] then Math_round_div s (length sampleKeys) else 0);
                 estimatedTotalSize = averageSize * int (length ks)
             in (Inr \<lparr>totalMemories = length ks, totalSize = estimatedTotalSize,
                      pinnedMemories = length ks, chainId_s = chainId env st2\<rparr>, st2))"

text \<open>
  The sizes are integers here and doubles in the code. \<open>sizesExact\<close> bounds the
  inputs to where the two agree: with at most \<open>2\<^sup>2\<^sup>0\<close> keys and sampled sizes between 0
  and \<open>2\<^sup>3\<^sup>2\<close>, every partial sum is an integer below \<open>2\<^sup>3\<^sup>7\<close>, the quotient by at
  most 20 is rounded by less than its distance to the next half, and the product stays
  below \<open>2\<^sup>5\<^sup>3\<close>.
\<close>

definition sizesExact :: "Collaborators \<Rightarrow> ArkivStorageService \<Rightarrow> bool" where
  "sizesExact env st =
     (let (ks, st1) = getAllEntityKeys env st
      in length ks \<le> 2 ^ 20 \<and>
         list_all (\<lambda>m. 0 \<le> sizeOf (Some m) \<and> sizeOf (Some m) \<le> 2 ^ 32)
           (fst (retrieveEach env (take 20 ks) st1)))"

text \<open>The average in the words of the specification: the rounded mean of the sampled
  records' metadata sizes, a record without size counting 0.\<close>

definition meanOfSampledRecords :: "MemoryEntry list \<Rightarrow> int" where
  "meanOfSampledRecords records =
     (if records = [] then 0
      else Math_round_div (\<Sum>m\<leftarrow>records. sizeOf (Some m)) (length records))"

subsection \<open>Recovery fetches and the breaker\<close>

text \<open>
  An entity lacks inline payload when its \<^verbatim>\<open>value\<close> is missing or empty. The
  outcomes of its recovery fetch:
  \<^item> \<open>recoveryFails\<close>: \<^verbatim>\<open>getEntity\<close> throws, or returns an entity that has no
    payload either and no text from \<^verbatim>\<open>toText()\<close>;
  \<^item> \<open>recoveryNull\<close>: \<^verbatim>\<open>getEntity\<close> resolves to \<^verbatim>\<open>null\<close>;
  \<^item> \<open>recoversInline\<close>: the fetched entity carries its payload;
  \<^item> \<open>recoversByText\<close>: the fetched entity has no payload, but its
    \<^verbatim>\<open>toText()\<close> returns a text.

  \<open>entityToMemory_each\<close> runs calls of \<^verbatim>\<open>entityToMemory\<close> one after the
  other, each against the remote store as it answers at that time.
\<close>

definition lacksPayload :: "Entity \<Rightarrow> bool" where
  "lacksPayload e = (\<not> truthy (value_e e))"

definition recoveryFails :: "Collaborators \<Rightarrow> Entity \<Rightarrow> bool" where
  "recoveryFails env e =
     (case getEntity env (key e) of
        Inl err \<Rightarrow> True
      | Inr None \<Rightarrow> False
      | Inr (Some f) \<Rightarrow> \<not> truthy (value_e f) \<and>
                 (case toText f of ToTextReturns t \<Rightarrow> t = [] | ToTextThrows \<Rightarrow> True | NoToText \<Rightarrow> True))"

definition recoveryNull :: "Collaborators \<Rightarrow> Entity \<Rightarrow> bool" where
  "recoveryNull env e = (case getEntity env (key e) of Inr None \<Rightarrow> True | _ \<Rightarrow> False)"

definition recoversInline :: "Collaborators \<Rightarrow> Entity \<Rightarrow> bool" where
  "recoversInline env e =
     (case getEntity env (key e) of Inr (Some f) \<Rightarrow> truthy (value_e f) | _ \<Rightarrow> False)"

definition recoversByText :: "Collaborators \<Rightarrow> Entity \<Rightarrow> bool" where
  "recoversByText env e =
     (case getEntity env (key e) of
        Inr (Some f) \<Rightarrow> \<not> truthy (value_e f) \<and>
                 (case toText f of ToTextReturns t \<Rightarrow> t \<noteq> [] | _ \<Rightarrow> False)
      | _ \<Rightarrow> False)"

fun entityToMemory_each ::
  "(Collaborators \<times> Entity) list \<Rightarrow> ArkivStorageService
     \<Rightarrow> MemoryEntry option list \<times> ArkivStorageService" where
  "entityToMemory_each [] st = ([], st)"
| "entityToMemory_each ((env, e) # calls) st =
     (let (r, st1) = entityToMemory env e st;
          (rs, st2) = entityToMemory_each calls st1
      in (r # rs, st2))"

definition allFailing :: "(Collaborators \<times> Entity) list \<Rightarrow> bool" where
  "allFailing calls = list_all (\<lambda>(env, e). lacksPayload e \<and> recoveryFails env e) calls"

subsection \<open>A small remote store for running the model\<close>

text \<open>
  Two records with inline payload under the keys 0xk1 and 0xk2, an entity without payload
  under 0xk3, an entity without payload whose \<^verbatim>\<open>toText()\<close> returns the first
  record under 0xk4, \<^verbatim>\<open>null\<close> under 0xk5, and an error for any other key. The owner
  listing is empty, creating returns the key 0xk9, and only 0xk1 can be deleted.
\<close>

definition toyData :: "string \<Rightarrow> int \<Rightarrow> JsonData" where
  "toyData i n =
     \<lparr>id_j = Some i, content_j = ''buy milk'', type_j = None, category_j = Some ''notes'',
      tags_j = Some [''Home''], createdAt_j = ISO ''2025-01-01T00:00:00.000Z'',
      updatedAt_j = ISO ''2025-01-02T00:00:00.000Z'', encrypted_j = False,
      accessPolicy_j = Some \<lparr>owner = Some ''0xAbC''\<rparr>,
      metadata_j = Some \<lparr>size_m = Some n\<rparr>,
      transactionUrl_j = None, transactionHash_j = Some ''0xtx''\<rparr>"

definition toyEntity :: "string \<Rightarrow> string \<Rightarrow> Entity" where
  "toyEntity k t = \<lparr>key = k, value_e = Some ''0x7b7d'', toText = ToTextReturns t\<rparr>"

definition bareEntity :: "string \<Rightarrow> Entity" where
  "bareEntity k = \<lparr>key = k, value_e = None, toText = NoToText\<rparr>"

definition textEntity :: "string \<Rightarrow> string \<Rightarrow> Entity" where
  "textEntity k t = \<lparr>key = k, value_e = None, toText = ToTextReturns t\<rparr>"

definition toyRemote :: Collaborators where
  "toyRemote =
     \<lparr>getEntity = (\<lambda>k. if k = ''0xk1'' then Inr (Some (toyEntity ''0xk1'' ''{m1}''))
                        else if k = ''0xk2'' then Inr (Some (toyEntity ''0xk2'' ''{m2}''))
                        else if k = ''0xk3'' then Inr (Some (bareEntity ''0xk3''))
                        else if k = ''0xk4'' then Inr (Some (textEntity ''0xk4'' ''{m1}''))
                        else if k = ''0xk5'' then Inr None
                        else Inl (RemoteError ''entity not found'')),
      queryFetch = (\<lambda>q. Inr \<lparr>entities = [], morePages = []\<rparr>),
      createEntity = (\<lambda>m attributes. Inr (''0xk9'', Some ''0xtx9'')),
      deleteEntity = (\<lambda>k. if k = ''0xk1'' then None else Some (RemoteError ''delete reverted'')),
      updateEntity = (\<lambda>k m attributes. if k = ''0xk1'' then Inr (Some ''0xtx1'')
                           else Inl (RemoteError ''update reverted'')),
      setItem = (\<lambda>ks. True),
      rawQuery = (\<lambda>q. Inr []),
      privateKeyToAccount = (\<lambda>pk. Inr ''0xAbC''),
      JSON_parse = (\<lambda>t. if t = ''{m1}'' then Some (toyData ''m1'' 120)
                         else if t = ''{m2}'' then Some (toyData ''m2'' 75)
                         else None),
      hexToUtf8 = (\<lambda>h. h),
      payloadLength = (\<lambda>m. length (content m)),
      windowDefined = True,
      clock = 1700,
      mendoza_id = 1,
      completion = []\<rparr>"

definition toyService :: ArkivStorageService where
  "toyService =
     \<lparr>config_a = \<lparr>privateKey_a = ''0x'' @ replicate 64 CHR ''1'', explorerUrl_a = None,
                   chainId_a = None\<rparr>,
      isInitialized = True, walletClient = True, publicClient = True,
      ownerAddress = Some ''0xAbC'', explorerUrl = ''https://explorer.mendoza.hoodi.arkiv.network'',
      entityKeys = [''0xk1'', ''0xk2''], individualFetchFailures = 0, skipIndividualFetch = False,
      localStorage_keys = Some [''0xk1'', ''0xk2''], getEntityCalls = []\<rparr>"

subsection \<open>Predicates used in the statements\<close>

text \<open>
  \<open>ready\<close>: the service is initialized and holds its clients and owner address, so
  that \<^verbatim>\<open>ensureInitialized\<close> passes without effect. \<open>primaryQuery\<close>: the owner
  listing that \<^verbatim>\<open>searchMemories\<close> issues first. \<open>enumerationFails\<close>: the remote
  enumeration of all keys (\<^verbatim>\<open>fetchOwnedEntities({fetchAll: true})\<close>) throws.
\<close>

definition ready :: "ArkivStorageService \<Rightarrow> bool" where
  "ready st = (isInitialized st \<and> walletClient st \<and> publicClient st \<and> truthy (ownerAddress st))"

definition primaryQuery :: "ArkivStorageService \<Rightarrow> nat \<Rightarrow> Query" where
  "primaryQuery st limit =
     \<lparr>ownedBy = the (ownerAddress st), withAttributes = True, withPayload = True,
      limit_q = max limit 50\<rparr>"

definition enumerationFails :: "Collaborators \<Rightarrow> ArkivStorageService \<Rightarrow> bool" where
  "enumerationFails env st =
     (case fst (fetchOwnedEntities env False None True st) of Inl err \<Rightarrow> True | Inr es \<Rightarrow> False)"

text \<open>
  Variants of the small remote store: one whose owner listing returns the two records,
  one whose listing with payload is empty while the listing without payload fails, and
  one whose every listing fails; and a service whose Local Key Index is empty.
\<close>

definition toyListing :: Collaborators where
  "toyListing = toyRemote\<lparr>queryFetch :=
      (\<lambda>q. Inr \<lparr>entities = [toyEntity ''0xk1'' ''{m1}'', toyEntity ''0xk2'' ''{m2}''],
                morePages = []\<rparr>)\<rparr>"

definition toyStaleListing :: Collaborators where
  "toyStaleListing = toyRemote\<lparr>queryFetch :=
      (\<lambda>q. if withPayload q then Inr \<lparr>entities = [], morePages = []\<rparr>
            else Inl (RemoteError ''rpc timeout''))\<rparr>"


definition toyEmptyService :: ArkivStorageService where
  "toyEmptyService = toyService\<lparr>entityKeys := [], localStorage_keys := None\<rparr>"

text \<open>
  Further listings: four entities without payload whose recovery fetch throws, followed
  by one that is recovered through \<^verbatim>\<open>toText()\<close>; one entity without payload that
  its recovery fetch returns in full; and one record followed by an entity that cannot
  be fetched at all. \<open>fourFailures\<close> is the service after four failed recovery
  fetches, \<open>trippedEarly\<close> the service after a search over the first listing.
\<close>

definition toyFlaky :: Collaborators where
  "toyFlaky = toyRemote\<lparr>queryFetch :=
      (\<lambda>q. Inr \<lparr>entities = map bareEntity [''0xa1'', ''0xa2'', ''0xa3'', ''0xa4'', ''0xk4''],
                morePages = []\<rparr>)\<rparr>"

definition toyBare :: Collaborators where
  "toyBare = toyRemote\<lparr>queryFetch :=
      (\<lambda>q. Inr \<lparr>entities = [bareEntity ''0xk1''], morePages = []\<rparr>)\<rparr>"

definition toyGone :: Collaborators where
  "toyGone = toyRemote\<lparr>queryFetch :=
      (\<lambda>q. Inr \<lparr>entities = [toyEntity ''0xk1'' ''{m1}'', bareEntity ''0xk6''],
                morePages = []\<rparr>)\<rparr>"

definition fourFailures :: ArkivStorageService where
  "fourFailures =
     snd (entityToMemory_each
            (map (\<lambda>k. (toyRemote, bareEntity k)) [''0xa1'', ''0xa2'', ''0xa3'', ''0xa4''])
            toyService)"

definition trippedEarly :: ArkivStorageService where
  "trippedEarly = snd (searchMemories toyFlaky [] None 50 toyService)"

subsection \<open>Sessions and fetch counts\<close>

text \<open>
  The public operations of the adapter, the state an operation leaves behind, and a
  session as a sequence of operations, each against the collaborators as they answer at
  that time. \<open>fetchesAtMost n st st'\<close>: from \<open>st\<close> to \<open>st'\<close> at most \<open>n\<close> calls
  of \<^verbatim>\<open>publicClient.getEntity\<close> were made.
\<close>

datatype operation =
    Initialize
  | GetOwnerAddress
  | UploadMemory MemoryEntry
  | RetrieveMemory string
  | UpdateMemory string MemoryEntry
  | DeleteMemory string
  | SearchMemories string "string option" nat
  | QueryEntities string
  | GetAllEntityKeys
  | GetAllMemoriesDirectly
  | GetStorageStats
  | Cleanup

fun perform :: "Collaborators \<Rightarrow> operation \<Rightarrow> ArkivStorageService \<Rightarrow> ArkivStorageService" where
  "perform env Initialize st = (case initialize env st of Inl err \<Rightarrow> st | Inr st' \<Rightarrow> st')"
| "perform env GetOwnerAddress st = snd (getOwnerAddress env st)"
| "perform env (UploadMemory m) st = snd (uploadMemory env m st)"
| "perform env (UpdateMemory k m) st = snd (updateMemory env k m st)"
| "perform env (QueryEntities q) st = snd (queryEntities env q st)"
| "perform env (RetrieveMemory k) st = snd (retrieveMemory env k st)"
| "perform env (DeleteMemory k) st = snd (deleteMemory env k st)"
| "perform env (SearchMemories q own limit) st = snd (searchMemories env q own limit st)"
| "perform env GetAllEntityKeys st = snd (getAllEntityKeys env st)"
| "perform env GetAllMemoriesDirectly st = snd (getAllMemoriesDirectly env st)"
| "perform env GetStorageStats st = snd (getStorageStats env st)"
| "perform env Cleanup st = cleanup st"

fun session :: "(Collaborators \<times> operation) list \<Rightarrow> ArkivStorageService \<Rightarrow> ArkivStorageService" where
  "session [] st = st"
| "session ((env, op) # ops) st = session ops (perform env op st)"

definition fetchesAtMost :: "nat \<Rightarrow> ArkivStorageService \<Rightarrow> ArkivStorageService \<Rightarrow> bool" where
  "fetchesAtMost n st st' =
     (\<exists>new. getEntityCalls st' = getEntityCalls st @ new \<and> length new \<le> n)"

section \<open>Basic facts\<close>

lemma truthy_Some [simp]: "truthy (Some s) = (s \<noteq> [])"
  by (simp add: truthy_def)

lemma truthy_None [simp]: "truthy None = False"
  by (simp add: truthy_def)

lemma orElse_simps [simp]:
  "orElse None d = d"
  "orElse (Some []) d = d"
  "s \<noteq> [] \<Longrightarrow> orElse (Some s) d = s"
  by (simp_all add: orElse_def)

lemma toy_lawful: "cryptojs_roundtrip toyCryptoJS"
  by (simp add: cryptojs_roundtrip_def toyCryptoJS_def Let_def)

lemma generateRandomSalt_toy0:
  "generateRandomSalt (toyEntropy 0) = ''00070e151c232a31383f464d545b626970777e858c939aa1a8afb6bdc4cbd2d9''"
  by (simp add: generateRandomSalt_def toyEntropy_def toHex2_def hexDigit_def upt_rec)

lemma generateRandomSalt_toy3:
  "generateRandomSalt (toyEntropy 3) = ''030a11181f262d343b424950575e656c737a81888f969da4abb2b9c0c7ced5dc''"
  by (simp add: generateRandomSalt_def toyEntropy_def toHex2_def hexDigit_def upt_rec)

lemma decimal_105: "decimal 105 = ''105''"
  by (simp add: decimal.simps)

lemma decimal_16: "decimal 16 = ''16''"
  by (simp add: decimal.simps)

lemma generateSessionKey_symmetric: "symmetricMaterial (fst (generateSessionKey keyId0 e kms))"
  by (simp add: generateSessionKey_def symmetricMaterial_def Let_def)

lemma generateMemoryKey_symmetric:
  "generateMemoryKey memoryId salt0 e kms = Inr (k, kms') \<Longrightarrow> symmetricMaterial k"
  by (auto simp: generateMemoryKey_def symmetricMaterial_def Let_def split: if_splits)

lemma generateKeyPair_symmetric: "symmetricMaterial (fst (generateKeyPair lib keyId0 e rnd svc))"
  by (simp add: generateKeyPair_def symmetricMaterial_def Let_def)

lemma generateKeyFromPassword_symmetric:
  "symmetricMaterial (fst (generateKeyFromPassword lib password salt0 e rnd svc))"
  by (simp add: generateKeyFromPassword_def symmetricMaterial_def Let_def)

lemma allSymmetric_empty: "allSymmetric Map.empty"
  by (simp add: allSymmetric_def)

lemma allSymmetric_upd: "allSymmetric m \<Longrightarrow> symmetricMaterial k \<Longrightarrow> allSymmetric (m(i \<mapsto> k))"
  by (simp add: allSymmetric_def)

lemma sessionKeys_generateSessionKey:
  "sessionKeys (snd (generateSessionKey keyId0 e kms)) =
     (sessionKeys kms)(keyId (fst (generateSessionKey keyId0 e kms)) \<mapsto> fst (generateSessionKey keyId0 e kms))"
  by (simp add: generateSessionKey_def Let_def)

lemma sessionKeys_generateMemoryKey:
  "generateMemoryKey memoryId salt0 e kms = Inr (k, kms') \<Longrightarrow>
     sessionKeys kms' = (sessionKeys kms)(keyId k \<mapsto> k)"
  by (auto simp: generateMemoryKey_def Let_def split: if_splits)

lemma kms_reachable_symmetric: "kms_reachable kms \<Longrightarrow> allSymmetric (sessionKeys kms)"
proof (induction rule: kms_reachable.induct)
  case constructed
  show ?case by (simp add: newKeyManagementService_def allSymmetric_empty)
next
  case (initialized kms password)
  then show ?case by (simp add: initializeWithPassword_def)
next
  case (sessionKey kms keyId0 e)
  then show ?case
    by (simp only: sessionKeys_generateSessionKey allSymmetric_upd generateSessionKey_symmetric)
next
  case (memoryKey kms memoryId salt0 e k kms')
  then show ?case
    using sessionKeys_generateMemoryKey generateMemoryKey_symmetric allSymmetric_upd by metis
next
  case (cleared kms)
  show ?case by (simp add: clearSession_def allSymmetric_empty)
qed

lemma keys_generateKeyPair:
  "keys (snd (generateKeyPair lib keyId0 e rnd svc)) =
     (keys svc)(keyId (fst (generateKeyPair lib keyId0 e rnd svc)) \<mapsto> fst (generateKeyPair lib keyId0 e rnd svc))"
  by (simp add: generateKeyPair_def Let_def)

lemma keys_generateKeyFromPassword:
  "keys (snd (generateKeyFromPassword lib password salt0 e rnd svc)) =
     (keys svc)(keyId (fst (generateKeyFromPassword lib password salt0 e rnd svc))
        \<mapsto> fst (generateKeyFromPassword lib password salt0 e rnd svc))"
  by (simp add: generateKeyFromPassword_def Let_def)

lemma encrypt_keys:
  "encrypt lib plaintext keyId0 kms e rnd svc = Inr (env, svc') \<Longrightarrow>
     svc' = svc \<or> svc' = snd (generateKeyPair lib None e rnd svc)"
  by (auto simp: encrypt_def Let_def split: option.splits prod.splits if_splits)

lemma allSymmetric_delete: "allSymmetric m \<Longrightarrow> allSymmetric (m(i := None))"
  by (simp add: allSymmetric_def)

lemma encrypt_symmetric:
  "allSymmetric (keys svc) \<Longrightarrow> encrypt lib plaintext keyId0 kms e rnd svc = Inr (env, svc')
     \<Longrightarrow> allSymmetric (keys svc')"
proof -
  assume a: "allSymmetric (keys svc)" and b: "encrypt lib plaintext keyId0 kms e rnd svc = Inr (env, svc')"
  from encrypt_keys [OF b] show ?thesis
  proof
    assume "svc' = svc" with a show ?thesis by simp
  next
    assume "svc' = snd (generateKeyPair lib None e rnd svc)"
    with a show ?thesis
      by (simp only: keys_generateKeyPair allSymmetric_upd generateKeyPair_symmetric)
  qed
qed

lemma createThresholdEncryption_symmetric:
  assumes "allSymmetric (keys svc)"
  shows "allSymmetric (keys (snd (createThresholdEncryption lib xorWords plaintext n e rnd svc)))"
proof -
  let ?k = "\<lparr>publicKey = Hex_stringify lib (rnd 0 32), privateKey = Hex_stringify lib (rnd 0 32),
             keyId = generateKeyId e, algorithm = algorithm_c (config svc),
             createdAt = Date_now e, salt = None\<rparr>"
  let ?svc1 = "svc\<lparr>keys := (keys svc)(generateKeyId e \<mapsto> ?k)\<rparr>"
  have s1: "allSymmetric (keys ?svc1)"
    using assms by (simp add: allSymmetric_upd symmetricMaterial_def)
  show ?thesis
  proof (cases "encrypt lib plaintext (Some (generateKeyId e)) None e rnd ?svc1")
    case (Inl err)
    with s1 show ?thesis by (simp add: createThresholdEncryption_def Let_def)
  next
    case (Inr p)
    obtain env svc2 where p: "p = (env, svc2)" by (cases p)
    from encrypt_symmetric [OF s1 Inr [unfolded p]] have "allSymmetric (keys svc2)" .
    then have "allSymmetric ((keys svc2)(generateKeyId e := None))" by (rule allSymmetric_delete)
    with Inr p show ?thesis by (simp add: createThresholdEncryption_def Let_def)
  qed
qed

lemma createTimelockEncryption_symmetric:
  assumes "allSymmetric (keys svc)"
  shows "allSymmetric (keys (snd (createTimelockEncryption lib plaintext unlockAt e rnd svc)))"
proof -
  obtain k svc1 where g: "generateKeyPair lib None e rnd svc = (k, svc1)"
    by (cases "generateKeyPair lib None e rnd svc")
  have s1: "allSymmetric (keys svc1)"
    using assms keys_generateKeyPair [of lib None e rnd svc] generateKeyPair_symmetric [of lib None e rnd svc]
    by (simp add: g allSymmetric_upd)
  show ?thesis
  proof (cases "encrypt lib plaintext (Some (keyId k)) None e rnd svc1")
    case (Inl err)
    with s1 show ?thesis by (simp add: createTimelockEncryption_def g)
  next
    case (Inr p)
    obtain env svc2 where p: "p = (env, svc2)" by (cases p)
    from encrypt_symmetric [OF s1 Inr [unfolded p]] have "allSymmetric (keys svc2)" .
    with Inr p show ?thesis by (simp add: createTimelockEncryption_def g)
  qed
qed

lemma decryptTimelock_symmetric:
  "allSymmetric (keys svc) \<Longrightarrow> publicKey_t timelock = encryptedKey timelock \<Longrightarrow>
     allSymmetric (keys (snd (decryptTimelock lib timelock data e svc)))"
  by (simp add: decryptTimelock_def Let_def allSymmetric_upd symmetricMaterial_def)

lemma removeKey_symmetric:
  "allSymmetric (keys svc) \<Longrightarrow> allSymmetric (keys (snd (removeKey kid svc)))"
  by (simp add: removeKey_def allSymmetric_delete)

lemma importKey_symmetric:
  "allSymmetric (keys svc) \<Longrightarrow> importKey parse keyData svc = (r, svc') \<Longrightarrow>
   (\<And>k. r = Inr k \<Longrightarrow> symmetricMaterial k) \<Longrightarrow> allSymmetric (keys svc')"
  by (auto simp: importKey_def allSymmetric_upd split: option.splits)

lemma storeEach_symmetric:
  "allSymmetric m \<Longrightarrow> symmetricImports keysArray \<Longrightarrow> allSymmetric (storeEach keysArray m)"
  by (induction keysArray m rule: storeEach.induct)
    (simp_all add: symmetricImports_def allSymmetric_upd)

lemma loadKeysFromStorage_symmetric:
  "allSymmetric (keys svc) \<Longrightarrow> symmetricImports keysArray \<Longrightarrow>
     allSymmetric (keys (loadKeysFromStorage window (Some keysArray) svc))"
  by (simp add: loadKeysFromStorage_def storeEach_symmetric)

lemma es_reachable_symmetric: "es_reachable lib svc \<Longrightarrow> allSymmetric (keys svc)"
proof (induction rule: es_reachable.induct)
  case (es_constructed cfg)
  show ?case by (simp add: newEncryptionService_def allSymmetric_empty)
next
  case (es_keyPair svc keyId0 e rnd)
  then show ?case
    by (simp only: keys_generateKeyPair allSymmetric_upd generateKeyPair_symmetric)
next
  case (es_password svc password salt0 e rnd)
  then show ?case
    by (simp only: keys_generateKeyFromPassword allSymmetric_upd generateKeyFromPassword_symmetric)
next
  case (es_encrypt svc plaintext keyId0 kms e rnd env svc')
  then show ?case using encrypt_symmetric by blast
next
  case (es_threshold svc xorWords plaintext n e rnd)
  then show ?case by (simp add: createThresholdEncryption_symmetric)
next
  case (es_timelock svc plaintext unlockAt e rnd)
  then show ?case by (simp add: createTimelockEncryption_symmetric)
next
  case (es_removed svc kid)
  then show ?case by (simp add: removeKey_symmetric)
next
  case (es_unlocked svc timelock data e)
  then show ?case by (simp add: decryptTimelock_symmetric)
next
  case (es_imported svc parse keyData r svc')
  then show ?case using importKey_symmetric by blast
next
  case (es_loaded svc keysArray window)
  then show ?case by (simp add: loadKeysFromStorage_symmetric)
qed

lemma countFailure_failures [simp]:
  "individualFetchFailures (countFailure st) = individualFetchFailures st + 1"
  by (simp add: countFailure_def Let_def)

lemma countFailure_skip [simp]:
  "skipIndividualFetch (countFailure st) =
     (skipIndividualFetch st \<or> individualFetchFailures st + 1 \<ge> 5)"
  by (simp add: countFailure_def Let_def)

lemma logFetch_fields [simp]:
  "individualFetchFailures (logFetch k st) = individualFetchFailures st"
  "skipIndividualFetch (logFetch k st) = skipIndividualFetch st"
  "getEntityCalls (logFetch k st) = getEntityCalls st @ [k]"
  by (simp_all add: logFetch_def)

text \<open>
  The breaker on the paths that count one failure per failed fetch: a recovery fetch
  that throws, or returns an entity with neither payload nor text, adds one to the
  counter; five in a row trip the breaker; a fetch that returns the payload resets the
  counter and leaves the breaker alone; a tripped breaker stays tripped and issues no
  fetch.
\<close>

lemma entityToMemory_awaits:
  "lacksPayload e \<Longrightarrow> \<not> skipIndividualFetch st \<Longrightarrow>
     entityToMemory env e st = entityToMemory_resume env (logFetch (key e) st) (getEntity env (key e))"
  by (simp add: entityToMemory_def entityToMemory_begin_def lacksPayload_def)

lemma entityToMemory_failed:
  assumes "lacksPayload e" "\<not> skipIndividualFetch st" "recoveryFails env e"
  shows "entityToMemory env e st = (None, countFailure (logFetch (key e) st))"
  using assms(3) unfolding entityToMemory_awaits [OF assms(1,2)]
  by (auto simp: entityToMemory_resume_def recoveryFails_def Let_def
      split: sum.splits toTextMethod.splits option.splits)

lemma entityToMemory_nullFetch:
  assumes "lacksPayload e" "\<not> skipIndividualFetch st" "recoveryNull env e"
  shows "entityToMemory env e st = (None, countFailure (countFailure (logFetch (key e) st)))"
  using assms(3) unfolding entityToMemory_awaits [OF assms(1,2)]
  by (auto simp: entityToMemory_resume_def recoveryNull_def split: sum.splits option.splits)

lemma entityToMemory_recovered:
  assumes "lacksPayload e" "\<not> skipIndividualFetch st" "recoversInline env e"
  shows "snd (entityToMemory env e st) = (logFetch (key e) st)\<lparr>individualFetchFailures := 0\<rparr>"
  using assms(3) unfolding entityToMemory_awaits [OF assms(1,2)]
  by (auto simp: entityToMemory_resume_def recoversInline_def split: sum.splits option.splits)

lemma entityToMemory_byText:
  assumes "lacksPayload e" "\<not> skipIndividualFetch st" "recoversByText env e"
  shows "snd (entityToMemory env e st) =
           (countFailure (logFetch (key e) st))\<lparr>individualFetchFailures := 0\<rparr>"
  using assms(3) unfolding entityToMemory_awaits [OF assms(1,2)]
  by (auto simp: entityToMemory_resume_def recoversByText_def Let_def
      split: sum.splits toTextMethod.splits option.splits)

lemma recovery_outcomes:
  "recoveryFails env e \<or> recoveryNull env e \<or> recoversInline env e \<or> recoversByText env e"
  by (auto simp: recoveryFails_def recoveryNull_def recoversInline_def recoversByText_def
      split: sum.splits toTextMethod.splits option.splits)

lemma entityToMemory_tripped:
  assumes "skipIndividualFetch st"
  shows "snd (entityToMemory env e st) = st"
    and "lacksPayload e \<Longrightarrow> fst (entityToMemory env e st) = None"
  using assms
  by (auto simp: entityToMemory_def entityToMemory_begin_def lacksPayload_def)

lemma each_tripped:
  "skipIndividualFetch st \<Longrightarrow>
     snd (entityToMemory_each calls st) = st \<and>
     length (fst (entityToMemory_each calls st)) = length calls \<and>
     (\<forall>i < length calls. lacksPayload (snd (calls ! i)) \<longrightarrow> fst (entityToMemory_each calls st) ! i = None)"
proof (induction calls)
  case Nil
  then show ?case by simp
next
  case (Cons c calls)
  obtain env e where c: "c = (env, e)" by (cases c)
  from Cons.prems have s: "snd (entityToMemory env e st) = st"
    by (rule entityToMemory_tripped)
  then obtain r where r: "entityToMemory env e st = (r, st)"
    by (cases "entityToMemory env e st") simp
  from Cons.prems have n: "lacksPayload e \<Longrightarrow> r = None"
    using entityToMemory_tripped(2) [of st e env] r by simp
  from Cons.IH [OF Cons.prems] show ?case
    by (auto simp: c r n nth_Cons split: prod.splits nat.splits)
qed

lemma each_failing:
  "allFailing calls \<Longrightarrow> \<not> skipIndividualFetch st \<Longrightarrow>
   individualFetchFailures st < 5 \<Longrightarrow>
   individualFetchFailures st + length calls \<le> 5 \<Longrightarrow>
     individualFetchFailures (snd (entityToMemory_each calls st))
       = individualFetchFailures st + length calls \<and>
     (skipIndividualFetch (snd (entityToMemory_each calls st))
       \<longleftrightarrow> individualFetchFailures st + length calls = 5) \<and>
     fst (entityToMemory_each calls st) = replicate (length calls) None"
proof (induction calls arbitrary: st)
  case Nil
  then show ?case by (simp add: allFailing_def)
next
  case (Cons c calls)
  obtain env e where c: "c = (env, e)" by (cases c)
  from Cons.prems c have f: "lacksPayload e" "recoveryFails env e" and rest: "allFailing calls"
    by (simp_all add: allFailing_def)
  let ?st1 = "countFailure (logFetch (key e) st)"
  have step: "entityToMemory env e st = (None, ?st1)"
    using f Cons.prems(2) by (simp add: entityToMemory_failed)
  show ?case
  proof (cases calls)
    case Nil
    with step Cons.prems show ?thesis by (auto simp: c)
  next
    case (Cons d ds)
    with Cons.prems(2,4) have ns: "\<not> skipIndividualFetch ?st1"
      and lt: "individualFetchFailures ?st1 < 5" by simp_all
    from Cons.prems(4) have le: "individualFetchFailures ?st1 + length calls \<le> 5" by simp
    from Cons.IH [OF rest ns lt le] step show ?thesis
      by (auto simp: c split: prod.splits)
  qed
qed

lemma toy_bare_fails: "lacksPayload (bareEntity ''0xk3'') \<and> recoveryFails toyRemote (bareEntity ''0xk3'')"
  by (simp add: lacksPayload_def recoveryFails_def bareEntity_def toyRemote_def)

lemma toy_allFailing: "allFailing (replicate 5 (toyRemote, bareEntity ''0xk3''))"
  using toy_bare_fails by (simp add: allFailing_def list_all_length)

lemma toy_recovers: "lacksPayload (bareEntity ''0xk1'') \<and> recoversInline toyRemote (bareEntity ''0xk1'')"
  by (simp add: lacksPayload_def recoversInline_def bareEntity_def toyRemote_def toyEntity_def)

lemma Set_add_member: "k \<in> set (Set_add k ks)"
  by (simp add: Set_add_def)

lemma Set_delete_member: "k \<notin> set (Set_delete k ks)"
  by (simp add: Set_delete_def)

lemma saveEntityKeysToStorage_keys [simp]:
  "entityKeys (saveEntityKeysToStorage env st) = entityKeys st"
  by (simp add: saveEntityKeysToStorage_def)

lemma Math_round_div_round:
  assumes "0 < n"
  shows "Math_round_div s n = round (real_of_int s / real n)"
proof -
  have "real_of_int s / real n + 1 / 2 = real_of_int (2 * s + int n) / real_of_int (2 * int n)"
    using assms by (simp add: field_simps)
  then have "round (real_of_int s / real n) = \<lfloor>real_of_int (2 * s + int n) / real_of_int (2 * int n)\<rfloor>"
    by (simp add: round_def)
  also have "\<dots> = (2 * s + int n) div (2 * int n)"
    by (rule floor_divide_of_int_eq)
  finally show ?thesis by (simp add: Math_round_div_def)
qed

lemma ensureInitialized_ready: "ready st \<Longrightarrow> ensureInitialized env st = (None, st)"
  by (simp add: ready_def ensureInitialized_def ensureClients_def)

lemma loadEntityKeysFromStorage_fields [simp]:
  "isInitialized (loadEntityKeysFromStorage env st) = isInitialized st"
  "walletClient (loadEntityKeysFromStorage env st) = walletClient st"
  "publicClient (loadEntityKeysFromStorage env st) = publicClient st"
  "ownerAddress (loadEntityKeysFromStorage env st) = ownerAddress st"
  "explorerUrl (loadEntityKeysFromStorage env st) = explorerUrl st"
  "skipIndividualFetch (loadEntityKeysFromStorage env st) = skipIndividualFetch st"
  "individualFetchFailures (loadEntityKeysFromStorage env st) = individualFetchFailures st"
  by (simp_all add: loadEntityKeysFromStorage_def split: option.splits)

lemma ensureInitialized_None: "ensureInitialized env st = (None, st0) \<Longrightarrow> ready st0"
  by (auto simp: ready_def ensureInitialized_def ensureClients_def initialize_def Let_def
      split: if_splits sum.splits)

lemma ready_countFailure [simp]: "ready (countFailure st) = ready st"
  by (simp add: ready_def countFailure_def Let_def)

lemma ready_logFetch [simp]: "ready (logFetch k st) = ready st"
  by (simp add: ready_def logFetch_def)

lemma explorerUrl_countFailure [simp]: "explorerUrl (countFailure st) = explorerUrl st"
  by (simp add: countFailure_def Let_def)

lemma explorerUrl_logFetch [simp]: "explorerUrl (logFetch k st) = explorerUrl st"
  by (simp add: logFetch_def)

lemma entityToMemory_resume_shape:
  "snd (entityToMemory_resume env st outcome) = countFailure st \<or>
   snd (entityToMemory_resume env st outcome) = countFailure (countFailure st) \<or>
   snd (entityToMemory_resume env st outcome) = (countFailure st)\<lparr>individualFetchFailures := 0\<rparr> \<or>
   snd (entityToMemory_resume env st outcome) = st\<lparr>individualFetchFailures := 0\<rparr>"
  by (auto simp: entityToMemory_resume_def Let_def split: sum.splits toTextMethod.splits option.splits)

lemma ready_failures_update [simp]: "ready (st\<lparr>individualFetchFailures := n\<rparr>) = ready st"
  by (simp add: ready_def)

lemma calls_countFailure [simp]: "getEntityCalls (countFailure st) = getEntityCalls st"
  by (simp add: countFailure_def Let_def)

lemma entityToMemory_resume_ready [simp]:
  "ready (snd (entityToMemory_resume env st outcome)) = ready st"
  using entityToMemory_resume_shape [of env st outcome] by auto

lemma entityToMemory_ready [simp]: "ready (snd (entityToMemory env e st)) = ready st"
  by (simp add: entityToMemory_def split: started.splits)

lemma entityToMemory_null_ready [simp]: "ready (snd (entityToMemory_null st)) = ready st"
  by (simp add: entityToMemory_null_def)

lemma retrieveMemory_cases:
  assumes "ready st"
  obtains (thrown) err where "getEntity env k = Inl err"
      "retrieveMemory env k st = (Inr None, logFetch k st)"
    | (null) "getEntity env k = Inr None"
      "retrieveMemory env k st = (Inr None, snd (entityToMemory_null (logFetch k st)))"
    | (entity) e where "getEntity env k = Inr (Some e)"
      "retrieveMemory env k st = (Inr (fst (entityToMemory env e (logFetch k st))),
                                   snd (entityToMemory env e (logFetch k st)))"
proof (cases "getEntity env k")
  case (Inl err)
  with assms thrown show ?thesis
    by (simp add: retrieveMemory_def ensureInitialized_ready)
next
  case (Inr x)
  show ?thesis
  proof (cases x)
    case None
    with Inr assms null show ?thesis
      by (simp add: retrieveMemory_def ensureInitialized_ready)
  next
    case (Some e)
    with Inr assms entity [of e] show ?thesis
      by (simp add: retrieveMemory_def ensureInitialized_ready case_prod_beta)
  qed
qed

lemma retrieveMemory_ready:
  "ready (snd (retrieveMemory env k st)) \<and> (\<exists>r. fst (retrieveMemory env k st) = Inr r)"
  if "ready st"
  using that by (cases rule: retrieveMemory_cases [OF that, of env k]) simp_all

lemma sampleSizes_ready:
  "ready st \<Longrightarrow>
     sampleSizes env ks s st =
       (Inr (s + sum_list (map (\<lambda>m. sizeOf (Some m)) (fst (retrieveEach env ks st)))),
        snd (retrieveEach env ks st))"
proof (induction ks arbitrary: s st)
  case Nil
  then show ?case by simp
next
  case (Cons k ks)
  from retrieveMemory_ready [OF Cons.prems, of env k]
  obtain r st1 where r: "retrieveMemory env k st = (Inr r, st1)" and st1: "ready st1"
    by (cases "retrieveMemory env k st") auto
  show ?case
    using Cons.IH [OF st1] r
    by (cases r) (auto simp: sizeOf_def split: prod.splits option.splits)
qed

lemma fetchOwnedEntities_state:
  "ready st \<Longrightarrow> snd (fetchOwnedEntities env p l f st) = st"
  by (simp add: fetchOwnedEntities_def ensureInitialized_ready Let_def split: sum.splits)

lemma fetchOwnedEntities_uninit:
  "fst (ensureInitialized env st) = None \<Longrightarrow> ready (snd (fetchOwnedEntities env p l f st))"
proof -
  assume a: "fst (ensureInitialized env st) = None"
  then obtain st0 where e: "ensureInitialized env st = (None, st0)"
    by (cases "ensureInitialized env st") simp
  then have "ready st0" by (rule ensureInitialized_None)
  with e show ?thesis
    by (simp add: fetchOwnedEntities_def Let_def split: sum.splits)
qed

lemma ready_saveEntityKeysToStorage [simp]:
  "ready (saveEntityKeysToStorage env st) = ready st"
  by (simp add: ready_def saveEntityKeysToStorage_def)

lemma ready_entityKeys_update [simp]: "ready (st\<lparr>entityKeys := ks\<rparr>) = ready st"
  by (simp add: ready_def)

lemma getAllEntityKeys_ready:
  "fst (ensureInitialized env st) = None \<Longrightarrow> ready (snd (getAllEntityKeys env st))"
proof -
  assume a: "fst (ensureInitialized env st) = None"
  obtain r st0 where f: "fetchOwnedEntities env False None True st = (r, st0)"
    by (cases "fetchOwnedEntities env False None True st")
  with fetchOwnedEntities_uninit [OF a, of False None True] have "ready st0" by simp
  with f show ?thesis
    by (cases r) (simp_all add: getAllEntityKeys_def)
qed

lemma entityToMemory_resume_result:
  "explorerUrl st' = explorerUrl st \<Longrightarrow>
     fst (entityToMemory_resume env st' outcome) = fst (entityToMemory_resume env st outcome)"
  by (auto simp: entityToMemory_resume_def Let_def split: sum.splits toTextMethod.splits option.splits)

lemma entityToMemory_resume_explorerUrl [simp]:
  "explorerUrl (snd (entityToMemory_resume env st outcome)) = explorerUrl st"
  using entityToMemory_resume_shape [of env st outcome] by auto

lemma resumeAll_results:
  "explorerUrl st1 = explorerUrl st \<Longrightarrow>
     fst (resumeAll env xs st1)
       = map (\<lambda>(i, e). (i, fst (entityToMemory_resume env st (getEntity env (key e))))) xs"
proof (induction xs arbitrary: st1)
  case Nil
  then show ?case by simp
next
  case (Cons x xs)
  obtain i e where x: "x = (i, e)" by (cases x)
  obtain r st2 where r: "entityToMemory_resume env st1 (getEntity env (key e)) = (r, st2)"
    by (cases "entityToMemory_resume env st1 (getEntity env (key e))")
  have u: "explorerUrl st2 = explorerUrl st"
    using entityToMemory_resume_explorerUrl [of env st1 "getEntity env (key e)"] r Cons.prems
    by simp
  have v: "r = fst (entityToMemory_resume env st (getEntity env (key e)))"
    using entityToMemory_resume_result [OF Cons.prems, of env "getEntity env (key e)"] r by simp
  from Cons.IH [OF u] show ?case
    by (simp add: x r v case_prod_beta)
qed

lemma completionOrder_set: "set (completionOrder n sched) = {0..<n}"
  by (auto simp: completionOrder_def Let_def)

lemma completionOrder_distinct: "distinct (completionOrder n sched)"
  by (auto simp: completionOrder_def Let_def)

lemma pendingFetches_set:
  "set (pendingFetches ps) = {(i, e). i < length ps \<and> ps ! i = Awaiting e}"
  by (auto simp: pendingFetches_def in_set_enumerate_eq split: started.splits)

lemma pendingFetches_from:
  "map fst (concat (map (\<lambda>(i, p). case p of Resolved r \<Rightarrow> [] | Awaiting e \<Rightarrow> [(i, e)])
       (enumerate n ps))) = filter (\<lambda>i. \<exists>e. ps ! (i - n) = Awaiting e) [n..<n + length ps]"
proof (induction ps arbitrary: n)
  case Nil
  then show ?case by simp
next
  case (Cons p ps)
  have "[n..<n + length (p # ps)] = n # [Suc n..<Suc n + length ps]"
    by (simp add: upt_rec)
  moreover have "filter (\<lambda>i. \<exists>e. (p # ps) ! (i - n) = Awaiting e) [Suc n..<Suc n + length ps]
      = filter (\<lambda>i. \<exists>e. ps ! (i - Suc n) = Awaiting e) [Suc n..<Suc n + length ps]"
  proof (rule filter_cong)
    fix i assume "i \<in> set [Suc n..<Suc n + length ps]"
    then have "i - n = Suc (i - Suc n)" by auto
    then show "(\<exists>e. (p # ps) ! (i - n) = Awaiting e) = (\<exists>e. ps ! (i - Suc n) = Awaiting e)"
      by simp
  qed simp
  ultimately show ?case
    using Cons.IH [of "Suc n"] by (cases p) simp_all
qed

lemma pendingFetches_distinct: "distinct (map fst (pendingFetches ps))"
  unfolding pendingFetches_def pendingFetches_from by simp

lemma entityToMemory_all_results:
  "fst (entityToMemory_all env es st) = map (\<lambda>e. fst (entityToMemory env e st)) es"
proof -
  define promises where "promises = map (entityToMemory_begin env st) es"
  define pending where "pending = pendingFetches promises"
  define st1 where "st1 = st\<lparr>getEntityCalls := getEntityCalls st @ map (\<lambda>(i, e). key e) pending\<rparr>"
  define order where "order = completionOrder (length pending) (completion env)"
  define R where "R = (\<lambda>e::Entity. fst (entityToMemory_resume env st (getEntity env (key e))))"
  define settled where "settled = fst (resumeAll env (map (\<lambda>j. pending ! j) order) st1)"
  have u: "explorerUrl st1 = explorerUrl st" by (simp add: st1_def)
  have settled: "settled = map (\<lambda>(i, e). (i, R e)) (map (\<lambda>j. pending ! j) order)"
    unfolding settled_def R_def by (rule resumeAll_results [OF u])
  have perm: "set (map (\<lambda>j. pending ! j) order) = set pending"
  proof -
    have "set (map (\<lambda>j. pending ! j) order) = (\<lambda>j. pending ! j) ` {0..<length pending}"
      by (simp add: order_def completionOrder_set)
    also have "\<dots> = set pending"
      by (auto simp: set_conv_nth)
    finally show ?thesis .
  qed
  have dist: "distinct (map fst (map (\<lambda>j. pending ! j) order))"
  proof -
    have d: "distinct (map fst pending)"
      unfolding pending_def by (rule pendingFetches_distinct)
    have inj: "inj_on (\<lambda>j. fst (pending ! j)) {0..<length pending}"
    proof (rule inj_onI)
      fix x y assume x: "x \<in> {0..<length pending}" and y: "y \<in> {0..<length pending}"
        and eq: "fst (pending ! x) = fst (pending ! y)"
      from x y have lx: "x < length (map fst pending)" and ly: "y < length (map fst pending)"
        by simp_all
      from eq x y have "map fst pending ! x = map fst pending ! y" by simp
      with nth_eq_iff_index_eq [OF d lx ly] show "x = y" by blast
    qed
    have "distinct (map (\<lambda>j. fst (pending ! j)) order)"
      by (simp add: distinct_map order_def completionOrder_distinct completionOrder_set inj)
    then show ?thesis by (simp add: comp_def)
  qed
  have lookup: "map_of settled i = Some (R e)" if "(i, e) \<in> set pending" for i e
  proof -
    from that perm have "(i, e) \<in> set (map (\<lambda>j. pending ! j) order)" by simp
    then have "(\<lambda>(i, e). (i, R e)) (i, e) \<in> (\<lambda>(i, e). (i, R e)) ` set (map (\<lambda>j. pending ! j) order)"
      by (rule imageI)
    then have "(i, R e) \<in> set settled"
      by (auto simp: settled image_iff)
    moreover have "distinct (map fst settled)"
      using dist by (simp add: settled comp_def case_prod_beta)
    ultimately show ?thesis by simp
  qed
  have res: "fst (entityToMemory_all env es st)
      = map (\<lambda>(i, p). case p of Resolved r \<Rightarrow> r
                | Awaiting e \<Rightarrow> (case map_of settled i of None \<Rightarrow> None | Some r \<Rightarrow> r))
          (enumerate 0 promises)"
    by (simp add: entityToMemory_all_def Let_def promises_def pending_def st1_def order_def
        settled_def split: prod.splits)
  have len: "length promises = length es" by (simp add: promises_def)
  show ?thesis
  proof (rule nth_equalityI)
    show "length (fst (entityToMemory_all env es st)) = length (map (\<lambda>e. fst (entityToMemory env e st)) es)"
      by (simp add: res len)
  next
    fix i assume "i < length (fst (entityToMemory_all env es st))"
    then have i: "i < length es" by (simp add: res len)
    have p: "promises ! i = entityToMemory_begin env st (es ! i)"
      using i by (simp add: promises_def)
    show "fst (entityToMemory_all env es st) ! i = map (\<lambda>e. fst (entityToMemory env e st)) es ! i"
    proof (cases "promises ! i")
      case (Resolved r)
      with p have b: "entityToMemory_begin env st (es ! i) = Resolved r" by simp
      from i show ?thesis
        by (simp add: res len nth_enumerate_eq entityToMemory_def promises_def b)
    next
      case (Awaiting e)
      with p have b: "entityToMemory_begin env st (es ! i) = Awaiting e" by simp
      from Awaiting i have "(i, e) \<in> set pending"
        by (simp add: pending_def pendingFetches_set len)
      from lookup [OF this] i show ?thesis
        by (simp add: res len nth_enumerate_eq entityToMemory_def R_def promises_def b
            entityToMemory_resume_result [of "logFetch (key e) st" st])
    qed
  qed
qed

lemma fetchOwnedEntities_primary:
  "ready st \<Longrightarrow>
     fetchOwnedEntities env True (Some (max limit 50)) False st =
       (case queryFetch env (primaryQuery st limit) of
          Inl err \<Rightarrow> (Inl err, st)
        | Inr res \<Rightarrow> (Inr (entities res), st))"
  by (simp add: fetchOwnedEntities_def ensureInitialized_ready primaryQuery_def ready_def
      split: sum.splits)



lemma getAllEntityKeys_fails:
  "enumerationFails env st \<Longrightarrow> ready st \<Longrightarrow> getAllEntityKeys env st = (entityKeys st, st)"
  using fetchOwnedEntities_state [of st env False None True]
  by (cases "fetchOwnedEntities env False None True st")
    (auto simp: enumerationFails_def getAllEntityKeys_def split: sum.splits)

lemma entityToMemory_explorerUrl [simp]:
  "explorerUrl (snd (entityToMemory env e st)) = explorerUrl st"
  by (simp add: entityToMemory_def split: started.splits)

lemma entityToMemory_null_explorerUrl [simp]:
  "explorerUrl (snd (entityToMemory_null st)) = explorerUrl st"
  by (simp add: entityToMemory_null_def)

lemma retrieveMemory_explorerUrl:
  "ready st \<Longrightarrow> explorerUrl (snd (retrieveMemory env k st)) = explorerUrl st"
  by (erule retrieveMemory_cases [of st env k]) simp_all

lemma retrieveMemory_inline:
  assumes "ready st" "getEntity env k = Inr (Some e)" "\<not> lacksPayload e"
  shows "fst (retrieveMemory env k st) = Inr (decodeEntity env (explorerUrl st) e)"
  using assms
  by (simp add: retrieveMemory_def ensureInitialized_ready entityToMemory_def
      entityToMemory_begin_def lacksPayload_def)

lemma retrieveEach_length: "length (fst (retrieveEach env ks st)) \<le> length ks"
proof (induction ks arbitrary: st)
  case Nil
  show ?case by simp
next
  case (Cons a ks)
  obtain r st1 where r: "retrieveMemory env a st = (r, st1)"
    by (cases "retrieveMemory env a st")
  obtain ms st2 where ms: "retrieveEach env ks st1 = (ms, st2)"
    by (cases "retrieveEach env ks st1")
  from Cons.IH [of st1] ms have "length ms \<le> length ks" by simp
  then show ?case
    by (simp add: r ms split: sum.splits option.splits)
qed

lemma retrieveEach_contains:
  assumes "k \<in> set ks" "getEntity env k = Inr (Some e)" "\<not> lacksPayload e"
    "decodeEntity env url e = Some m"
  shows "ready st \<Longrightarrow> explorerUrl st = url \<Longrightarrow> m \<in> set (fst (retrieveEach env ks st))"
  using assms(1)
proof (induction ks arbitrary: st)
  case Nil
  then show ?case by simp
next
  case (Cons a ks)
  obtain r st1 where r: "retrieveMemory env a st = (r, st1)"
    by (cases "retrieveMemory env a st")
  from retrieveMemory_ready [OF Cons.prems(1), of env a] r have st1: "ready st1" by simp
  from retrieveMemory_explorerUrl [OF Cons.prems(1), of env a] r Cons.prems(2)
  have u: "explorerUrl st1 = url" by simp
  show ?case
  proof (cases "a = k")
    case True
    from retrieveMemory_inline [OF Cons.prems(1) assms(2,3)] r True Cons.prems(2) assms(4)
    have "r = Inr (Some m)" by simp
    with r show ?thesis by (simp split: prod.splits)
  next
    case False
    with Cons.prems(3) have "k \<in> set ks" by simp
    from Cons.IH [OF st1 u this] r show ?thesis
      by (auto split: prod.splits sum.splits option.splits)
  qed
qed

lemma toy_keys: "getAllEntityKeys toyListing toyService = ([''0xk1'', ''0xk2''], toyService)"
  by (simp add: getAllEntityKeys_def fetchOwnedEntities_def ensureInitialized_def ensureClients_def
      toyListing_def toyRemote_def toyService_def toyEntity_def saveEntityKeysToStorage_def
      new_Set_def Set_add_def)

lemma toy_ready: "ready toyService"
  by (simp add: ready_def toyService_def)

lemma toy_retrieve1:
  "retrieveMemory toyListing ''0xk1'' st =
     (Inr (Some (memoryOfData (explorerUrl st) ''0xk1'' (toyData ''m1'' 120))), logFetch ''0xk1'' st)"
  if "ready st"
  using that
  by (simp add: retrieveMemory_def ensureInitialized_ready toyListing_def toyRemote_def
      entityToMemory_def entityToMemory_begin_def toyEntity_def decodeEntity_def payloadText_def
      toyData_def)

lemma toy_retrieve2:
  "retrieveMemory toyListing ''0xk2'' st =
     (Inr (Some (memoryOfData (explorerUrl st) ''0xk2'' (toyData ''m2'' 75))), logFetch ''0xk2'' st)"
  if "ready st"
  using that
  by (simp add: retrieveMemory_def ensureInitialized_ready toyListing_def toyRemote_def
      entityToMemory_def entityToMemory_begin_def toyEntity_def decodeEntity_def payloadText_def
      toyData_def)

lemma toy_sizes:
  "(\<Sum>m\<leftarrow>fst (retrieveEach toyListing [''0xk1'', ''0xk2''] toyService). sizeOf (Some m)) = 195"
  using toy_ready
  by (simp add: toy_retrieve1 toy_retrieve2 sizeOf_def memoryOfData_def toyData_def)

lemma toy_retrieveEach:
  "fst (retrieveEach env [''0xk1'', ''0xk2''] toyService) =
     [memoryOfData (explorerUrl toyService) ''0xk1'' (toyData ''m1'' 120),
      memoryOfData (explorerUrl toyService) ''0xk2'' (toyData ''m2'' 75)]"
  if "getEntity env = getEntity toyRemote" "JSON_parse env = JSON_parse toyRemote"
proof -
  have a: "retrieveMemory env ''0xk1'' st =
     (Inr (Some (memoryOfData (explorerUrl st) ''0xk1'' (toyData ''m1'' 120))), logFetch ''0xk1'' st)"
    if "ready st" for st
    using that \<open>getEntity env = getEntity toyRemote\<close> \<open>JSON_parse env = JSON_parse toyRemote\<close>
    by (simp add: retrieveMemory_def ensureInitialized_ready toyRemote_def
      entityToMemory_def entityToMemory_begin_def toyEntity_def decodeEntity_def payloadText_def
      toyData_def)
  have b: "retrieveMemory env ''0xk2'' st =
     (Inr (Some (memoryOfData (explorerUrl st) ''0xk2'' (toyData ''m2'' 75))), logFetch ''0xk2'' st)"
    if "ready st" for st
    using that \<open>getEntity env = getEntity toyRemote\<close> \<open>JSON_parse env = JSON_parse toyRemote\<close>
    by (simp add: retrieveMemory_def ensureInitialized_ready toyRemote_def
      entityToMemory_def entityToMemory_begin_def toyEntity_def decodeEntity_def payloadText_def
      toyData_def)
  show ?thesis
    using toy_ready by (simp add: a b)
qed

lemma toyService_initialized: "ensureInitialized env toyService = (None, toyService)"
  by (simp add: ensureInitialized_ready toy_ready)



lemma toyService_constructed:
  "ensureInitialized toyRemote
     (newArkivStorageService
        \<lparr>privateKey_a = ''0x'' @ replicate 64 CHR ''1'', explorerUrl_a = None, chainId_a = None\<rparr>
        (Some [''0xk1'', ''0xk2''])) = (None, toyService)"
proof -
  have t: "trim (''0x'' @ replicate 64 CHR ''1'') = ''0x'' @ replicate 64 CHR ''1''"
    by (simp add: trim_def isSpace_def numeral_eq_Suc)
  have l: "length (''0x'' @ replicate 64 CHR ''1'') = 66" by simp
  have n: "''0x'' @ replicate 64 CHR ''1'' \<noteq> ''0x''" "''0x'' @ replicate 64 CHR ''1'' \<noteq> []"
    by (simp_all add: numeral_eq_Suc)
  show ?thesis
    unfolding ensureInitialized_def initialize_def newArkivStorageService_def
    apply (simp only: ArkivStorageService.simps ArkivConfig.simps t l n Let_def if_False if_True
        simp_thms)
    apply (simp add: toyRemote_def loadEntityKeysFromStorage_def new_Set_def Set_add_def
        ensureClients_def toyService_def)
    done
qed

lemma toyEmptyService_constructed:
  "ensureInitialized toyRemote
     (newArkivStorageService
        \<lparr>privateKey_a = ''0x'' @ replicate 64 CHR ''1'', explorerUrl_a = None, chainId_a = None\<rparr>
        None) = (None, toyEmptyService)"
proof -
  have t: "trim (''0x'' @ replicate 64 CHR ''1'') = ''0x'' @ replicate 64 CHR ''1''"
    by (simp add: trim_def isSpace_def numeral_eq_Suc)
  have l: "length (''0x'' @ replicate 64 CHR ''1'') = 66" by simp
  have n: "''0x'' @ replicate 64 CHR ''1'' \<noteq> ''0x''" "''0x'' @ replicate 64 CHR ''1'' \<noteq> []"
    by (simp_all add: numeral_eq_Suc)
  show ?thesis
    unfolding ensureInitialized_def initialize_def newArkivStorageService_def
    apply (simp only: ArkivStorageService.simps ArkivConfig.simps t l n Let_def if_False if_True
        simp_thms)
    apply (simp add: toyRemote_def loadEntityKeysFromStorage_def new_Set_def Set_add_def
        ensureClients_def toyService_def toyEmptyService_def)
    done
qed

lemma skip_ensureInitialized:
  "skipIndividualFetch (snd (ensureInitialized env st)) = skipIndividualFetch st"
  and fails_ensureInitialized:
  "individualFetchFailures (snd (ensureInitialized env st)) = individualFetchFailures st"
  by (auto simp: ensureInitialized_def initialize_def Let_def split: sum.splits)

lemma skip_resume:
  "skipIndividualFetch st \<Longrightarrow> skipIndividualFetch (snd (entityToMemory_resume env st outcome))"
  using entityToMemory_resume_shape [of env st outcome] by auto

lemma skip_entityToMemory:
  "skipIndividualFetch st \<Longrightarrow> skipIndividualFetch (snd (entityToMemory env e st))"
  by (simp add: entityToMemory_tripped)

lemma skip_resumeAll:
  "skipIndividualFetch st \<Longrightarrow> skipIndividualFetch (snd (resumeAll env xs st))"
proof (induction xs arbitrary: st)
  case Nil
  then show ?case by simp
next
  case (Cons x xs)
  obtain i e where x: "x = (i, e)" by (cases x)
  obtain r st1 where r: "entityToMemory_resume env st (getEntity env (key e)) = (r, st1)"
    by (cases "entityToMemory_resume env st (getEntity env (key e))")
  with skip_resume [OF Cons.prems, of env "getEntity env (key e)"] have "skipIndividualFetch st1"
    by simp
  from Cons.IH [OF this] show ?case
    by (simp add: x r case_prod_beta)
qed

lemma entityToMemory_all_tripped:
  assumes "skipIndividualFetch st"
  shows "snd (entityToMemory_all env es st) = st"
proof -
  have "pendingFetches (map (entityToMemory_begin env st) es) = []"
    using assms
    by (auto simp: pendingFetches_def entityToMemory_begin_def in_set_enumerate_eq
        split: started.splits)
  then show ?thesis
    by (simp add: entityToMemory_all_def Let_def completionOrder_def)
qed

lemma skip_saveEntityKeysToStorage [simp]:
  "skipIndividualFetch (saveEntityKeysToStorage env st) = skipIndividualFetch st"
  by (simp add: saveEntityKeysToStorage_def)

lemma skip_uploadMemory:
  "skipIndividualFetch (snd (uploadMemory env m st)) = skipIndividualFetch st"
  using skip_ensureInitialized [of env st]
  by (cases "ensureInitialized env st")
    (auto simp: uploadMemory_def Let_def split: option.splits sum.splits)

lemma skip_initialize:
  "skipIndividualFetch (case initialize env st of Inl err \<Rightarrow> st | Inr st' \<Rightarrow> st')
     = skipIndividualFetch st"
  by (auto simp: initialize_def Let_def split: sum.splits)

lemma skip_getOwnerAddress:
  "skipIndividualFetch (snd (getOwnerAddress env st)) = skipIndividualFetch st"
  using skip_ensureInitialized [of env st]
  by (cases "ensureInitialized env st")
    (auto simp: getOwnerAddress_def split: option.splits)

lemma skip_updateMemory:
  "skipIndividualFetch (snd (updateMemory env k m st)) = skipIndividualFetch st"
  using skip_ensureInitialized [of env st]
  by (cases "ensureInitialized env st")
    (auto simp: updateMemory_def split: option.splits sum.splits)

lemma skip_deleteMemory:
  "skipIndividualFetch (snd (deleteMemory env k st)) = skipIndividualFetch st"
  using skip_ensureInitialized [of env st]
  by (cases "ensureInitialized env st")
    (auto simp: deleteMemory_def split: option.splits)

lemma skip_entityToMemory_null:
  "skipIndividualFetch st \<Longrightarrow> skipIndividualFetch (snd (entityToMemory_null st))"
  by (simp add: entityToMemory_null_def)

lemma skip_retrieveMemory:
  assumes "skipIndividualFetch st"
  shows "skipIndividualFetch (snd (retrieveMemory env k st))"
proof -
  obtain err st0 where e: "ensureInitialized env st = (err, st0)"
    by (cases "ensureInitialized env st")
  with skip_ensureInitialized [of env st] assms have s0: "skipIndividualFetch st0" by simp
  then have a: "skipIndividualFetch (snd (entityToMemory env x (logFetch k st0)))" for x
    by (simp add: skip_entityToMemory)
  from s0 have b: "skipIndividualFetch (snd (entityToMemory_null (logFetch k st0)))"
    by (simp add: skip_entityToMemory_null)
  from s0 a b show ?thesis
    by (cases err; cases "getEntity env k")
      (auto simp: retrieveMemory_def e case_prod_beta split: option.splits)
qed

lemma skip_fetchOwnedEntities:
  "skipIndividualFetch (snd (fetchOwnedEntities env p l f st)) = skipIndividualFetch st"
  using skip_ensureInitialized [of env st]
  by (cases "ensureInitialized env st")
    (auto simp: fetchOwnedEntities_def Let_def split: option.splits sum.splits)

lemma skip_queryEntities:
  "skipIndividualFetch (snd (queryEntities env q st)) = skipIndividualFetch st"
proof -
  obtain err st0 where e: "ensureInitialized env st = (err, st0)"
    by (cases "ensureInitialized env st")
  with skip_ensureInitialized [of env st] have s0: "skipIndividualFetch st0 = skipIndividualFetch st"
    by simp
  obtain r st1 where f: "fetchOwnedEntities env True None True st0 = (r, st1)"
    by (cases "fetchOwnedEntities env True None True st0")
  with skip_fetchOwnedEntities [of env True None True st0] s0
  have "skipIndividualFetch st1 = skipIndividualFetch st" by simp
  with s0 show ?thesis
    by (cases err; cases r) (auto simp: queryEntities_def e f split: sum.splits)
qed

lemma skip_getAllEntityKeys:
  "skipIndividualFetch (snd (getAllEntityKeys env st)) = skipIndividualFetch st"
  using skip_fetchOwnedEntities [of env False None True st]
  by (cases "fetchOwnedEntities env False None True st")
    (auto simp: getAllEntityKeys_def split: sum.splits)

lemma skip_retrieveEach:
  "skipIndividualFetch st \<Longrightarrow> skipIndividualFetch (snd (retrieveEach env ks st))"
proof (induction ks arbitrary: st)
  case Nil
  then show ?case by simp
next
  case (Cons k ks)
  obtain r st1 where r: "retrieveMemory env k st = (r, st1)"
    by (cases "retrieveMemory env k st")
  with skip_retrieveMemory [OF Cons.prems, of env k] have "skipIndividualFetch st1" by simp
  from Cons.IH [OF this] show ?case
    by (simp add: r case_prod_beta split: sum.splits option.splits)
qed

lemma skip_getAllMemoriesDirectly:
  "skipIndividualFetch st \<Longrightarrow> skipIndividualFetch (snd (getAllMemoriesDirectly env st))"
  using skip_getAllEntityKeys [of env st] skip_retrieveEach
  by (simp add: getAllMemoriesDirectly_def case_prod_beta)

lemma skip_searchMemoriesFallback:
  "skipIndividualFetch st \<Longrightarrow> skipIndividualFetch (snd (searchMemoriesFallback env q l st))"
  using skip_getAllMemoriesDirectly
  by (simp add: searchMemoriesFallback_def case_prod_beta)

lemma skip_searchMemories_try:
  assumes "skipIndividualFetch st"
  shows "skipIndividualFetch (snd (searchMemories_try env q own l st))"
proof -
  obtain r st1 where f: "fetchOwnedEntities env True (Some (max l 50)) False st = (r, st1)"
    by (cases "fetchOwnedEntities env True (Some (max l 50)) False st")
  with skip_fetchOwnedEntities [of env True "Some (max l 50)" False st] assms
  have s1: "skipIndividualFetch st1" by simp
  show ?thesis
  proof (cases r)
    case (Inl err)
    with f s1 show ?thesis by (simp add: searchMemories_try_def)
  next
    case (Inr es)
    have a: "snd (entityToMemory_all env es st1) = st1"
      using s1 by (rule entityToMemory_all_tripped)
    obtain rs where rs: "entityToMemory_all env es st1 = (rs, st1)"
      using a by (cases "entityToMemory_all env es st1") simp
    from f Inr s1 show ?thesis
      by (simp add: searchMemories_try_def rs Let_def split: sum.splits)
  qed
qed

lemma skip_searchMemories:
  assumes "skipIndividualFetch st"
  shows "skipIndividualFetch (snd (searchMemories env q own l st))"
proof -
  obtain err st0 where e: "ensureInitialized env st = (err, st0)"
    by (cases "ensureInitialized env st")
  with skip_ensureInitialized [of env st] assms have s0: "skipIndividualFetch st0" by simp
  obtain r st1 where t: "searchMemories_try env q own l st0 = (r, st1)"
    by (cases "searchMemories_try env q own l st0")
  with skip_searchMemories_try [OF s0, of env q own l] have s1: "skipIndividualFetch st1" by simp
  from skip_searchMemoriesFallback [OF s1, of env q l] s0 s1 show ?thesis
    by (cases err; cases r) (simp_all add: searchMemories_def e t case_prod_beta)
qed

lemma skip_sampleSizes:
  "skipIndividualFetch st \<Longrightarrow> skipIndividualFetch (snd (sampleSizes env ks s st))"
proof (induction ks arbitrary: s st)
  case Nil
  then show ?case by simp
next
  case (Cons k ks)
  obtain r st1 where r: "retrieveMemory env k st = (r, st1)"
    by (cases "retrieveMemory env k st")
  with skip_retrieveMemory [OF Cons.prems, of env k] have s1: "skipIndividualFetch st1" by simp
  from Cons.IH [OF s1] s1 show ?case
    by (cases r) (simp_all add: r)
qed

lemma skip_getStorageStats:
  assumes "skipIndividualFetch st"
  shows "skipIndividualFetch (snd (getStorageStats env st))"
proof -
  obtain ks st1 where g: "getAllEntityKeys env st = (ks, st1)"
    by (cases "getAllEntityKeys env st")
  with skip_getAllEntityKeys [of env st] assms have s1: "skipIndividualFetch st1" by simp
  obtain r st2 where r: "sampleSizes env (take 20 ks) 0 st1 = (r, st2)"
    by (cases "sampleSizes env (take 20 ks) 0 st1")
  with skip_sampleSizes [OF s1, of env "take 20 ks" 0] have "skipIndividualFetch st2" by simp
  then show ?thesis
    by (cases r) (simp_all add: getStorageStats_def g r Let_def)
qed

lemma skip_perform:
  "skipIndividualFetch st \<Longrightarrow> skipIndividualFetch (perform env op st)"
  by (cases op)
    (simp_all add: skip_initialize skip_getOwnerAddress skip_uploadMemory skip_retrieveMemory
      skip_updateMemory skip_deleteMemory skip_searchMemories skip_queryEntities
      skip_getAllEntityKeys skip_getAllMemoriesDirectly skip_getStorageStats cleanup_def)

lemma skip_session:
  "skipIndividualFetch st \<Longrightarrow> skipIndividualFetch (session ops st)"
  by (induction ops arbitrary: st) (auto simp: skip_perform)

lemma fetchesAtMost_refl: "fetchesAtMost n st st"
  by (simp add: fetchesAtMost_def)

lemma fetchesAtMost_same: "getEntityCalls st' = getEntityCalls st \<Longrightarrow> fetchesAtMost n st st'"
  by (simp add: fetchesAtMost_def)

lemma fetchesAtMost_trans:
  "fetchesAtMost a st st1 \<Longrightarrow> fetchesAtMost b st1 st2 \<Longrightarrow> fetchesAtMost (a + b) st st2"
  by (auto simp: fetchesAtMost_def)

lemma fetchesAtMost_mono: "fetchesAtMost a st st' \<Longrightarrow> a \<le> b \<Longrightarrow> fetchesAtMost b st st'"
  by (auto simp: fetchesAtMost_def)

lemma calls_ensureInitialized [simp]:
  "getEntityCalls (snd (ensureInitialized env st)) = getEntityCalls st"
  by (auto simp: ensureInitialized_def initialize_def loadEntityKeysFromStorage_def Let_def
      split: sum.splits option.splits)

lemma calls_resume [simp]:
  "getEntityCalls (snd (entityToMemory_resume env st outcome)) = getEntityCalls st"
  using entityToMemory_resume_shape [of env st outcome] by auto

lemma calls_entityToMemory: "fetchesAtMost 1 st (snd (entityToMemory env e st))"
  by (auto simp: entityToMemory_def fetchesAtMost_def split: started.splits)

lemma calls_entityToMemory_null [simp]:
  "getEntityCalls (snd (entityToMemory_null st)) = getEntityCalls st"
  by (simp add: entityToMemory_null_def countFailure_def Let_def)

lemma calls_retrieveMemory: "fetchesAtMost 2 st (snd (retrieveMemory env k st))"
proof -
  obtain err st0 where e: "ensureInitialized env st = (err, st0)"
    by (cases "ensureInitialized env st")
  with calls_ensureInitialized [of env st] have c0: "getEntityCalls st0 = getEntityCalls st"
    by simp
  have l: "fetchesAtMost 1 st (logFetch k st0)"
    by (simp add: fetchesAtMost_def c0)
  have "fetchesAtMost (1 + 1) st (snd (entityToMemory env x (logFetch k st0)))" for x
    using l calls_entityToMemory by (rule fetchesAtMost_trans)
  then have m: "fetchesAtMost 2 st (snd (entityToMemory env x (logFetch k st0)))" for x
    by (simp add: numeral_2_eq_2)
  have n: "fetchesAtMost 2 st (snd (entityToMemory_null (logFetch k st0)))"
    by (simp add: fetchesAtMost_def c0)
  have l2: "fetchesAtMost 2 st (logFetch k st0)"
    using l by (rule fetchesAtMost_mono) simp
  show ?thesis
  proof (cases err)
    case None
    with e m n l2 show ?thesis
      by (cases "getEntity env k")
        (auto simp: retrieveMemory_def case_prod_beta split: option.splits)
  next
    case (Some a)
    with e c0 show ?thesis
      by (simp add: retrieveMemory_def fetchesAtMost_same)
  qed
qed

lemma calls_sampleSizes: "fetchesAtMost (2 * length ks) st (snd (sampleSizes env ks s st))"
proof (induction ks arbitrary: s st)
  case Nil
  show ?case by (simp add: fetchesAtMost_refl)
next
  case (Cons k ks)
  obtain r st1 where r: "retrieveMemory env k st = (r, st1)"
    by (cases "retrieveMemory env k st")
  with calls_retrieveMemory [of st env k] have a: "fetchesAtMost 2 st st1" by simp
  show ?case
  proof (cases r)
    case (Inl err)
    with r a show ?thesis by (auto intro: fetchesAtMost_mono)
  next
    case (Inr m)
    from fetchesAtMost_trans [OF a Cons.IH [of st1 "s + sizeOf m"]] r Inr show ?thesis
      by simp
  qed
qed

lemma calls_fetchOwnedEntities [simp]:
  "getEntityCalls (snd (fetchOwnedEntities env p l f st)) = getEntityCalls st"
  using calls_ensureInitialized [of env st]
  by (cases "ensureInitialized env st")
    (auto simp: fetchOwnedEntities_def Let_def split: option.splits sum.splits)

lemma calls_getAllEntityKeys [simp]:
  "getEntityCalls (snd (getAllEntityKeys env st)) = getEntityCalls st"
  using calls_fetchOwnedEntities [of env False None True st]
  by (cases "fetchOwnedEntities env False None True st")
    (auto simp: getAllEntityKeys_def saveEntityKeysToStorage_def split: sum.splits)

lemma calls_getStorageStats:
  "fetchesAtMost (2 * length (take 20 (fst (getAllEntityKeys env st)))) st
     (snd (getStorageStats env st))"
proof -
  obtain ks st1 where g: "getAllEntityKeys env st = (ks, st1)"
    by (cases "getAllEntityKeys env st")
  with calls_getAllEntityKeys [of env st] have c: "getEntityCalls st1 = getEntityCalls st" by simp
  obtain r st2 where r: "sampleSizes env (take 20 ks) 0 st1 = (r, st2)"
    by (cases "sampleSizes env (take 20 ks) 0 st1")
  from calls_sampleSizes [of "take 20 ks" st1 env 0] r
  have "fetchesAtMost (2 * length (take 20 ks)) st1 st2" by simp
  then have "fetchesAtMost (2 * length (take 20 ks)) st st2"
    by (simp add: fetchesAtMost_def c)
  then show ?thesis
    by (cases r) (simp_all add: getStorageStats_def g r Let_def)
qed

lemma entityToMemory_result_indep:
  assumes "explorerUrl st' = explorerUrl st" "skipIndividualFetch st' = skipIndividualFetch st"
  shows "fst (entityToMemory env e st') = fst (entityToMemory env e st)"
proof -
  have b: "entityToMemory_begin env st' e = entityToMemory_begin env st e"
    using assms by (simp add: entityToMemory_begin_def)
  have r: "fst (entityToMemory_resume env (logFetch k st') outcome)
      = fst (entityToMemory_resume env (logFetch k st) outcome)" for k outcome
    by (rule entityToMemory_resume_result) (simp add: assms)
  show ?thesis
    by (cases "entityToMemory_begin env st e") (simp_all add: entityToMemory_def b r)
qed

lemma retrieveMemory_result_indep:
  assumes "ready st" "ready st'" "explorerUrl st' = explorerUrl st"
    "skipIndividualFetch st' = skipIndividualFetch st"
  shows "fst (retrieveMemory env k st') = fst (retrieveMemory env k st)"
proof -
  have e: "fst (entityToMemory env x (logFetch k st')) = fst (entityToMemory env x (logFetch k st))" for x
    by (rule entityToMemory_result_indep) (simp_all add: assms)
  show ?thesis
    using assms(1,2) e
    by (cases "getEntity env k")
      (auto simp: retrieveMemory_def ensureInitialized_ready case_prod_beta split: option.splits)
qed

lemma retrieveEach_pointwise:
  assumes "ready st0"
  shows "ready st \<Longrightarrow> explorerUrl st = explorerUrl st0 \<Longrightarrow>
     skipIndividualFetch st = skipIndividualFetch st0 \<Longrightarrow>
     \<not> skipIndividualFetch (snd (retrieveEach env ks st)) \<Longrightarrow>
       fst (retrieveEach env ks st) = List.map_filter (pointFetch env st0) ks"
proof (induction ks arbitrary: st)
  case Nil
  show ?case by (simp add: List.map_filter_simps)
next
  case (Cons k ks)
  obtain r st1 where r: "retrieveMemory env k st = (r, st1)"
    by (cases "retrieveMemory env k st")
  from retrieveMemory_ready [OF Cons.prems(1), of env k] r have st1: "ready st1" by simp
  from retrieveMemory_explorerUrl [OF Cons.prems(1), of env k] r Cons.prems(2)
  have u: "explorerUrl st1 = explorerUrl st0" by simp
  have fin: "snd (retrieveEach env (k # ks) st) = snd (retrieveEach env ks st1)"
    by (simp add: r case_prod_beta split: sum.splits option.splits)
  with Cons.prems(4) have n2: "\<not> skipIndividualFetch (snd (retrieveEach env ks st1))" by simp
  then have n1: "\<not> skipIndividualFetch st1"
    using skip_retrieveEach [of st1 env ks] by blast
  with r have n0: "\<not> skipIndividualFetch st"
    using skip_retrieveMemory [of st env k] by auto
  with Cons.prems(3) n1 have s: "skipIndividualFetch st1 = skipIndividualFetch st0" by simp
  have "fst (retrieveMemory env k st) = fst (retrieveMemory env k st0)"
    by (rule retrieveMemory_result_indep [OF assms Cons.prems(1,2,3)])
  with r have p: "pointFetch env st0 k = (case r of Inl err \<Rightarrow> None | Inr x \<Rightarrow> x)"
    by (simp add: pointFetch_def)
  from Cons.IH [OF st1 u s n2] p show ?case
    by (auto simp: r List.map_filter_simps case_prod_beta split: sum.splits option.splits)
qed

lemma resume_failing:
  "recoveryFails env e \<Longrightarrow> entityToMemory_resume env st (getEntity env (key e)) = (None, countFailure st)"
  by (auto simp: entityToMemory_resume_def recoveryFails_def Let_def
      split: sum.splits toTextMethod.splits option.splits)

lemma resumeAll_failing:
  "list_all (\<lambda>(i, e). recoveryFails env e) xs \<Longrightarrow>
     snd (resumeAll env xs st) = (countFailure ^^ length xs) st"
proof (induction xs arbitrary: st)
  case Nil
  show ?case by simp
next
  case (Cons x xs)
  obtain i e where x: "x = (i, e)" by (cases x)
  from Cons.prems x have f: "recoveryFails env e" and rest: "list_all (\<lambda>(i, e). recoveryFails env e) xs"
    by simp_all
  from Cons.IH [OF rest, of "countFailure st"] show ?case
    by (simp add: x resume_failing [OF f] case_prod_beta funpow_swap1)
qed

lemma countFailure_pow_failures:
  "individualFetchFailures ((countFailure ^^ n) st) = individualFetchFailures st + n"
  by (induction n) simp_all

lemma countFailure_pow_skip:
  "skipIndividualFetch ((countFailure ^^ n) st) =
     (skipIndividualFetch st \<or> (0 < n \<and> individualFetchFailures st + n \<ge> 5))"
  by (induction n) (auto simp: countFailure_pow_failures)

lemma countFailure_pow_calls:
  "getEntityCalls ((countFailure ^^ n) st) = getEntityCalls st"
  by (induction n) simp_all

lemma completionOrder_length: "length (completionOrder n sched) = n"
proof -
  have "length (completionOrder n sched) = card (set (completionOrder n sched))"
    by (simp add: distinct_card completionOrder_distinct)
  then show ?thesis by (simp add: completionOrder_set)
qed

lemma pendingFetches_all:
  assumes "\<not> skipIndividualFetch st" "list_all lacksPayload es"
  shows "pendingFetches (map (entityToMemory_begin env st) es) = enumerate 0 es"
proof -
  have m: "map (entityToMemory_begin env st) es = map Awaiting es"
    using assms by (induction es) (simp_all add: entityToMemory_begin_def lacksPayload_def)
  have "concat (map (\<lambda>(i, p). case p of Resolved r \<Rightarrow> [] | Awaiting e \<Rightarrow> [(i, e)])
               (enumerate n (map Awaiting xs))) = enumerate n xs" for n xs
    by (induction xs arbitrary: n) simp_all
  then show ?thesis by (simp add: pendingFetches_def m)
qed

lemma entityToMemory_all_failing:
  assumes "\<not> skipIndividualFetch st" "list_all lacksPayload es" "list_all (recoveryFails env) es"
  shows "snd (entityToMemory_all env es st)
           = (countFailure ^^ length es) (st\<lparr>getEntityCalls := getEntityCalls st @ map key es\<rparr>)"
proof -
  let ?pending = "enumerate 0 es"
  let ?order = "completionOrder (length ?pending) (completion env)"
  let ?st1 = "st\<lparr>getEntityCalls := getEntityCalls st @ map key es\<rparr>"
  have p: "pendingFetches (map (entityToMemory_begin env st) es) = ?pending"
    by (rule pendingFetches_all [OF assms(1,2)])
  have k: "map (\<lambda>(i, e). key e) ?pending = map key es"
  proof -
    have b: "map (\<lambda>(i, e). key e) xs = map key (map snd xs)" for xs :: "(nat \<times> Entity) list"
      by (simp add: case_prod_beta comp_def)
    show ?thesis by (simp add: b)
  qed
  have f: "list_all (\<lambda>(i, e). recoveryFails env e) (map (\<lambda>j. ?pending ! j) ?order)"
  proof -
    have "\<forall>j \<in> set ?order. j < length es"
      by (simp add: completionOrder_set)
    with assms(3) show ?thesis
      by (auto simp: list_all_iff nth_enumerate_eq)
  qed
  have l: "length (map (\<lambda>j. ?pending ! j) ?order) = length es"
    by (simp add: completionOrder_length)
  from resumeAll_failing [OF f, of ?st1] l
  have "snd (resumeAll env (map (\<lambda>j. ?pending ! j) ?order) ?st1) = (countFailure ^^ length es) ?st1"
    by simp
  then show ?thesis
    by (simp add: entityToMemory_all_def Let_def p k case_prod_beta)
qed

lemma toy_fails: "k \<notin> {''0xk1'', ''0xk2'', ''0xk3'', ''0xk4'', ''0xk5''} \<Longrightarrow>
    lacksPayload (bareEntity k) \<and> recoveryFails toyRemote (bareEntity k)"
  by (simp add: lacksPayload_def recoveryFails_def bareEntity_def toyRemote_def)

lemma toy_step:
  "k \<notin> {''0xk1'', ''0xk2'', ''0xk3'', ''0xk4'', ''0xk5''} \<Longrightarrow> \<not> skipIndividualFetch st \<Longrightarrow>
     entityToMemory toyRemote (bareEntity k) st = (None, countFailure (logFetch k st))"
  using entityToMemory_failed [of "bareEntity k" st toyRemote] toy_fails [of k]
  by (simp add: bareEntity_def)

lemma four_state:
  "fourFailures = toyService\<lparr>individualFetchFailures := 4,
      getEntityCalls := [''0xa1'', ''0xa2'', ''0xa3'', ''0xa4'']\<rparr>"
  by (simp add: fourFailures_def toy_step countFailure_def logFetch_def toyService_def Let_def)

lemma t1: "entityToMemory toyRemote (bareEntity ''0xk4'') fourFailures =
     (Some (memoryOfData (explorerUrl toyService) ''0xk4'' (toyData ''m1'' 120)),
      toyService\<lparr>individualFetchFailures := 0, skipIndividualFetch := True,
         getEntityCalls := [''0xa1'', ''0xa2'', ''0xa3'', ''0xa4'', ''0xk4'']\<rparr>)"
  by (simp add: four_state entityToMemory_def entityToMemory_begin_def entityToMemory_resume_def
      bareEntity_def textEntity_def toyRemote_def toyService_def countFailure_def logFetch_def Let_def)

lemma flaky_listing:
  "fetchOwnedEntities toyFlaky True (Some 50) False toyService =
     (Inr (map bareEntity [''0xa1'', ''0xa2'', ''0xa3'', ''0xa4'', ''0xk4'']), toyService)"
  unfolding fetchOwnedEntities_def toyService_initialized
  by (simp add: toyFlaky_def toyService_def)

lemma completionOrder_Nil: "completionOrder n [] = [0..<n]"
  by (simp add: completionOrder_def)

lemma entityToMemory_all_in_order:
  assumes "completion env = []" "\<not> skipIndividualFetch st" "list_all lacksPayload es"
  shows "snd (entityToMemory_all env es st) =
           snd (resumeAll env (enumerate 0 es)
                  (st\<lparr>getEntityCalls := getEntityCalls st @ map key es\<rparr>))"
proof -
  have p: "pendingFetches (map (entityToMemory_begin env st) es) = enumerate 0 es"
    by (rule pendingFetches_all [OF assms(2,3)])
  have b: "map (\<lambda>(i, e). key e) xs = map key (map snd xs)" for xs :: "(nat \<times> Entity) list"
    by (simp add: case_prod_beta comp_def)
  have k: "map (\<lambda>(i, e). key e) (enumerate 0 es) = map key es"
    by (simp add: b)
  have o: "map (\<lambda>j. enumerate 0 es ! j) [0..<length es] = enumerate 0 es"
    using map_nth [of "enumerate 0 es"] by simp
  show ?thesis
    by (simp add: entityToMemory_all_def Let_def p k o assms(1) completionOrder_Nil case_prod_beta)
qed

lemma toy_resume_fails:
  "k \<notin> {''0xk1'', ''0xk2'', ''0xk3'', ''0xk4'', ''0xk5''} \<Longrightarrow>
     entityToMemory_resume toyFlaky st (getEntity toyFlaky k) = (None, countFailure st)"
  by (simp add: entityToMemory_resume_def toyFlaky_def toyRemote_def)

lemma toy_resume_text:
  "entityToMemory_resume toyFlaky st (getEntity toyFlaky ''0xk4'') =
     (Some (memoryOfData (explorerUrl st) ''0xk4'' (toyData ''m1'' 120)),
      (countFailure st)\<lparr>individualFetchFailures := 0\<rparr>)"
  by (simp add: entityToMemory_resume_def toyFlaky_def toyRemote_def textEntity_def Let_def)

lemma flaky_batch:
  "snd (entityToMemory_all toyFlaky (map bareEntity [''0xa1'', ''0xa2'', ''0xa3'', ''0xa4'', ''0xk4'']) toyService) =
      toyService\<lparr>individualFetchFailures := 0, skipIndividualFetch := True,
         getEntityCalls := [''0xa1'', ''0xa2'', ''0xa3'', ''0xa4'', ''0xk4'']\<rparr>"
proof -
  have c: "completion toyFlaky = []" by (simp add: toyFlaky_def toyRemote_def)
  have n: "\<not> skipIndividualFetch toyService" by (simp add: toyService_def)
  have l: "list_all lacksPayload (map bareEntity [''0xa1'', ''0xa2'', ''0xa3'', ''0xa4'', ''0xk4''])"
    by (simp add: lacksPayload_def bareEntity_def)
  have k: "key (bareEntity x) = x" for x by (simp add: bareEntity_def)
  show ?thesis
    unfolding entityToMemory_all_in_order [OF c n l]
    by (simp add: enumerate_eq_zip upt_rec k toy_resume_fails toy_resume_text countFailure_def
        toyService_def Let_def)
qed
lemma toy_single:
  "fst (entityToMemory toyFlaky (bareEntity k) toyService) =
     (if k = ''0xk4'' then Some (memoryOfData (explorerUrl toyService) ''0xk4'' (toyData ''m1'' 120))
      else None)"
  if "k \<notin> {''0xk1'', ''0xk2'', ''0xk3'', ''0xk5''}"
  using that
  by (simp add: entityToMemory_def entityToMemory_begin_def entityToMemory_resume_def
      bareEntity_def textEntity_def toyFlaky_def toyRemote_def toyService_def Let_def)

lemma flaky_search:
  "searchMemories toyFlaky [] None 50 toyService =
     (Inr [memoryOfData (explorerUrl toyService) ''0xk4'' (toyData ''m1'' 120)],
      toyService\<lparr>individualFetchFailures := 0, skipIndividualFetch := True,
         getEntityCalls := [''0xa1'', ''0xa2'', ''0xa3'', ''0xa4'', ''0xk4'']\<rparr>)"
proof -
  let ?es = "map bareEntity [''0xa1'', ''0xa2'', ''0xa3'', ''0xa4'', ''0xk4'']"
  have r: "fst (entityToMemory_all toyFlaky ?es toyService) =
      [None, None, None, None, Some (memoryOfData (explorerUrl toyService) ''0xk4'' (toyData ''m1'' 120))]"
    by (simp add: entityToMemory_all_results toy_single)
  have b: "entityToMemory_all toyFlaky ?es toyService =
      ([None, None, None, None, Some (memoryOfData (explorerUrl toyService) ''0xk4'' (toyData ''m1'' 120))],
       toyService\<lparr>individualFetchFailures := 0, skipIndividualFetch := True,
         getEntityCalls := [''0xa1'', ''0xa2'', ''0xa3'', ''0xa4'', ''0xk4'']\<rparr>)"
    using r flaky_batch by (simp add: prod_eq_iff)
  show ?thesis
    unfolding searchMemories_def toyService_initialized searchMemories_try_def
    by (simp add: flaky_listing b [simplified] List.map_filter_simps matchesSearch_def)
qed

lemma tripped_state:
  "trippedEarly = toyService\<lparr>individualFetchFailures := 0, skipIndividualFetch := True,
         getEntityCalls := [''0xa1'', ''0xa2'', ''0xa3'', ''0xa4'', ''0xk4'']\<rparr>"
  by (simp add: trippedEarly_def flaky_search)

lemma bare_listing:
  "ready st \<Longrightarrow> ownerAddress st = Some ''0xAbC'' \<Longrightarrow>
     fetchOwnedEntities toyBare True (Some 50) False st = (Inr [bareEntity ''0xk1''], st)"
  by (simp add: fetchOwnedEntities_def ensureInitialized_ready toyBare_def)

lemma bare_search_fresh:
  "fst (searchMemories toyBare [] None 50 toyService) =
     Inr [memoryOfData (explorerUrl toyService) ''0xk1'' (toyData ''m1'' 120)]"
proof -
  have o: "ownerAddress toyService = Some ''0xAbC''" by (simp add: toyService_def)
  have r: "fst (entityToMemory_all toyBare [bareEntity ''0xk1''] toyService) =
      [Some (memoryOfData (explorerUrl toyService) ''0xk1'' (toyData ''m1'' 120))]"
    by (simp add: entityToMemory_all_results entityToMemory_def entityToMemory_begin_def
        entityToMemory_resume_def bareEntity_def toyEntity_def toyBare_def toyRemote_def
        toyService_def decodeEntity_def payloadText_def toyData_def)
  obtain st2 where b: "entityToMemory_all toyBare [bareEntity ''0xk1''] toyService =
      ([Some (memoryOfData (explorerUrl toyService) ''0xk1'' (toyData ''m1'' 120))], st2)"
    using r by (cases "entityToMemory_all toyBare [bareEntity ''0xk1''] toyService") simp
  show ?thesis
    unfolding searchMemories_def toyService_initialized searchMemories_try_def
    by (simp add: bare_listing [OF toy_ready o] b List.map_filter_simps matchesSearch_def)
qed

lemma bare_search_tripped:
  "searchMemories toyBare [] None 50 trippedEarly = (Inr [], trippedEarly)"
proof -
  have s: "skipIndividualFetch trippedEarly" and rd: "ready trippedEarly"
    and o: "ownerAddress trippedEarly = Some ''0xAbC''"
    by (simp_all add: tripped_state ready_def toyService_def)
  have r: "fst (entityToMemory_all toyBare [bareEntity ''0xk1''] trippedEarly) = [None]"
    using entityToMemory_tripped(2) [OF s, of "bareEntity ''0xk1''" toyBare]
    by (simp add: entityToMemory_all_results lacksPayload_def bareEntity_def)
  have b: "entityToMemory_all toyBare [bareEntity ''0xk1''] trippedEarly = ([None], trippedEarly)"
    using r entityToMemory_all_tripped [OF s, of toyBare "[bareEntity ''0xk1'']"]
    by (simp add: prod_eq_iff)
  show ?thesis
    unfolding searchMemories_def ensureInitialized_ready [OF rd] searchMemories_try_def
    by (simp add: bare_listing [OF rd o] b List.map_filter_simps s)
qed

lemma three_nulls:
  "snd (entityToMemory_each (replicate 3 (toyRemote, bareEntity ''0xk5'')) toyService) =
     toyService\<lparr>individualFetchFailures := 6, skipIndividualFetch := True,
        getEntityCalls := [''0xk5'', ''0xk5'', ''0xk5'']\<rparr>"
proof -
  have n: "lacksPayload (bareEntity ''0xk5'')" "recoveryNull toyRemote (bareEntity ''0xk5'')"
    by (simp_all add: lacksPayload_def recoveryNull_def bareEntity_def toyRemote_def)
  have step: "\<not> skipIndividualFetch st \<Longrightarrow> entityToMemory toyRemote (bareEntity ''0xk5'') st
      = (None, countFailure (countFailure (logFetch ''0xk5'' st)))" for st
    using entityToMemory_nullFetch [OF n(1) _ n(2), of st] by (simp add: bareEntity_def)
  show ?thesis
    by (simp add: numeral_3_eq_3 step countFailure_def logFetch_def toyService_def Let_def)
qed

lemma toy_retrieveEach_state:
  "retrieveEach env [''0xk1'', ''0xk2''] toyService =
     ([memoryOfData (explorerUrl toyService) ''0xk1'' (toyData ''m1'' 120),
       memoryOfData (explorerUrl toyService) ''0xk2'' (toyData ''m2'' 75)],
      logFetch ''0xk2'' (logFetch ''0xk1'' toyService))"
  if "getEntity env = getEntity toyRemote" "JSON_parse env = JSON_parse toyRemote"
proof -
  have a: "retrieveMemory env ''0xk1'' st =
     (Inr (Some (memoryOfData (explorerUrl st) ''0xk1'' (toyData ''m1'' 120))), logFetch ''0xk1'' st)"
    if "ready st" for st
    using that \<open>getEntity env = getEntity toyRemote\<close> \<open>JSON_parse env = JSON_parse toyRemote\<close>
    by (simp add: retrieveMemory_def ensureInitialized_ready toyRemote_def
      entityToMemory_def entityToMemory_begin_def toyEntity_def decodeEntity_def payloadText_def
      toyData_def)
  have b: "retrieveMemory env ''0xk2'' st =
     (Inr (Some (memoryOfData (explorerUrl st) ''0xk2'' (toyData ''m2'' 75))), logFetch ''0xk2'' st)"
    if "ready st" for st
    using that \<open>getEntity env = getEntity toyRemote\<close> \<open>JSON_parse env = JSON_parse toyRemote\<close>
    by (simp add: retrieveMemory_def ensureInitialized_ready toyRemote_def
      entityToMemory_def entityToMemory_begin_def toyEntity_def decodeEntity_def payloadText_def
      toyData_def)
  show ?thesis
    using toy_ready by (simp add: a b)
qed

lemma toy_pointFetch:
  "pointFetch env toyService ''0xk1'' = Some (memoryOfData (explorerUrl toyService) ''0xk1'' (toyData ''m1'' 120))"
  "pointFetch env toyService ''0xk2'' = Some (memoryOfData (explorerUrl toyService) ''0xk2'' (toyData ''m2'' 75))"
  if "getEntity env = getEntity toyRemote" "JSON_parse env = JSON_parse toyRemote"
  using that toy_ready
  by (simp_all add: pointFetch_def retrieveMemory_def ensureInitialized_ready toyRemote_def
      entityToMemory_def entityToMemory_begin_def toyEntity_def decodeEntity_def payloadText_def
      toyData_def)
lemma toy_exact: "sizesExact toyListing toyService"
  using toy_ready
  by (simp add: sizesExact_def toy_keys toy_retrieve1 toy_retrieve2 sizeOf_def memoryOfData_def
      toyData_def)
lemma gone_keys:
  "getAllEntityKeys toyGone toyService =
     ([''0xk1'', ''0xk6''],
      toyService\<lparr>entityKeys := [''0xk1'', ''0xk6''], localStorage_keys := Some [''0xk1'', ''0xk6'']\<rparr>)"
  by (simp add: getAllEntityKeys_def fetchOwnedEntities_def ensureInitialized_def ensureClients_def
      toyGone_def toyRemote_def toyService_def toyEntity_def bareEntity_def
      saveEntityKeysToStorage_def new_Set_def Set_add_def)

lemma gone_retrieveEach:
  "ready st \<Longrightarrow> retrieveEach toyGone [''0xk1'', ''0xk6''] st =
     ([memoryOfData (explorerUrl st) ''0xk1'' (toyData ''m1'' 120)],
      logFetch ''0xk6'' (logFetch ''0xk1'' st))"
  by (simp add: retrieveMemory_def ensureInitialized_ready toyGone_def toyRemote_def
      entityToMemory_def entityToMemory_begin_def toyEntity_def decodeEntity_def payloadText_def
      toyData_def)

lemma retrieveMemory_result_sub:
  assumes "ready st" "ready st0" "explorerUrl st = explorerUrl st0" "\<not> skipIndividualFetch st0"
  shows "fst (retrieveMemory env k st) = Inr None \<or>
         fst (retrieveMemory env k st) = fst (retrieveMemory env k st0)"
proof (cases "skipIndividualFetch st")
  case False
  with retrieveMemory_result_indep [OF assms(2,1,3), of env k] assms(4) show ?thesis by simp
next
  case True
  show ?thesis
  proof (rule retrieveMemory_cases [OF assms(1), of env k])
    fix err assume "retrieveMemory env k st = (Inr None, logFetch k st)"
    then show ?thesis by simp
  next
    assume "retrieveMemory env k st = (Inr None, snd (entityToMemory_null (logFetch k st)))"
    then show ?thesis by simp
  next
    fix e assume g: "getEntity env k = Inr (Some e)"
      and entity: "retrieveMemory env k st = (Inr (fst (entityToMemory env e (logFetch k st))),
                                   snd (entityToMemory env e (logFetch k st)))"
    show ?thesis
    proof (cases "lacksPayload e")
      case lacks: True
      with True entity show ?thesis
        by (simp add: entityToMemory_tripped)
    next
      case False
      with retrieveMemory_inline [OF assms(1) g] retrieveMemory_inline [OF assms(2) g]
        assms(3)
      show ?thesis by simp
    qed
  qed
qed

lemma retrieveEach_sub:
  assumes "ready st0" "\<not> skipIndividualFetch st0"
  shows "ready st \<Longrightarrow> explorerUrl st = explorerUrl st0 \<Longrightarrow>
     set (fst (retrieveEach env ks st)) \<subseteq> set (List.map_filter (pointFetch env st0) ks)"
proof (induction ks arbitrary: st)
  case Nil
  show ?case by simp
next
  case (Cons k ks)
  obtain r st1 where r: "retrieveMemory env k st = (r, st1)"
    by (cases "retrieveMemory env k st")
  from retrieveMemory_ready [OF Cons.prems(1), of env k] r have st1: "ready st1" by simp
  from retrieveMemory_explorerUrl [OF Cons.prems(1), of env k] r Cons.prems(2)
  have u: "explorerUrl st1 = explorerUrl st0" by simp
  from retrieveMemory_result_sub [OF Cons.prems(1) assms(1) Cons.prems(2) assms(2), of env k] r
  have p: "r = Inr None \<or> r = Inr (pointFetch env st0 k)"
    using retrieveMemory_ready [OF assms(1), of env k]
    by (auto simp: pointFetch_def)
  from Cons.IH [OF st1 u] p show ?case
    by (auto simp: r List.map_filter_simps case_prod_beta split: sum.splits option.splits)
qed

lemma generateKeyId_nonempty: "generateKeyId e \<noteq> []"
  by (simp add: generateKeyId_def)

lemma removeKey_removes:
  "keys (snd (removeKey kid svc)) = (keys svc)(kid := None)"
  "fst (removeKey kid svc) = (keys svc kid \<noteq> None)"
  by (simp_all add: removeKey_def split: option.splits)

lemma importKey_stores:
  "parse keyData = Some k \<Longrightarrow>
     importKey parse keyData svc = (Inr k, svc\<lparr>keys := (keys svc)(keyId k \<mapsto> k)\<rparr>)"
  "parse keyData = None \<Longrightarrow> importKey parse keyData svc = (Inl SyntaxError, svc)"
  by (simp_all add: importKey_def)

lemma loadKeysFromStorage_stores:
  "loadKeysFromStorage True (Some [Some k1, Some k2, None, Some k3]) svc
     = svc\<lparr>keys := (keys svc)(keyId k1 \<mapsto> k1, keyId k2 \<mapsto> k2)\<rparr>"
  "loadKeysFromStorage False stored svc = svc"
  "loadKeysFromStorage window None svc = svc"
  by (simp_all add: loadKeysFromStorage_def)

lemma createSecretShares_length:
  "length (createSecretShares lib xorWords secret n rnd) = n"
  by (simp add: createSecretShares_def Let_def)

lemma createSecretShares_two:
  "createSecretShares lib xorWords secret 2 rnd =
     [Hex_stringify lib (rnd 3 32),
      Hex_stringify lib (xorWords (Hex_parse lib secret) (Hex_parse lib (Hex_stringify lib (rnd 3 32))))]"
  by (simp add: createSecretShares_def Let_def upt_rec numeral_2_eq_2)

lemma encrypt_stored_key:
  "kid \<noteq> [] \<Longrightarrow> keys svc kid = Some k \<Longrightarrow>
     \<exists>env. encrypt lib plaintext (Some kid) None e rnd svc = Inr (env, svc) \<and>
       encryptedContent env = AES_encrypt lib plaintext
         (PBKDF2 lib (privateKey k) (rnd 1 (saltLength (config svc))) (iterations_c (config svc)))
         (rnd 2 (ivLength (config svc)))"
  by (simp add: encrypt_def Let_def)

lemma createThresholdEncryption_keys:
  "\<exists>shares env.
     createThresholdEncryption lib xorWords plaintext n e rnd svc
       = (Inr (shares, env), svc\<lparr>keys := (keys svc)(generateKeyId e := None)\<rparr>) \<and>
     length shares = n \<and>
     encryptedContent env = AES_encrypt lib plaintext
         (PBKDF2 lib (Hex_stringify lib (rnd 0 32)) (rnd 1 (saltLength (config svc)))
            (iterations_c (config svc)))
         (rnd 2 (ivLength (config svc)))"
  by (simp add: createThresholdEncryption_def encrypt_def generateKeyId_nonempty Let_def
      createSecretShares_length)

lemma createTimelockEncryption_key:
  "createTimelockEncryption lib plaintext unlockAt e rnd svc =
     (Inr \<lparr>encryptedKey = Hex_stringify lib (rnd 0 32), unlockTime = unlockAt,
            timelockAlgorithm = ''RSA'', publicKey_t = Hex_stringify lib (rnd 0 32)\<rparr>,
      snd (generateKeyPair lib None e rnd svc))"
  by (simp add: createTimelockEncryption_def generateKeyPair_def encrypt_def
      generateKeyId_nonempty Let_def)

lemma decryptTimelock_locked:
  "Date_now e < unlockTime timelock \<Longrightarrow>
     decryptTimelock lib timelock data e svc = (Inl TimelockNotExpired, svc)"
  by (simp add: decryptTimelock_def isTimelockExpired_def)

lemma decryptTimelock_opens:
  assumes "cryptojs_roundtrip lib" "plaintext \<noteq> []" "unlockAt \<le> Date_now e'"
    "createTimelockEncryption lib plaintext unlockAt e rnd svc = (Inr timelock, svc1)"
    "encrypt lib plaintext (Some (generateKeyId e)) None e rnd svc1 = Inr (data, svc2)"
  shows "\<exists>res. fst (decryptTimelock lib timelock data e' svc2) = Inr res \<and> content_r res = plaintext"
proof -
  from assms(1) have aes: "\<And>p k v. Utf8_stringify lib (AES_decrypt lib (AES_encrypt lib p k v) k v) = Some p"
    and hex: "\<And>w. Hex_parse lib (Hex_stringify lib w) = w"
    by (simp_all add: cryptojs_roundtrip_def)
  from assms(4) have t: "timelock = \<lparr>encryptedKey = Hex_stringify lib (rnd 0 32), unlockTime = unlockAt,
            timelockAlgorithm = ''RSA'', publicKey_t = Hex_stringify lib (rnd 0 32)\<rparr>"
    and s1: "svc1 = snd (generateKeyPair lib None e rnd svc)"
    by (simp_all add: createTimelockEncryption_key)
  from assms(5) have d: "data = \<lparr>encryptedContent = AES_encrypt lib plaintext
         (PBKDF2 lib (Hex_stringify lib (rnd 0 32)) (rnd 1 (saltLength (config svc)))
            (iterations_c (config svc))) (rnd 2 (ivLength (config svc))),
       iv = Hex_stringify lib (rnd 2 (ivLength (config svc))),
       salt_d = Hex_stringify lib (rnd 1 (saltLength (config svc))), tag = [],
       algorithm_d = algorithm_c (config svc), keyDerivation_d = keyDerivation_c (config svc),
       iterations_d = iterations_c (config svc)\<rparr>"
    by (simp add: s1 encrypt_def generateKeyPair_def generateKeyId_nonempty Let_def)
  show ?thesis
    using assms(2,3)
    by (simp add: decryptTimelock_def isTimelockExpired_def decrypt_def t d aes hex Let_def)
qed

lemma retrieveMemory_null_entity:
  assumes "ready st" "getEntity env k = Inr None"
  shows "retrieveMemory env k st =
           (Inr None,
            if skipIndividualFetch st \<or> individualFetchFailures st < 3 then logFetch k st
            else countFailure (logFetch k st))"
  using assms
  by (simp add: retrieveMemory_def ensureInitialized_ready entityToMemory_null_def)

lemma updateMemory_index:
  "entityKeys (snd (updateMemory env k m st)) = entityKeys (snd (ensureInitialized env st))"
  by (cases "ensureInitialized env st")
    (auto simp: updateMemory_def split: option.splits sum.splits)

lemma updateMemory_throws_early:
  "ensureInitialized env st = (None, st0) \<Longrightarrow> accessPolicy m = None \<Longrightarrow> isoDates m = Inr d \<Longrightarrow>
     updateMemory env k m st = (Inl TypeError, st0)"
  "ensureInitialized env st = (None, st0) \<Longrightarrow> createdAt_m m = Invalid_Date \<Longrightarrow>
     updateMemory env k m st = (Inl RangeError, st0)"
  by (simp_all add: updateMemory_def buildAttributes_def isoDates_def toISOString_def)

lemma uploadMemory_throws_early:
  "ensureInitialized env st = (None, st0) \<Longrightarrow> accessPolicy m = None \<Longrightarrow> isoDates m = Inr d \<Longrightarrow>
     uploadMemory env m st = (Inl TypeError, st0)"
  "ensureInitialized env st = (None, st0) \<Longrightarrow> createdAt_m m = Invalid_Date \<Longrightarrow>
     uploadMemory env m st = (Inl RangeError, st0)"
  by (simp_all add: uploadMemory_def buildAttributes_def isoDates_def toISOString_def)

lemma saveEntityKeysToStorage_refused:
  "\<not> setItem env (entityKeys st) \<Longrightarrow> saveEntityKeysToStorage env st = st"
  by (simp add: saveEntityKeysToStorage_def)

lemma trim_examples:
  "trim ('' 0x1 '' @ [CHR 0xA0, CHR 0x0A]) = ''0x1''"
  "trim [CHR 0x09, CHR ''a'', CHR '' '', CHR ''b'', CHR 0x0D] = ''a b''"
  by (simp_all add: trim_def isSpace_def)

lemma toLowerCase_examples:
  "toLowerCase ''Buy MILK z@['' = ''buy milk z@[''"
  "toLowerCase [CHR 0xC0, CHR 0xD6, CHR 0xD7, CHR 0xDE, CHR 0xDF] = [CHR 0xE0, CHR 0xF6, CHR 0xD7, CHR 0xFE, CHR 0xDF]"
  by (simp_all add: toLowerCase_def lowerChar_def capitals_def smalls_def)

section \<open>Key management and envelope encryption: the claims\<close>

text \<open>
  Claim C8. While the master secret is not set (the state after the constructor or after
  clearSession; an empty password counts as not set), generateMemoryKey fails with
  'Master key not initialized' for every memory id and every optional salt, and so never
  returns a key.
\<close>

theorem generateMemoryKey_before_initialization:
  "\<not> isInitialized_kms kms \<Longrightarrow>
     generateMemoryKey memoryId salt0 e kms = Inl MasterKeyNotInitialized \<and>
     (\<forall>r. generateMemoryKey memoryId salt0 e kms \<noteq> Inr r)"
  by (simp add: generateMemoryKey_def isInitialized_kms_def)

theorem generateMemoryKey_before_initialization_witness:
  "\<not> isInitialized_kms newKeyManagementService \<and>
   generateMemoryKey ''m1'' (Some ''5a17'') (toyEntropy 0) newKeyManagementService
     = Inl MasterKeyNotInitialized \<and>
   \<not> isInitialized_kms (clearSession (initializeWithPassword ''pw'' newKeyManagementService)) \<and>
   generateMemoryKey ''m1'' None (toyEntropy 0)
     (clearSession (initializeWithPassword ''pw'' newKeyManagementService))
     = Inl MasterKeyNotInitialized"
proof -
  have a: "\<not> isInitialized_kms newKeyManagementService"
    by (simp add: isInitialized_kms_def newKeyManagementService_def)
  have b: "\<not> isInitialized_kms (clearSession (initializeWithPassword ''pw'' newKeyManagementService))"
    by (simp add: isInitialized_kms_def clearSession_def)
  show ?thesis
    using a b generateMemoryKey_before_initialization [OF a, of "''m1''" "Some ''5a17''" "toyEntropy 0"]
      generateMemoryKey_before_initialization [OF b, of "''m1''" None "toyEntropy 0"]
    by simp
qed

text \<open>
  Claim C3, as amended. With a master secret set and a non-empty salt, two calls of
  generateMemoryKey with the same master secret, memory id and salt return keys with the
  same publicKey, privateKey, key id and salt, whatever the clock and the random source
  give and whatever the session cache holds.
\<close>

theorem generateMemoryKey_deterministic:
  assumes "isInitialized_kms kms" and "masterKey kms' = masterKey kms" and "s \<noteq> []"
  shows "\<exists>k1 kms1 k2 kms2.
           generateMemoryKey memoryId (Some s) e1 kms = Inr (k1, kms1) \<and>
           generateMemoryKey memoryId (Some s) e2 kms' = Inr (k2, kms2) \<and>
           publicKey k1 = publicKey k2 \<and> privateKey k1 = privateKey k2 \<and>
           salt k1 = Some s \<and> salt k2 = Some s \<and> keyId k1 = keyId k2"
  using assms by (simp add: generateMemoryKey_def isInitialized_kms_def Let_def)

theorem generateMemoryKey_deterministic_witness:
  "isInitialized_kms (initializeWithPassword ''pw'' newKeyManagementService) \<and>
   (\<exists>k1 kms1 k2 kms2.
      generateMemoryKey ''m1'' (Some ''5a17'') (toyEntropy 0)
        (initializeWithPassword ''pw'' newKeyManagementService) = Inr (k1, kms1) \<and>
      generateMemoryKey ''m1'' (Some ''5a17'') (toyEntropy 1)
        (initializeWithPassword ''pw'' newKeyManagementService) = Inr (k2, kms2) \<and>
      publicKey k1 = publicKey k2 \<and> privateKey k1 = privateKey k2 \<and>
      salt k1 = Some ''5a17'' \<and> salt k2 = Some ''5a17'' \<and> keyId k1 = keyId k2)"
proof -
  have a: "isInitialized_kms (initializeWithPassword ''pw'' newKeyManagementService)"
    by (simp add: isInitialized_kms_def initializeWithPassword_def)
  have b: "''5a17'' \<noteq> []" by simp
  from a generateMemoryKey_deterministic [OF a refl b, of "''m1''" "toyEntropy 0" "toyEntropy 1"]
  show ?thesis by simp
qed

text \<open>
  The claim as stated fails for the empty string as explicit salt: \<^verbatim>\<open>salt || ...\<close>
  treats it as absent and draws a random salt in each call.
\<close>

theorem generateMemoryKey_empty_salt_counterexample:
  "(case generateMemoryKey ''m1'' (Some []) (toyEntropy 0)
           (initializeWithPassword ''pw'' newKeyManagementService) of
      Inl err \<Rightarrow> False
    | Inr (k1, kms1) \<Rightarrow>
       (case generateMemoryKey ''m1'' (Some []) (toyEntropy 1) kms1 of
          Inl err \<Rightarrow> False
        | Inr (k2, kms2) \<Rightarrow> privateKey k1 \<noteq> privateKey k2 \<and> publicKey k1 \<noteq> publicKey k2 \<and>
            salt k1 \<noteq> salt k2))"
  by (simp add: generateMemoryKey_def initializeWithPassword_def Let_def generateRandomSalt_def
      toyEntropy_def toHex2_def hexDigit_def upt_rec)

text \<open>
  Claim C10, as amended. Every key that a key-creating operation returns
  (generateKeyPair, generateKeyFromPassword, generateSessionKey, generateMemoryKey) has
  equal publicKey and privateKey fields. The equality holds for every key in the session
  cache of any KeyManagementService state reachable from the constructor by its
  operations. In the key table of the EncryptionService it is kept by the key-creating
  operations (encrypt included, which may call generateKeyPair), and it holds for every
  key of every state reachable from the constructor as long as each key entered through
  importKey, loadKeysFromStorage or decryptTimelock has equal fields itself.
\<close>

theorem symmetric_material_invariant:
  "symmetricMaterial (fst (generateKeyPair lib keyId0 e rnd svc)) \<and>
   symmetricMaterial (fst (generateKeyFromPassword lib password salt0 e rnd svc)) \<and>
   symmetricMaterial (fst (generateSessionKey keyId0 e kms)) \<and>
   (\<forall>k kms'. generateMemoryKey memoryId salt0 e kms = Inr (k, kms') \<longrightarrow> symmetricMaterial k) \<and>
   (kms_reachable kms \<longrightarrow> allSymmetric (sessionKeys kms)) \<and>
   (allSymmetric (keys svc) \<longrightarrow>
      allSymmetric (keys (snd (generateKeyPair lib keyId0 e rnd svc))) \<and>
      allSymmetric (keys (snd (generateKeyFromPassword lib password salt0 e rnd svc))) \<and>
      (\<forall>env svc'. encrypt lib plaintext keyId0 kmsO e rnd svc = Inr (env, svc') \<longrightarrow>
          allSymmetric (keys svc'))) \<and>
   (es_reachable lib svc \<longrightarrow> allSymmetric (keys svc))"
proof -
  have k1: "allSymmetric (keys svc) \<Longrightarrow>
      allSymmetric (keys (snd (generateKeyPair lib keyId0 e rnd svc)))"
    by (simp only: keys_generateKeyPair allSymmetric_upd generateKeyPair_symmetric)
  have k2: "allSymmetric (keys svc) \<Longrightarrow>
      allSymmetric (keys (snd (generateKeyFromPassword lib password salt0 e rnd svc)))"
    by (simp only: keys_generateKeyFromPassword allSymmetric_upd generateKeyFromPassword_symmetric)
  have c4: "\<forall>k kms'. generateMemoryKey memoryId salt0 e kms = Inr (k, kms') \<longrightarrow> symmetricMaterial k"
    using generateMemoryKey_symmetric by blast
  have c5: "kms_reachable kms \<longrightarrow> allSymmetric (sessionKeys kms)"
    using kms_reachable_symmetric by blast
  have c6: "allSymmetric (keys svc) \<longrightarrow>
      allSymmetric (keys (snd (generateKeyPair lib keyId0 e rnd svc))) \<and>
      allSymmetric (keys (snd (generateKeyFromPassword lib password salt0 e rnd svc))) \<and>
      (\<forall>env svc'. encrypt lib plaintext keyId0 kmsO e rnd svc = Inr (env, svc') \<longrightarrow>
          allSymmetric (keys svc'))"
    using k1 k2 encrypt_symmetric by blast
  have c7: "es_reachable lib svc \<longrightarrow> allSymmetric (keys svc)"
    using es_reachable_symmetric by blast
  from c4 c5 c6 c7 show ?thesis
    using generateKeyPair_symmetric [of lib keyId0 e rnd svc]
      generateKeyFromPassword_symmetric [of lib password salt0 e rnd svc]
      generateSessionKey_symmetric [of keyId0 e kms]
    by blast
qed

theorem symmetric_material_invariant_witness:
  "kms_reachable (snd (generateSessionKey (Some ''s1'') (toyEntropy 0)
       (initializeWithPassword ''pw'' newKeyManagementService))) \<and>
   allSymmetric (sessionKeys (snd (generateSessionKey (Some ''s1'') (toyEntropy 0)
       (initializeWithPassword ''pw'' newKeyManagementService)))) \<and>
   (\<exists>k kms'. generateMemoryKey ''m1'' (Some ''5a17'') (toyEntropy 0)
        (snd (generateSessionKey (Some ''s1'') (toyEntropy 0)
           (initializeWithPassword ''pw'' newKeyManagementService))) = Inr (k, kms') \<and>
      symmetricMaterial k) \<and>
   allSymmetric (keys (newEncryptionService defaultEncryptionConfig)) \<and>
   allSymmetric (keys (snd (generateKeyPair toyCryptoJS (Some ''s1'') (toyEntropy 0) toyRandom
       (newEncryptionService defaultEncryptionConfig)))) \<and>
   (\<exists>env svc'. encrypt toyCryptoJS ''hello'' (Some ''s1'') None (toyEntropy 0) toyRandom
        (newEncryptionService defaultEncryptionConfig) = Inr (env, svc') \<and>
      allSymmetric (keys svc')) \<and>
   es_reachable toyCryptoJS
     (snd (importKey toyParse ''{k8}''
        (snd (generateKeyPair toyCryptoJS (Some ''s1'') (toyEntropy 0) toyRandom
           (newEncryptionService defaultEncryptionConfig))))) \<and>
   allSymmetric (keys
     (snd (importKey toyParse ''{k8}''
        (snd (generateKeyPair toyCryptoJS (Some ''s1'') (toyEntropy 0) toyRandom
           (newEncryptionService defaultEncryptionConfig))))))"
proof -
  let ?kms = "snd (generateSessionKey (Some ''s1'') (toyEntropy 0)
       (initializeWithPassword ''pw'' newKeyManagementService))"
  let ?svc = "newEncryptionService defaultEncryptionConfig"
  let ?svc1 = "snd (generateKeyPair toyCryptoJS (Some ''s1'') (toyEntropy 0) toyRandom ?svc)"
  let ?svc2 = "snd (importKey toyParse ''{k8}'' ?svc1)"
  note inv = symmetric_material_invariant [where lib = toyCryptoJS and ?keyId0.0 = "Some ''s1''"
      and e = "toyEntropy 0" and rnd = toyRandom and svc = ?svc and password = "''pw''"
      and ?salt0.0 = "Some ''5a17''" and kms = ?kms and memoryId = "''m1''"
      and plaintext = "''hello''" and kmsO = None]
  note inv2 = symmetric_material_invariant [where lib = toyCryptoJS and svc = ?svc2]
  have r: "kms_reachable ?kms"
    by (intro kms_reachable.intros)
  have m: "\<exists>k kms'. generateMemoryKey ''m1'' (Some ''5a17'') (toyEntropy 0) ?kms = Inr (k, kms')"
    by (simp add: generateMemoryKey_def generateSessionKey_def initializeWithPassword_def Let_def)
  have s: "allSymmetric (keys ?svc)"
    by (simp add: newEncryptionService_def allSymmetric_def)
  have c: "\<exists>env svc'. encrypt toyCryptoJS ''hello'' (Some ''s1'') None (toyEntropy 0) toyRandom ?svc
      = Inr (env, svc')"
    by (simp add: encrypt_def newEncryptionService_def generateKeyPair_def Let_def
        split: prod.splits)
  have r1: "es_reachable toyCryptoJS ?svc1"
    by (intro es_reachable.intros)
  have i: "importKey toyParse ''{k8}'' ?svc1 = (Inr (the (toyParse ''{k8}'')), ?svc2)"
    by (simp add: importKey_def toyParse_def)
  have r2: "es_reachable toyCryptoJS ?svc2"
    by (rule es_imported [OF r1 i]) (simp add: toyParse_def symmetricMaterial_def)
  from inv inv2 r m s c r2 show ?thesis by blast
qed

text \<open>
  The claim as stated fails for the key table of the EncryptionService: importKey,
  loadKeysFromStorage and decryptTimelock store the key they are given without comparing
  its two fields.
\<close>

theorem symmetric_material_invariant_counterexample:
  "keys (snd (importKey toyParse ''{k7}'' (newEncryptionService defaultEncryptionConfig))) ''k7''
     = Some \<lparr>publicKey = ''pub7'', privateKey = ''priv7'', keyId = ''k7'',
              algorithm = ''AES-256-GCM'', createdAt = 1700, salt = None\<rparr> \<and>
   \<not> allSymmetric (keys (snd (importKey toyParse ''{k7}''
        (newEncryptionService defaultEncryptionConfig)))) \<and>
   \<not> allSymmetric (keys (snd (decryptTimelock toyCryptoJS
        \<lparr>encryptedKey = ''priv7'', unlockTime = 1600, timelockAlgorithm = ''RSA'',
         publicKey_t = ''pub7''\<rparr>
        \<lparr>encryptedContent = ''x'', iv = ''00'', salt_d = ''00'', tag = [],
         algorithm_d = ''AES-256-GCM'', keyDerivation_d = ''PBKDF2'', iterations_d = 1\<rparr>
        (toyEntropy 0) (newEncryptionService defaultEncryptionConfig)))) \<and>
   \<not> allSymmetric (keys (loadKeysFromStorage True (Some [toyParse ''{k7}''])
        (newEncryptionService defaultEncryptionConfig)))"
proof -
  let ?k = "\<lparr>publicKey = ''pub7'', privateKey = ''priv7'', keyId = ''k7'',
              algorithm = ''AES-256-GCM'', createdAt = 1700, salt = None\<rparr>"
  have n: "\<not> symmetricMaterial k" if "publicKey k = ''pub7''" "privateKey k = ''priv7''" for k
    using that by (simp add: symmetricMaterial_def)
  have a: "keys (snd (importKey toyParse ''{k7}'' (newEncryptionService defaultEncryptionConfig))) ''k7''
     = Some ?k"
    by (simp add: importKey_def toyParse_def newEncryptionService_def)
  have b: "\<exists>k. keys (snd (decryptTimelock toyCryptoJS
        \<lparr>encryptedKey = ''priv7'', unlockTime = 1600, timelockAlgorithm = ''RSA'',
         publicKey_t = ''pub7''\<rparr>
        \<lparr>encryptedContent = ''x'', iv = ''00'', salt_d = ''00'', tag = [],
         algorithm_d = ''AES-256-GCM'', keyDerivation_d = ''PBKDF2'', iterations_d = 1\<rparr>
        (toyEntropy 0) (newEncryptionService defaultEncryptionConfig))) (generateKeyId (toyEntropy 0))
      = Some k \<and> publicKey k = ''pub7'' \<and> privateKey k = ''priv7''"
    by (simp add: decryptTimelock_def isTimelockExpired_def toyEntropy_def Let_def
        newEncryptionService_def)
  have c: "keys (loadKeysFromStorage True (Some [toyParse ''{k7}''])
        (newEncryptionService defaultEncryptionConfig)) ''k7'' = Some ?k"
    by (simp add: loadKeysFromStorage_def toyParse_def newEncryptionService_def)
  have nk: "\<not> symmetricMaterial ?k" by (rule n) simp_all
  have x: "\<not> allSymmetric (keys (snd (importKey toyParse ''{k7}''
        (newEncryptionService defaultEncryptionConfig))))"
    unfolding allSymmetric_def using a nk by blast
  have y: "\<not> allSymmetric (keys (snd (decryptTimelock toyCryptoJS
        \<lparr>encryptedKey = ''priv7'', unlockTime = 1600, timelockAlgorithm = ''RSA'',
         publicKey_t = ''pub7''\<rparr>
        \<lparr>encryptedContent = ''x'', iv = ''00'', salt_d = ''00'', tag = [],
         algorithm_d = ''AES-256-GCM'', keyDerivation_d = ''PBKDF2'', iterations_d = 1\<rparr>
        (toyEntropy 0) (newEncryptionService defaultEncryptionConfig))))"
    unfolding allSymmetric_def using b n by blast
  have z: "\<not> allSymmetric (keys (loadKeysFromStorage True (Some [toyParse ''{k7}''])
        (newEncryptionService defaultEncryptionConfig)))"
    unfolding allSymmetric_def using c nk by blast
  from a x y z show ?thesis by blast
qed

text \<open>
  Claim C9. When the key id is missing, or no key is stored under it in the key
  management service and in the local key table, encrypt does not raise: it draws 32
  random bytes (the first draw of the operation), stores their hex rendering as the
  material of a new key under a generated id, leaves the other stored keys as they were,
  and returns an envelope encrypted under that new key with a random salt and iv. The
  new key is the one generateKeyPair returns.
\<close>

theorem encrypt_missing_key_fallback:
  assumes "keyAbsent keyId0 kms svc"
  shows "\<exists>env k svc'.
           encrypt lib plaintext keyId0 kms e rnd svc = Inr (env, svc') \<and>
           generateKeyPair lib None e rnd svc = (k, svc') \<and>
           privateKey k = Hex_stringify lib (rnd 0 32) \<and>
           publicKey k = Hex_stringify lib (rnd 0 32) \<and>
           keyId k = generateKeyId e \<and>
           svc' = svc\<lparr>keys := (keys svc)(generateKeyId e \<mapsto> k)\<rparr> \<and>
           encryptedContent env =
             AES_encrypt lib plaintext
               (PBKDF2 lib (Hex_stringify lib (rnd 0 32))
                  (rnd 1 (saltLength (config svc))) (iterations_c (config svc)))
               (rnd 2 (ivLength (config svc))) \<and>
           salt_d env = Hex_stringify lib (rnd 1 (saltLength (config svc))) \<and>
           iv env = Hex_stringify lib (rnd 2 (ivLength (config svc))) \<and>
           iterations_d env = iterations_c (config svc)"
proof -
  have key2: "(case (case kms of
                       None \<Rightarrow> None
                     | Some m \<Rightarrow> if truthy keyId0 then getKey m (the keyId0) else None) of
                 None \<Rightarrow> if truthy keyId0 then keys svc (the keyId0) else None
               | Some k \<Rightarrow> Some k) = None"
    using assms by (cases keyId0; cases kms) (auto simp: keyAbsent_def)
  show ?thesis
    unfolding encrypt_def by (simp add: key2 generateKeyPair_def Let_def)
qed

theorem encrypt_missing_key_fallback_witness:
  "keyAbsent (Some ''nokey'') (Some (initializeWithPassword ''pw'' newKeyManagementService))
     (newEncryptionService defaultEncryptionConfig) \<and>
   (\<exists>env k svc'. encrypt toyCryptoJS ''hello'' (Some ''nokey'')
             (Some (initializeWithPassword ''pw'' newKeyManagementService)) (toyEntropy 0) toyRandom
             (newEncryptionService defaultEncryptionConfig) = Inr (env, svc') \<and>
        privateKey k = replicate 32 CHR ''a'' \<and> publicKey k = replicate 32 CHR ''a'' \<and>
        keys svc' (generateKeyId (toyEntropy 0)) = Some k \<and> keys svc' ''nokey'' = None \<and>
        salt_d env = replicate 32 CHR ''b'' \<and> iv env = replicate 16 CHR ''c'')"
proof -
  have a: "keyAbsent (Some ''nokey'') (Some (initializeWithPassword ''pw'' newKeyManagementService))
     (newEncryptionService defaultEncryptionConfig)"
    by (simp add: keyAbsent_def getKey_def initializeWithPassword_def newKeyManagementService_def
        newEncryptionService_def)
  have h: "Hex_stringify toyCryptoJS (toyRandom 0 32) = replicate 32 CHR ''a''"
    "Hex_stringify toyCryptoJS (toyRandom 1 32) = replicate 32 CHR ''b''"
    "Hex_stringify toyCryptoJS (toyRandom 2 16) = replicate 16 CHR ''c''"
    by (simp_all add: toyCryptoJS_def toyRandom_def)
  have c: "saltLength (config (newEncryptionService defaultEncryptionConfig)) = 32"
    "ivLength (config (newEncryptionService defaultEncryptionConfig)) = 16"
    "keys (newEncryptionService defaultEncryptionConfig) = Map.empty"
    by (simp_all add: newEncryptionService_def defaultEncryptionConfig_def)
  have g: "generateKeyId (toyEntropy 0) \<noteq> ''nokey''"
    by (simp add: generateKeyId_def)
  from encrypt_missing_key_fallback [OF a, of toyCryptoJS "''hello''" "toyEntropy 0" toyRandom]
  obtain env k svc' where
    "encrypt toyCryptoJS ''hello'' (Some ''nokey'')
             (Some (initializeWithPassword ''pw'' newKeyManagementService)) (toyEntropy 0) toyRandom
             (newEncryptionService defaultEncryptionConfig) = Inr (env, svc')"
    "privateKey k = replicate 32 CHR ''a''" "publicKey k = replicate 32 CHR ''a''"
    "svc' = (newEncryptionService defaultEncryptionConfig)\<lparr>keys := (keys (newEncryptionService defaultEncryptionConfig))(generateKeyId (toyEntropy 0) \<mapsto> k)\<rparr>"
    "salt_d env = replicate 32 CHR ''b''" "iv env = replicate 16 CHR ''c''"
    unfolding h c by blast
  with a g show ?thesis
    by (auto simp: c)
qed

text \<open>
  Claim C2, as amended. For a library whose decryption inverts its encryption, every
  non-empty plaintext P, memory id R and non-empty salt S: encrypting P under the key that
  generateMemoryKey derives for (master secret, R, S) and decrypting the envelope, either
  with that cached key or with a key derived again from the same (master secret, R, S),
  returns exactly P.
\<close>

theorem encrypt_decrypt_roundtrip:
  assumes lib: "cryptojs_roundtrip lib" and P: "P \<noteq> []" and S: "S \<noteq> []"
    and init: "isInitialized_kms kms" and same: "masterKey kms' = masterKey kms"
  shows "\<exists>k1 kms1 env svc1 k2 kms2 res res'.
           generateMemoryKey R (Some S) e1 kms = Inr (k1, kms1) \<and>
           encrypt lib P (Some (keyId k1)) (Some kms1) e2 rnd svc = Inr (env, svc1) \<and>
           decrypt lib env (keyId k1) (Some kms1) e3 svc' = Inr res \<and> content_r res = P \<and>
           generateMemoryKey R (Some S) e4 kms' = Inr (k2, kms2) \<and>
           decrypt lib env (keyId k2) (Some kms2) e5 svc' = Inr res' \<and> content_r res' = P"
proof -
  from lib have aes: "\<And>p k v. Utf8_stringify lib (AES_decrypt lib (AES_encrypt lib p k v) k v) = Some p"
    and hex: "\<And>w. Hex_parse lib (Hex_stringify lib w) = w"
    by (simp_all add: cryptojs_roundtrip_def)
  from init same have init': "truthy (masterKey kms)" "truthy (masterKey kms')"
    by (simp_all add: isInitialized_kms_def)
  show ?thesis
    using P S init' same
    by (simp add: generateMemoryKey_def encrypt_def decrypt_def getKey_def Let_def aes hex)
qed

theorem encrypt_decrypt_roundtrip_witness:
  "cryptojs_roundtrip toyCryptoJS \<and>
   isInitialized_kms (initializeWithPassword ''pw'' newKeyManagementService) \<and>
   (\<exists>k1 kms1 env svc1 k2 kms2 res res'.
           generateMemoryKey ''m1'' (Some ''5a17'') (toyEntropy 0)
              (initializeWithPassword ''pw'' newKeyManagementService) = Inr (k1, kms1) \<and>
           encrypt toyCryptoJS ''secret'' (Some (keyId k1)) (Some kms1) (toyEntropy 1) toyRandom
              (newEncryptionService defaultEncryptionConfig) = Inr (env, svc1) \<and>
           decrypt toyCryptoJS env (keyId k1) (Some kms1) (toyEntropy 2)
              (newEncryptionService defaultEncryptionConfig) = Inr res \<and> content_r res = ''secret'' \<and>
           generateMemoryKey ''m1'' (Some ''5a17'') (toyEntropy 3)
              (initializeWithPassword ''pw'' newKeyManagementService) = Inr (k2, kms2) \<and>
           decrypt toyCryptoJS env (keyId k2) (Some kms2) (toyEntropy 4)
              (newEncryptionService defaultEncryptionConfig) = Inr res' \<and> content_r res' = ''secret'')"
proof -
  have a: "isInitialized_kms (initializeWithPassword ''pw'' newKeyManagementService)"
    by (simp add: isInitialized_kms_def initializeWithPassword_def)
  have p: "''secret'' \<noteq> []" and s: "''5a17'' \<noteq> []" by simp_all
  from encrypt_decrypt_roundtrip [OF toy_lawful p s a refl, of "''m1''" "toyEntropy 0"
      "toyEntropy 1" toyRandom "newEncryptionService defaultEncryptionConfig" "toyEntropy 2"
      "newEncryptionService defaultEncryptionConfig" "toyEntropy 3" "toyEntropy 4"] toy_lawful a
  show ?thesis by blast
qed

text \<open>
  The claim as stated fails for the empty plaintext, which decrypt rejects
  (\<^verbatim>\<open>if (!content) throw\<close>), and for the empty salt, where the key derived again has
  other material than the key the envelope was made with.
\<close>

theorem encrypt_decrypt_roundtrip_counterexample:
  "(case generateMemoryKey ''m1'' (Some ''5a17'') (toyEntropy 0)
           (initializeWithPassword ''pw'' newKeyManagementService) of
      Inl err \<Rightarrow> False
    | Inr (k1, kms1) \<Rightarrow>
       (case encrypt toyCryptoJS [] (Some (keyId k1)) (Some kms1) (toyEntropy 1) toyRandom
               (newEncryptionService defaultEncryptionConfig) of
          Inl err \<Rightarrow> False
        | Inr (env, svc1) \<Rightarrow>
            decrypt toyCryptoJS env (keyId k1) (Some kms1) (toyEntropy 2) svc1
              = Inl DecryptionFailed)) \<and>
   (case generateMemoryKey ''m1'' (Some []) (toyEntropy 0)
           (initializeWithPassword ''pw'' newKeyManagementService) of
      Inl err \<Rightarrow> False
    | Inr (k1, kms1) \<Rightarrow>
       (case encrypt toyCryptoJS ''secret'' (Some (keyId k1)) (Some kms1) (toyEntropy 1) toyRandom
               (newEncryptionService defaultEncryptionConfig) of
          Inl err \<Rightarrow> False
        | Inr (env, svc1) \<Rightarrow>
           (case generateMemoryKey ''m1'' (Some []) (toyEntropy 3) kms1 of
              Inl err \<Rightarrow> False
            | Inr (k2, kms2) \<Rightarrow>
                decrypt toyCryptoJS env (keyId k2) (Some kms2) (toyEntropy 4) svc1
                  = Inl DecryptionFailed)))"
  by (simp add: generateMemoryKey_def initializeWithPassword_def Let_def
      generateRandomSalt_toy0 generateRandomSalt_toy3
      newKeyManagementService_def encrypt_def decrypt_def getKey_def toyRandom_def
      newEncryptionService_def defaultEncryptionConfig_def toyCryptoJS_def decimal_105 decimal_16)

section \<open>The entity store adapter: the claims\<close>

text \<open>
  Claim C1 does not hold of the code. A recovery fetch that returns an entity without
  payload is counted as a failure before its \<^verbatim>\<open>toText()\<close> is tried, and the
  threshold is tested at once; a text then resets the counter, but not the breaker. So
  after four failed recovery fetches a fifth, successful one returns its record and
  trips the breaker: in one search over a listing of four unfetchable entities and one
  recovered through \<^verbatim>\<open>toText()\<close>, the record is returned and the breaker is set for
  the rest of the session, after which an entity that its recovery fetch would return in
  full resolves to absent without a fetch. A fetch that resolves to \<^verbatim>\<open>null\<close> is
  counted twice, so that three of them trip the breaker.
\<close>

theorem breaker_trips_on_recovered_fetch:
  "individualFetchFailures fourFailures = 4 \<and> \<not> skipIndividualFetch fourFailures \<and>
   lacksPayload (bareEntity ''0xk4'') \<and> recoversByText toyRemote (bareEntity ''0xk4'') \<and>
   fst (entityToMemory toyRemote (bareEntity ''0xk4'') fourFailures)
     = Some (memoryOfData (explorerUrl toyService) ''0xk4'' (toyData ''m1'' 120)) \<and>
   individualFetchFailures (snd (entityToMemory toyRemote (bareEntity ''0xk4'') fourFailures)) = 0 \<and>
   skipIndividualFetch (snd (entityToMemory toyRemote (bareEntity ''0xk4'') fourFailures)) \<and>
   fst (searchMemories toyFlaky [] None 50 toyService)
     = Inr [memoryOfData (explorerUrl toyService) ''0xk4'' (toyData ''m1'' 120)] \<and>
   getEntityCalls trippedEarly = [''0xa1'', ''0xa2'', ''0xa3'', ''0xa4'', ''0xk4''] \<and>
   individualFetchFailures trippedEarly = 0 \<and> skipIndividualFetch trippedEarly \<and>
   fst (searchMemories toyBare [] None 50 toyService)
     = Inr [memoryOfData (explorerUrl toyService) ''0xk1'' (toyData ''m1'' 120)] \<and>
   searchMemories toyBare [] None 50 trippedEarly = (Inr [], trippedEarly) \<and>
   individualFetchFailures
     (snd (entityToMemory_each (replicate 3 (toyRemote, bareEntity ''0xk5'')) toyService)) = 6 \<and>
   skipIndividualFetch
     (snd (entityToMemory_each (replicate 3 (toyRemote, bareEntity ''0xk5'')) toyService))"
proof -
  have a: "individualFetchFailures fourFailures = 4" "\<not> skipIndividualFetch fourFailures"
    by (simp_all add: four_state toyService_def)
  have b: "lacksPayload (bareEntity ''0xk4'')" "recoversByText toyRemote (bareEntity ''0xk4'')"
    by (simp_all add: lacksPayload_def recoversByText_def bareEntity_def toyRemote_def textEntity_def)
  have c: "getEntityCalls trippedEarly = [''0xa1'', ''0xa2'', ''0xa3'', ''0xa4'', ''0xk4'']"
    "individualFetchFailures trippedEarly = 0" "skipIndividualFetch trippedEarly"
    by (simp_all add: tripped_state)
  from a b c show ?thesis
    by (simp add: t1 flaky_search bare_search_fresh bare_search_tripped three_nulls)
qed

text \<open>
  Claim C5. With the service initialized: a delete that the remote store accepts returns
  true and leaves the key out of the Local Key Index, in memory and, where a browser's
  localStorage takes the item, in the persisted copy; an upload of a record with an
  access policy and valid dates that the remote store accepts returns the store's key,
  and afterwards the index holds that key beside the keys it held before; every upload
  that returns has its key in the index, and an upload that throws (before or in the
  remote call) leaves the state as it was after initialization; a delete that the remote
  store rejects returns false, does not throw, and leaves the whole state as it was after
  initialization, the index included.
\<close>

theorem local_key_index_coherence:
  "(ensureInitialized env st = (None, st0) \<and> deleteEntity env k = None \<longrightarrow>
      fst (deleteMemory env k st) = Inr True \<and>
      k \<notin> set (entityKeys (snd (deleteMemory env k st))) \<and>
      entityKeys (snd (deleteMemory env k st)) = removeAll k (entityKeys st0) \<and>
      localStorage_keys (snd (deleteMemory env k st)) =
        (if windowDefined env \<and> setItem env (removeAll k (entityKeys st0))
         then Some (removeAll k (entityKeys st0)) else localStorage_keys st0)) \<and>
   (ensureInitialized env st = (None, st0) \<and> buildAttributes memory = Inr attributes \<and>
    createEntity env memory attributes = Inr (k, tx) \<longrightarrow>
      (\<exists>r. fst (uploadMemory env memory st) = Inr r \<and> entityKey_u r = k) \<and>
      k \<in> set (entityKeys (snd (uploadMemory env memory st))) \<and>
      set (entityKeys (snd (uploadMemory env memory st))) = insert k (set (entityKeys st0)) \<and>
      localStorage_keys (snd (uploadMemory env memory st)) =
        (if windowDefined env \<and> setItem env (entityKeys (snd (uploadMemory env memory st)))
         then Some (entityKeys (snd (uploadMemory env memory st)))
         else localStorage_keys st0)) \<and>
   (\<forall>r. fst (uploadMemory env memory st) = Inr r \<longrightarrow>
      entityKey_u r \<in> set (entityKeys (snd (uploadMemory env memory st)))) \<and>
   (\<forall>e. fst (uploadMemory env memory st) = Inl e \<longrightarrow>
      snd (uploadMemory env memory st) = snd (ensureInitialized env st)) \<and>
   (ensureInitialized env st = (None, st0) \<and> buildAttributes memory = Inl err \<longrightarrow>
      (\<exists>e. uploadMemory env memory st = (Inl e, st0))) \<and>
   (ensureInitialized env st = (None, st0) \<and> deleteEntity env k = Some err \<longrightarrow>
      deleteMemory env k st = (Inr False, st0) \<and>
      (isInitialized st \<longrightarrow> st0 = st))"
proof -
  have del: "fst (deleteMemory env k st) = Inr True \<and>
      k \<notin> set (entityKeys (snd (deleteMemory env k st))) \<and>
      entityKeys (snd (deleteMemory env k st)) = removeAll k (entityKeys st0) \<and>
      localStorage_keys (snd (deleteMemory env k st)) =
        (if windowDefined env \<and> setItem env (removeAll k (entityKeys st0))
         then Some (removeAll k (entityKeys st0)) else localStorage_keys st0)"
    if "ensureInitialized env st = (None, st0)" "deleteEntity env k = None"
    using that by (simp add: deleteMemory_def Set_delete_def saveEntityKeysToStorage_def)
  have up: "(\<exists>r. fst (uploadMemory env memory st) = Inr r \<and> entityKey_u r = k) \<and>
      k \<in> set (entityKeys (snd (uploadMemory env memory st))) \<and>
      set (entityKeys (snd (uploadMemory env memory st))) = insert k (set (entityKeys st0)) \<and>
      localStorage_keys (snd (uploadMemory env memory st)) =
        (if windowDefined env \<and> setItem env (entityKeys (snd (uploadMemory env memory st)))
         then Some (entityKeys (snd (uploadMemory env memory st)))
         else localStorage_keys st0)"
    if "ensureInitialized env st = (None, st0)" "buildAttributes memory = Inr attributes"
      "createEntity env memory attributes = Inr (k, tx)"
  proof -
    from that(2) obtain d where d: "isoDates memory = Inr d"
      by (auto simp: buildAttributes_def split: option.splits sum.splits)
    from that d show ?thesis
      by (auto simp: uploadMemory_def Set_add_def saveEntityKeysToStorage_def)
  qed
  have ok: "entityKey_u r \<in> set (entityKeys (snd (uploadMemory env memory st)))"
    if "fst (uploadMemory env memory st) = Inr r" for r
    using that
    by (cases "ensureInitialized env st")
      (auto simp: uploadMemory_def Set_add_member split: option.splits sum.splits)
  have thrown: "snd (uploadMemory env memory st) = snd (ensureInitialized env st)"
    if "fst (uploadMemory env memory st) = Inl e" for e
    using that
    by (cases "ensureInitialized env st")
      (auto simp: uploadMemory_def split: option.splits sum.splits)
  have early: "\<exists>e. uploadMemory env memory st = (Inl e, st0)"
    if "ensureInitialized env st = (None, st0)" "buildAttributes memory = Inl err"
    using that by (auto simp: uploadMemory_def split: sum.splits)
  have rej: "deleteMemory env k st = (Inr False, st0) \<and> (isInitialized st \<longrightarrow> st0 = st)"
    if "ensureInitialized env st = (None, st0)" "deleteEntity env k = Some err"
    using that by (auto simp: deleteMemory_def ensureInitialized_def split: if_splits)
  from del up ok thrown early rej show ?thesis by blast
qed

theorem local_key_index_coherence_witness:
  "ensureInitialized toyRemote toyService = (None, toyService) \<and>
   deleteEntity toyRemote ''0xk1'' = None \<and>
   fst (deleteMemory toyRemote ''0xk1'' toyService) = Inr True \<and>
   entityKeys (snd (deleteMemory toyRemote ''0xk1'' toyService)) = [''0xk2''] \<and>
   localStorage_keys (snd (deleteMemory toyRemote ''0xk1'' toyService)) = Some [''0xk2''] \<and>
   (\<exists>attributes.
      buildAttributes (memoryOfData [] ''0xk9'' (toyData ''m9'' 10)) = Inr attributes \<and>
      createEntity toyRemote (memoryOfData [] ''0xk9'' (toyData ''m9'' 10)) attributes
        = Inr (''0xk9'', Some ''0xtx9'')) \<and>
   set (entityKeys (snd (uploadMemory toyRemote (memoryOfData [] ''0xk9'' (toyData ''m9'' 10))
      toyService))) = {''0xk1'', ''0xk2'', ''0xk9''} \<and>
   buildAttributes ((memoryOfData [] ''0xk9'' (toyData ''m9'' 10))\<lparr>accessPolicy := None\<rparr>)
     = Inl TypeError \<and>
   (\<exists>e. uploadMemory toyRemote ((memoryOfData [] ''0xk9'' (toyData ''m9'' 10))\<lparr>accessPolicy := None\<rparr>)
      toyService = (Inl e, toyService)) \<and>
   deleteEntity toyRemote ''0xk2'' = Some (RemoteError ''delete reverted'') \<and>
   deleteMemory toyRemote ''0xk2'' toyService = (Inr False, toyService)"
proof -
  let ?m = "memoryOfData [] ''0xk9'' (toyData ''m9'' 10)"
  have d1: "deleteEntity toyRemote ''0xk1'' = None"
    and d2: "deleteEntity toyRemote ''0xk2'' = Some (RemoteError ''delete reverted'')"
    and c: "createEntity toyRemote ?m attributes = Inr (''0xk9'', Some ''0xtx9'')"
    and w: "windowDefined toyRemote" "setItem toyRemote ks" for attributes ks
    by (simp_all add: toyRemote_def)
  obtain attributes where b: "buildAttributes ?m = Inr attributes"
    by (simp add: buildAttributes_def isoDates_def toISOString_def memoryOfData_def toyData_def)
  have n: "buildAttributes (?m\<lparr>accessPolicy := None\<rparr>) = Inl TypeError"
    by (simp add: buildAttributes_def)
  have k: "removeAll ''0xk1'' (entityKeys toyService) = [''0xk2'']"
    "set (entityKeys toyService) = {''0xk1'', ''0xk2''}"
    by (simp_all add: toyService_def)
  from local_key_index_coherence [where env = toyRemote and st = toyService and ?st0.0 = toyService
      and k = "''0xk1''"] toyService_initialized d1 k w
  have a: "fst (deleteMemory toyRemote ''0xk1'' toyService) = Inr True"
    "entityKeys (snd (deleteMemory toyRemote ''0xk1'' toyService)) = [''0xk2'']"
    "localStorage_keys (snd (deleteMemory toyRemote ''0xk1'' toyService)) = Some [''0xk2'']"
    by simp_all
  from local_key_index_coherence [where env = toyRemote and st = toyService and ?st0.0 = toyService
      and memory = ?m and k = "''0xk9''" and tx = "Some ''0xtx9''" and attributes = attributes]
    toyService_initialized c b k
  have u: "set (entityKeys (snd (uploadMemory toyRemote ?m toyService))) = {''0xk1'', ''0xk2'', ''0xk9''}"
    by auto
  from local_key_index_coherence [where env = toyRemote and st = toyService and ?st0.0 = toyService
      and memory = "?m\<lparr>accessPolicy := None\<rparr>" and err = TypeError]
    toyService_initialized n
  have t: "\<exists>e. uploadMemory toyRemote (?m\<lparr>accessPolicy := None\<rparr>) toyService = (Inl e, toyService)"
    by simp
  from local_key_index_coherence [where env = toyRemote and st = toyService and ?st0.0 = toyService
      and k = "''0xk2''" and err = "RemoteError ''delete reverted''"] toyService_initialized d2
  have e: "deleteMemory toyRemote ''0xk2'' toyService = (Inr False, toyService)"
    by simp
  from toyService_initialized d1 d2 c b n a u t e show ?thesis by blast
qed

text \<open>
  Claim C7, as amended. With the service initialized, and for sizes and key counts in
  the range where the code's doubles are exact integers, getStorageStats returns:
  totalMemories (and pinnedMemories) equal to the number of known keys; totalSize equal
  to averageSize times that number, where averageSize is 0 when there are no keys and
  otherwise the sum of the metadata sizes of the records retrieved for the first 20 keys
  (all keys if there are fewer), divided by the number of sampled keys and rounded to
  the nearest integer. A sampled key whose record cannot be retrieved adds nothing to the
  sum and still counts in the divisor. The operation calls getEntity at most twice per
  sampled key, so at most 40 times however many keys are known: totalSize is an
  extrapolation and not the sum over all records.
\<close>

theorem storage_stats_extrapolation:
  assumes "fst (ensureInitialized env st) = None" and "sizesExact env st"
  shows "let ks = fst (getAllEntityKeys env st);
             st1 = snd (getAllEntityKeys env st);
             sampleKeys = take 20 ks;
             sampled = (\<Sum>m\<leftarrow>fst (retrieveEach env sampleKeys st1). sizeOf (Some m));
             averageSize = (if ks = [] then 0
                            else round (real_of_int sampled / real (length sampleKeys)))
         in length sampleKeys = min 20 (length ks) \<and>
            (\<exists>stats. fst (getStorageStats env st) = Inr stats \<and>
               totalMemories stats = length ks \<and>
               pinnedMemories stats = length ks \<and>
               totalSize stats = averageSize * int (length ks)) \<and>
            fetchesAtMost (2 * length sampleKeys) st (snd (getStorageStats env st))"
proof -
  obtain ks st1 where g: "getAllEntityKeys env st = (ks, st1)"
    by (cases "getAllEntityKeys env st")
  with getAllEntityKeys_ready [OF assms(1)] have r: "ready st1" by simp
  have avg: "ks \<noteq> [] \<Longrightarrow> Math_round_div s (length (take 20 ks))
      = round (real_of_int s / real (length (take 20 ks)))" for s
    by (rule Math_round_div_round) simp
  have calls: "fetchesAtMost (2 * length (take 20 ks)) st (snd (getStorageStats env st))"
    using calls_getStorageStats [of env st] by (simp add: g)
  show ?thesis
    using avg calls by (auto simp: g getStorageStats_def sampleSizes_ready [OF r] Let_def)
qed

theorem storage_stats_extrapolation_witness:
  "fst (ensureInitialized toyListing toyService) = None \<and> sizesExact toyListing toyService \<and>
   (\<exists>stats. fst (getStorageStats toyListing toyService) = Inr stats \<and>
      totalMemories stats = 2 \<and> totalSize stats = 196) \<and>
   (\<Sum>m\<leftarrow>fst (retrieveEach toyListing [''0xk1'', ''0xk2''] toyService). sizeOf (Some m)) = 195 \<and>
   fetchesAtMost 4 toyService (snd (getStorageStats toyListing toyService))"
proof -
  have i: "fst (ensureInitialized toyListing toyService) = None"
    by (simp add: ensureInitialized_ready toy_ready)
  have r: "round (195 / 2 :: real) = 98"
    by (simp add: round_def)
  from storage_stats_extrapolation [OF i toy_exact]
  have "\<exists>stats. fst (getStorageStats toyListing toyService) = Inr stats \<and>
      totalMemories stats = 2 \<and> totalSize stats = 196"
    by (auto simp: toy_keys Let_def toy_sizes r numeral_2_eq_2 simp del: retrieveEach.simps)
  moreover from storage_stats_extrapolation [OF i toy_exact]
  have "fetchesAtMost 4 toyService (snd (getStorageStats toyListing toyService))"
    by (simp add: toy_keys Let_def)
  ultimately show ?thesis
    using i toy_sizes toy_exact by blast
qed

text \<open>
  The claim as stated fails where a sampled key has no retrievable record: of two known
  keys one yields a record of size 120 and the other none; the mean of the sampled
  records' sizes is 120, which extrapolates to 240, while the code divides by the two
  sampled keys and returns 60 times 2.
\<close>

theorem storage_stats_extrapolation_counterexample:
  "fst (getAllEntityKeys toyGone toyService) = [''0xk1'', ''0xk6''] \<and>
   fst (retrieveEach toyGone [''0xk1'', ''0xk6''] (snd (getAllEntityKeys toyGone toyService)))
     = [memoryOfData (explorerUrl toyService) ''0xk1'' (toyData ''m1'' 120)] \<and>
   meanOfSampledRecords [memoryOfData (explorerUrl toyService) ''0xk1'' (toyData ''m1'' 120)] = 120 \<and>
   meanOfSampledRecords [memoryOfData (explorerUrl toyService) ''0xk1'' (toyData ''m1'' 120)] * 2
     = 240 \<and>
   fst (getStorageStats toyGone toyService)
     = Inr \<lparr>totalMemories = 2, totalSize = 120, pinnedMemories = 2, chainId_s = 1\<rparr>"
proof -
  let ?st1 = "toyService\<lparr>entityKeys := [''0xk1'', ''0xk6''], localStorage_keys := Some [''0xk1'', ''0xk6'']\<rparr>"
  have r: "ready ?st1" using toy_ready by (simp add: ready_def)
  have u: "explorerUrl ?st1 = explorerUrl toyService" by simp
  have ch: "chainId toyGone (logFetch ''0xk6'' (logFetch ''0xk1'' ?st1)) = 1"
    by (simp add: chainId_def logFetch_def toyGone_def toyRemote_def toyService_def)
  have ss: "sampleSizes toyGone [''0xk1'', ''0xk6''] 0 ?st1
      = (Inr 120, logFetch ''0xk6'' (logFetch ''0xk1'' ?st1))"
    by (simp add: sampleSizes_ready [OF r] gone_retrieveEach [OF r] sizeOf_def memoryOfData_def
        toyData_def del: retrieveEach.simps)
  have m: "meanOfSampledRecords [memoryOfData (explorerUrl toyService) ''0xk1'' (toyData ''m1'' 120)] = 120"
    by (simp add: meanOfSampledRecords_def Math_round_div_def sizeOf_def memoryOfData_def toyData_def)
  have s: "fst (getStorageStats toyGone toyService)
     = Inr \<lparr>totalMemories = 2, totalSize = 120, pinnedMemories = 2, chainId_s = 1\<rparr>"
    unfolding getStorageStats_def gone_keys
    by (simp add: ss ch Math_round_div_def Let_def del: sampleSizes.simps)
  from m s show ?thesis
    by (simp add: gone_keys gone_retrieveEach [OF r] del: retrieveEach.simps)
qed

text \<open>
  Claim C4, as amended. For the empty query and no owner filter: if the owner listing
  with payload yields no entities, the breaker is untripped and the remote enumeration
  of keys fails, searchMemories with limit 50 returns what the fallback tier retrieves
  from the keys of the Local Key Index, fetched one after the other in index order, at
  most 50 records. Every record returned is one that a point fetch of a cached key
  yields; the record of a key whose entity carries its payload is always retrieved; and
  if the breaker is still untripped when the call returns, the records retrieved are
  exactly those that the point fetches of the cached keys yield. (Once the breaker trips
  during the fallback, later keys whose entity lacks its payload yield nothing.)
\<close>

theorem search_fallback_completeness:
  assumes init: "ensureInitialized env st = (None, st0)"
    and breaker: "\<not> skipIndividualFetch st0"
    and owner: "\<not> truthy owner0"
    and zero: "queryFetch env (primaryQuery st0 50) = Inr res" "entities res = []"
    and enum: "enumerationFails env st0"
  shows "fst (searchMemories env [] owner0 50 st)
           = Inr (take 50 (fst (retrieveEach env (entityKeys st0) st0))) \<and>
         snd (searchMemories env [] owner0 50 st) = snd (retrieveEach env (entityKeys st0) st0) \<and>
         (\<not> skipIndividualFetch (snd (searchMemories env [] owner0 50 st)) \<longrightarrow>
            fst (searchMemories env [] owner0 50 st)
              = Inr (take 50 (List.map_filter (pointFetch env st0) (entityKeys st0)))) \<and>
         (\<forall>ms. fst (searchMemories env [] owner0 50 st) = Inr ms \<longrightarrow>
            set ms \<subseteq> set (List.map_filter (pointFetch env st0) (entityKeys st0))) \<and>
         (\<forall>k e m. k \<in> set (entityKeys st0) \<and> getEntity env k = Inr (Some e) \<and> \<not> lacksPayload e \<and>
             decodeEntity env (explorerUrl st0) e = Some m \<longrightarrow>
               m \<in> set (fst (retrieveEach env (entityKeys st0) st0))) \<and>
         (length (entityKeys st0) \<le> 50 \<longrightarrow>
            fst (searchMemories env [] owner0 50 st)
              = Inr (fst (retrieveEach env (entityKeys st0) st0)))"
proof -
  from init have r: "ready st0" by (rule ensureInitialized_None)
  have all: "entityToMemory_all env [] st0 = ([], st0)"
    by (simp add: entityToMemory_all_def pendingFetches_def completionOrder_def enumerate_eq_zip)
  have fb: "searchMemoriesFallback env [] 50 st0
      = (take 50 (fst (retrieveEach env (entityKeys st0) st0)), snd (retrieveEach env (entityKeys st0) st0))"
    by (simp add: searchMemoriesFallback_def getAllMemoriesDirectly_def
        getAllEntityKeys_fails [OF enum r] matchesSearch_def split: prod.splits)
  have tr: "searchMemories_try env [] owner0 50 st0
      = (Inr (take 50 (fst (retrieveEach env (entityKeys st0) st0))),
         snd (retrieveEach env (entityKeys st0) st0))"
    using owner breaker
    by (simp add: searchMemories_try_def fetchOwnedEntities_primary [OF r, of env 50, simplified]
        zero all fb primaryQuery_def [symmetric])
  have main: "searchMemories env [] owner0 50 st
           = (Inr (take 50 (fst (retrieveEach env (entityKeys st0) st0))),
              snd (retrieveEach env (entityKeys st0) st0))"
    by (simp add: searchMemories_def init tr)
  have len: "length (entityKeys st0) \<le> 50 \<Longrightarrow>
      take 50 (fst (retrieveEach env (entityKeys st0) st0)) = fst (retrieveEach env (entityKeys st0) st0)"
    using retrieveEach_length [of env "entityKeys st0" st0] by simp
  have pw: "fst (retrieveEach env (entityKeys st0) st0)
      = List.map_filter (pointFetch env st0) (entityKeys st0)"
    if "\<not> skipIndividualFetch (snd (retrieveEach env (entityKeys st0) st0))"
    by (rule retrieveEach_pointwise [OF r r refl refl that])
  have inl: "m \<in> set (fst (retrieveEach env (entityKeys st0) st0))"
    if "k \<in> set (entityKeys st0)" "getEntity env k = Inr (Some e)" "\<not> lacksPayload e"
      "decodeEntity env (explorerUrl st0) e = Some m" for k e m
    by (rule retrieveEach_contains [OF that r refl])
  have sub: "set ms \<subseteq> set (List.map_filter (pointFetch env st0) (entityKeys st0))"
    if "fst (searchMemories env [] owner0 50 st) = Inr ms" for ms
  proof -
    from that main have "ms = take 50 (fst (retrieveEach env (entityKeys st0) st0))" by simp
    then have "set ms \<subseteq> set (fst (retrieveEach env (entityKeys st0) st0))"
      by (simp add: set_take_subset)
    with retrieveEach_sub [OF r breaker r refl, of env "entityKeys st0"] show ?thesis by blast
  qed
  have c1: "fst (searchMemories env [] owner0 50 st)
           = Inr (take 50 (fst (retrieveEach env (entityKeys st0) st0)))"
    and c2: "snd (searchMemories env [] owner0 50 st) = snd (retrieveEach env (entityKeys st0) st0)"
    using main by simp_all
  have c3: "fst (searchMemories env [] owner0 50 st)
              = Inr (take 50 (List.map_filter (pointFetch env st0) (entityKeys st0)))"
    if "\<not> skipIndividualFetch (snd (searchMemories env [] owner0 50 st))"
    using that pw c1 c2 by simp
  have c6: "fst (searchMemories env [] owner0 50 st)
              = Inr (fst (retrieveEach env (entityKeys st0) st0))"
    if "length (entityKeys st0) \<le> 50"
    using that len c1 by simp
  from c1 c2 c3 sub inl c6 show ?thesis by blast
qed

theorem search_fallback_completeness_witness:
  "ensureInitialized toyStaleListing toyService = (None, toyService) \<and>
   \<not> skipIndividualFetch toyService \<and> \<not> truthy None \<and>
   queryFetch toyStaleListing (primaryQuery toyService 50) = Inr \<lparr>entities = [], morePages = []\<rparr> \<and>
   enumerationFails toyStaleListing toyService \<and>
   entityKeys toyService = [''0xk1'', ''0xk2''] \<and>
   \<not> skipIndividualFetch (snd (searchMemories toyStaleListing [] None 50 toyService)) \<and>
   List.map_filter (pointFetch toyStaleListing toyService) [''0xk1'', ''0xk2''] =
     [memoryOfData (explorerUrl toyService) ''0xk1'' (toyData ''m1'' 120),
      memoryOfData (explorerUrl toyService) ''0xk2'' (toyData ''m2'' 75)] \<and>
   fst (searchMemories toyStaleListing [] None 50 toyService) =
     Inr [memoryOfData (explorerUrl toyService) ''0xk1'' (toyData ''m1'' 120),
          memoryOfData (explorerUrl toyService) ''0xk2'' (toyData ''m2'' 75)]"
proof -
  have b: "\<not> skipIndividualFetch toyService" and k: "entityKeys toyService = [''0xk1'', ''0xk2'']"
    by (simp_all add: toyService_def)
  have z: "queryFetch toyStaleListing (primaryQuery toyService 50) = Inr \<lparr>entities = [], morePages = []\<rparr>"
    by (simp add: toyStaleListing_def primaryQuery_def)
  have e: "enumerationFails toyStaleListing toyService"
    unfolding enumerationFails_def fetchOwnedEntities_def toyService_initialized
    by (simp add: toyStaleListing_def toyService_def)
  have g: "getEntity toyStaleListing = getEntity toyRemote"
    "JSON_parse toyStaleListing = JSON_parse toyRemote"
    by (simp_all add: toyStaleListing_def)
  have o: "\<not> truthy None" and en: "entities \<lparr>entities = [], morePages = []\<rparr> = []"
    by simp_all
  note inst = search_fallback_completeness [OF toyService_initialized b o z en e]
  have s: "snd (searchMemories toyStaleListing [] None 50 toyService)
      = logFetch ''0xk2'' (logFetch ''0xk1'' toyService)"
    using inst by (simp add: k toy_retrieveEach_state [OF g] del: retrieveEach.simps)
  then have n: "\<not> skipIndividualFetch (snd (searchMemories toyStaleListing [] None 50 toyService))"
    using b by simp
  have p: "List.map_filter (pointFetch toyStaleListing toyService) [''0xk1'', ''0xk2''] =
     [memoryOfData (explorerUrl toyService) ''0xk1'' (toyData ''m1'' 120),
      memoryOfData (explorerUrl toyService) ''0xk2'' (toyData ''m2'' 75)]"
    by (simp add: List.map_filter_simps toy_pointFetch [OF g])
  from inst n
  have "fst (searchMemories toyStaleListing [] None 50 toyService) =
     Inr (take 50 (List.map_filter (pointFetch toyStaleListing toyService) (entityKeys toyService)))"
    by blast
  then have f: "fst (searchMemories toyStaleListing [] None 50 toyService) =
     Inr [memoryOfData (explorerUrl toyService) ''0xk1'' (toyData ''m1'' 120),
          memoryOfData (explorerUrl toyService) ''0xk2'' (toyData ''m2'' 75)]"
    by (simp add: k List.map_filter_simps toy_pointFetch [OF g])
  from toyService_initialized b z e k n p f show ?thesis by simp
qed

text \<open>
  The claim as stated fails where the listings succeed with zero results: with an owner
  given, searchMemories returns the empty owner-filtered list before the fallback tier;
  without one, the fallback enumerates keys remotely, replaces the Local Key Index by the
  empty result and finds nothing, although both cached keys can be point-fetched.
\<close>

theorem search_fallback_completeness_counterexample:
  "entityKeys toyService = [''0xk1'', ''0xk2''] \<and>
   fst (retrieveEach toyRemote (entityKeys toyService) toyService) =
     [memoryOfData (explorerUrl toyService) ''0xk1'' (toyData ''m1'' 120),
      memoryOfData (explorerUrl toyService) ''0xk2'' (toyData ''m2'' 75)] \<and>
   \<not> skipIndividualFetch toyService \<and>
   fst (fetchOwnedEntities toyRemote True (Some 50) False toyService) = Inr [] \<and>
   fst (searchMemories toyRemote [] (Some ''0xAbC'') 50 toyService) = Inr [] \<and>
   fst (searchMemories toyRemote [] None 50 toyService) = Inr []"
proof -
  have k: "entityKeys toyService = [''0xk1'', ''0xk2'']" and b: "\<not> skipIndividualFetch toyService"
    by (simp_all add: toyService_def)
  have all: "entityToMemory_all toyRemote [] toyService = ([], toyService)"
    by (simp add: entityToMemory_all_def pendingFetches_def completionOrder_def enumerate_eq_zip)
  have f: "fetchOwnedEntities toyRemote p l fa toyService = (Inr [], toyService)" for p l fa
    unfolding fetchOwnedEntities_def toyService_initialized
    by (simp add: toyRemote_def toyService_def)
  have o: "fst (searchMemories toyRemote [] (Some ''0xAbC'') 50 toyService) = Inr []"
    by (simp add: searchMemories_def toyService_initialized searchMemories_try_def f all)
  have g: "getAllEntityKeys toyRemote toyService
      = ([], saveEntityKeysToStorage toyRemote (toyService\<lparr>entityKeys := []\<rparr>))"
    by (simp add: getAllEntityKeys_def f new_Set_def)
  have n: "fst (searchMemories toyRemote [] None 50 toyService) = Inr []"
    by (simp add: searchMemories_def toyService_initialized searchMemories_try_def f all b searchMemoriesFallback_def getAllMemoriesDirectly_def g)
  from k b f o n show ?thesis
    by (simp add: toy_retrieveEach del: retrieveEach.simps)
qed




end
